theory Spec2Isabelle
  imports Main
begin


section \<open>Errors, panics and logged effects\<close>

text \<open>
  A Go \<open>error\<close> value of \<open>box.go\<close>: \<open>os.ErrClosed\<close>, an error handed back by a
  collaborator (known by its message), or \<open>E.Cause(err, message...)\<close>, which wraps
  \<open>err\<close> under the concatenated message. A nil-able error is an \<open>error option\<close>.
\<close>

datatype error = ErrClosed | Msg string | Cause error string


text \<open>
  The value given to \<open>panic\<close>: any value, known by the text \<open>fmt.Sprint\<close> prints for it,
  or an error (what \<open>common.Must\<close> raises).
\<close>

datatype panic = PanicValue string | PanicError error


text \<open>A call either returns its value or panics.\<close>

datatype 'a res = Returned 'a | Panicked panic

text \<open>
  What one lifecycle call of a collaborator (\<open>Start\<close>, \<open>Close\<close>, \<open>PreStart\<close>,
  \<open>PostStart\<close>) does: it returns nil, returns an error, or panics.
\<close>

type_synonym outcome = "error option res"

text \<open>
  An aggregate error as \<open>Close\<close> returns it, seen as the list of its causes: nil is the
  empty list, a plain error \<open>e\<close> is \<open>[e]\<close>.
\<close>

type_synonym errors = "error list"

text \<open>
  Modelled from the spec: \<open>E.Append\<close> of the \<open>sing\<close> library, which is not under src/.
  The spec has every close failure wrapped and folded into the aggregate, and a nil
  aggregate when nothing failed: a nil \<open>other\<close> leaves \<open>err\<close> as it is, any other is
  wrapped by \<open>block\<close> and added after the causes already there.
\<close>

definition E_Append :: "errors \<Rightarrow> error option \<Rightarrow> (error \<Rightarrow> error) \<Rightarrow> errors" where
  "E_Append err other block = (case other of None \<Rightarrow> err | Some e \<Rightarrow> err @ [block e])"

text \<open>\<open>F.ToString(i)\<close> for a slice index: its decimal digits.\<close>

definition digit :: "nat \<Rightarrow> char" where
  "digit d = ''0123456789'' ! d"

function ToString :: "nat \<Rightarrow> string" where
  "ToString n = (if n < 10 then [digit n] else ToString (n div 10) @ [digit (n mod 10)])"
  by pat_completeness auto
termination
  by (relation "measure id") auto

declare ToString.simps [simp del]

text \<open>
  The subsystems the Box drives, named by where the Box holds them: a service by its key
  in \<open>preServices\<close> or \<open>postServices\<close>, a provider, inbound or outbound by its index in
  the Box's slice.
\<close>

datatype target =
    PreService string
  | PostService string
  | RuleProvider nat
  | ProxyProvider nat
  | Inbound nat
  | Outbound nat
  | Router
  | LogFactory

datatype lifecycle = MPreStart | MStart | MPostStart | MClose

subsection \<open>Configuration\<close>

text \<open>
  The parts of \<open>option.Options\<close> that \<open>New\<close> reads. Rules are opaque to the Box: a rule
  is known by its text.
\<close>

type_synonym Rule = string
type_synonym DNSRule = string

record inbound_options =
  io_Type :: string
  io_Tag :: string

record outbound_options =
  oo_Type :: string
  oo_Tag :: string

record proxyprovider_options =
  ppo_Tag :: string

record ruleprovider_options =
  rpo_Tag :: string

text \<open>
  \<open>ClashAPI\<close> and \<open>PlatformInterface\<close> are pointers of which \<open>New\<close> only tests for nil;
  \<open>V2RayAPI_Listen\<close> is \<open>None\<close> when \<open>Experimental.V2RayAPI\<close> is nil. For a platform
  interface, \<open>PlatformInterface\<close> holds what its \<open>Initialize\<close> returns.
\<close>

record Options =
  Route_Rules :: "Rule list"
  DNS_Rules :: "DNSRule list"
  Inbounds :: "inbound_options list"
  Outbounds :: "outbound_options list"
  ProxyProviders :: "proxyprovider_options list"
  RulProviders :: "ruleprovider_options list"
  ClashAPI :: bool
  V2RayAPI_Listen :: "string option"
  PlatformInterface :: "error option option"

subsection \<open>Collaborators\<close>

text \<open>
  Each collaborator is given by what the Box can observe of it: its \<open>Tag()\<close> and
  \<open>Type()\<close>, and the outcome of each lifecycle call.
\<close>

text \<open>
  \<open>adapter.Service\<close>. \<open>sv_PreStart\<close> is \<open>None\<close> when the service does not implement
  \<open>adapter.PreStarter\<close>; \<open>sv_String\<close> is the text the logger prints for the value.
\<close>

record adapter_Service =
  sv_String :: string
  sv_PreStart :: "outcome option"
  sv_Start :: outcome
  sv_Close :: outcome

record adapter_Inbound =
  in_Type :: string
  in_Tag :: string
  in_Start :: outcome
  in_Close :: outcome

text \<open>
  \<open>adapter.Outbound\<close>. \<open>ob_PostStart\<close> is \<open>None\<close> when the outbound does not implement
  \<open>adapter.PostStarter\<close>; \<open>ob_Close\<close> is what \<open>common.Close(out)\<close> does.
\<close>

record adapter_Outbound =
  ob_Type :: string
  ob_Tag :: string
  ob_String :: string
  ob_Start :: outcome
  ob_PostStart :: "outcome option"
  ob_Close :: outcome

record adapter_ProxyProvider =
  pp_Tag :: string
  pp_StartGetOutbounds :: "error + outbound_options list"
  pp_Start :: outcome
  pp_Close :: outcome

text \<open>
  \<open>rp_FormatRule dnsRules routeRules\<close>: the two arguments are the pointers \<open>New\<close> passes
  (\<open>None\<close> is nil); the provider is taken not to write through them.
\<close>

record adapter_RuleProvider =
  rp_Tag :: string
  rp_FormatRule :: "DNSRule list option \<Rightarrow> Rule list option \<Rightarrow> error + (DNSRule list \<times> Rule list)"
  rp_Start :: outcome
  rp_Close :: outcome

text \<open>
  Modelled from the spec: \<open>Router.Initialize\<close>, of \<open>route/router.go\<close>, which is not under
  src/. By the spec the router invokes the default-outbound factory only if no direct
  outbound is otherwise reachable, and at most once: \<open>rt_Initialize\<close> answers whether it
  invokes the factory, and the error it returns.
\<close>

record adapter_Router =
  rt_Initialize :: "adapter_Inbound list \<Rightarrow> adapter_Outbound list \<Rightarrow>
     adapter_ProxyProvider list \<Rightarrow> adapter_RuleProvider list \<Rightarrow> bool \<times> error option"
  rt_Start :: outcome
  rt_Close :: outcome

record log_Factory =
  lf_Close :: outcome

subsection \<open>Effects\<close>

text \<open>
  What a run of the Box does to the world, in order: the lines it logs and the calls it
  makes on its collaborators. The elapsed time that \<open>Info\<close> prints is left out.
\<close>

datatype event =
    Trace string
  | Info string
  | LogError error
  | PrintStack
  | Call target lifecycle
  | NewLogger string
  | NewRuleProvider string ruleprovider_options
  | FormatRule nat "DNSRule list option" "Rule list option"
  | NewRouter "Rule list" "DNSRule list"
  | SetRouter nat
  | NewInbound inbound_options
  | NewOutbound string outbound_options
  | NewProxyProvider string proxyprovider_options
  | StartGetOutbounds nat
  | Initialize "adapter_Inbound list" "adapter_Outbound list"
      "adapter_ProxyProvider list" "adapter_RuleProvider list"
  | DefaultOutbound
  | PlatformInitialize
  | NewClashServer
  | SetClashServer
  | NewV2RayServer
  | SetV2RayServer

text \<open>A piece of the program: the events it emits, and its value or its panic.\<close>

type_synonym 'a prog = "event list \<times> 'a res"

definition ret :: "'a \<Rightarrow> 'a prog" where
  "ret x = ([], Returned x)"

definition emit :: "event \<Rightarrow> unit prog" where
  "emit e = ([e], Returned ())"

definition raise :: "panic \<Rightarrow> 'a prog" where
  "raise v = ([], Panicked v)"

text \<open>Sequencing: a panic ends the run, keeping the events emitted so far.\<close>

definition bind_prog :: "'a prog \<Rightarrow> ('a \<Rightarrow> 'b prog) \<Rightarrow> 'b prog" where
  "bind_prog m f =
     (case m of
        (evs, Panicked v) \<Rightarrow> (evs, Panicked v)
      | (evs, Returned x) \<Rightarrow> (case f x of (evs', r) \<Rightarrow> (evs @ evs', r)))"

text \<open>\<open>err := m; if err != nil { return err }\<close>, then the rest \<open>k\<close>.\<close>

definition or_return :: "error option prog \<Rightarrow> error option prog \<Rightarrow> error option prog" where
  "or_return m k = bind_prog m (\<lambda>err. case err of Some e \<Rightarrow> ret (Some e) | None \<Rightarrow> k)"

text \<open>A lifecycle call on a collaborator.\<close>

definition call :: "target \<Rightarrow> lifecycle \<Rightarrow> outcome \<Rightarrow> error option prog" where
  "call t m oc = ([Call t m], oc)"

text \<open>
  A \<open>for ... range\<close> loop whose body may \<open>return\<close> an error from the enclosing function:
  the body answers \<open>Some err\<close> to return \<open>err\<close>, \<open>None\<close> to go on.
\<close>

fun for_each :: "'a list \<Rightarrow> ('a \<Rightarrow> error option prog) \<Rightarrow> error option prog" where
  "for_each [] body = ret None"
| "for_each (x # xs) body = or_return (body x) (for_each xs body)"

text \<open>A \<open>for ... range\<close> loop that updates a variable (\<open>errors\<close> in \<open>Close\<close>) and never returns early.\<close>

fun for_each_acc :: "'a list \<Rightarrow> ('a \<Rightarrow> 's \<Rightarrow> 's prog) \<Rightarrow> 's \<Rightarrow> 's prog" where
  "for_each_acc [] body acc = ret acc"
| "for_each_acc (x # xs) body acc = bind_prog (body x acc) (for_each_acc xs body)"

subsection \<open>Go maps and their iteration order\<close>

text \<open>
  \<open>preServices\<close> and \<open>postServices\<close> are Go maps. A \<open>range\<close> over a map visits every key
  once, in an order the runtime chooses anew each time. The order chosen at each
  \<open>range\<close> statement of \<open>box.go\<close> is an input of the model (a schedule);
  \<open>range_order\<close> says which orders the runtime can choose.
\<close>

definition range_order :: "(string \<rightharpoonup> 'v) \<Rightarrow> string list \<Rightarrow> bool" where
  "range_order m ks \<longleftrightarrow> distinct ks \<and> set ks = dom m"

definition range_map :: "(string \<rightharpoonup> 'v) \<Rightarrow> string list \<Rightarrow> (string \<times> 'v) list" where
  "range_map m ks = List.map_filter (\<lambda>k. map_option (Pair k) (m k)) ks"

datatype range_site =
    Range_preStart
  | Range_start
  | Range_postStart
  | Range_Close_post
  | Range_Close_pre

type_synonym schedule = "range_site \<Rightarrow> string list"

subsection \<open>The reload channel\<close>

text \<open>
  A buffered \<open>chan struct{}\<close>: its capacity and the number of values waiting in it.
\<close>

record chan =
  capacity :: nat
  pending :: nat

definition make_chan :: "nat \<Rightarrow> chan" where
  "make_chan n = \<lparr>capacity = n, pending = 0\<rparr>"

section \<open>The Box\<close>

text \<open>
  \<open>done_chan\<close> is the \<open>done\<close> channel: \<open>True\<close> once \<open>close(s.done)\<close> has run.
  \<open>createdAt\<close> and \<open>logger\<close> are left out: the logger is where \<open>Trace\<close> and \<open>Info\<close> go.
\<close>

record Box =
  router :: adapter_Router
  inbounds :: "adapter_Inbound list"
  outbounds :: "adapter_Outbound list"
  proxyProviders :: "adapter_ProxyProvider list"
  ruleProviders :: "adapter_RuleProvider list"
  logFactory :: log_Factory
  preServices :: "string \<rightharpoonup> adapter_Service"
  postServices :: "string \<rightharpoonup> adapter_Service"
  reloadChan :: chan
  done_chan :: bool

definition valid_schedule :: "schedule \<Rightarrow> Box \<Rightarrow> bool" where
  "valid_schedule sch s \<longleftrightarrow>
     range_order (preServices s) (sch Range_preStart) \<and>
     range_order (preServices s) (sch Range_start) \<and>
     range_order (postServices s) (sch Range_postStart) \<and>
     range_order (postServices s) (sch Range_Close_post) \<and>
     range_order (preServices s) (sch Range_Close_pre)"

subsection \<open>Close\<close>

text \<open>
  One step of the teardown: \<open>s.logger.Trace(msg)\<close>, then
  \<open>errors = E.Append(errors, x.Close(), func(err) { return E.Cause(err, wrap) })\<close>.
\<close>

definition closing :: "string \<Rightarrow> target \<Rightarrow> outcome \<Rightarrow> string \<Rightarrow> errors \<Rightarrow> errors prog" where
  "closing msg t oc wrap errors =
     bind_prog (emit (Trace msg)) (\<lambda>_.
     bind_prog (call t MClose oc) (\<lambda>err.
     ret (E_Append errors err (\<lambda>err. Cause err wrap))))"

text \<open>The body of \<open>Close\<close> after the \<open>select\<close> on \<open>s.done\<close>.\<close>

definition teardown :: "schedule \<Rightarrow> Box \<Rightarrow> errors prog" where
  "teardown sch s =
     bind_prog (for_each_acc (range_map (postServices s) (sch Range_Close_post))
        (\<lambda>(serviceName, service).
           closing (''closing '' @ serviceName) (PostService serviceName) (sv_Close service)
             (''close '' @ serviceName)) []) (\<lambda>errors.
     bind_prog (for_each_acc (enumerate 0 (ruleProviders s))
        (\<lambda>(i, ruleProvider).
           closing (''closing ruleprovider '' @ rp_Tag ruleProvider) (RuleProvider i)
             (rp_Close ruleProvider) (''close ruleprovider '' @ rp_Tag ruleProvider)) errors) (\<lambda>errors.
     bind_prog (for_each_acc (enumerate 0 (proxyProviders s))
        (\<lambda>(i, proxyProvider).
           closing (''closing proxyprovider '' @ pp_Tag proxyProvider) (ProxyProvider i)
             (pp_Close proxyProvider) (''close proxyprovider '' @ pp_Tag proxyProvider)) errors) (\<lambda>errors.
     bind_prog (for_each_acc (enumerate 0 (inbounds s))
        (\<lambda>(i, inb).
           closing (''closing inbound/'' @ in_Type inb @ ''['' @ ToString i @ '']'') (Inbound i)
             (in_Close inb) (''close inbound/'' @ in_Type inb @ ''['' @ ToString i @ '']'')) errors) (\<lambda>errors.
     bind_prog (for_each_acc (enumerate 0 (outbounds s))
        (\<lambda>(i, out).
           closing (''closing outbound/'' @ ob_Type out @ ''['' @ ToString i @ '']'') (Outbound i)
             (ob_Close out) (''close outbound/'' @ ob_Type out @ ''['' @ ToString i @ '']'')) errors) (\<lambda>errors.
     bind_prog (closing ''closing router'' Router (rt_Close (router s)) ''close router'' errors) (\<lambda>errors.
     bind_prog (for_each_acc (range_map (preServices s) (sch Range_Close_pre))
        (\<lambda>(serviceName, service).
           closing (''closing '' @ serviceName) (PreService serviceName) (sv_Close service)
             (''close '' @ serviceName)) errors) (\<lambda>errors.
     closing ''closing log factory'' LogFactory (lf_Close (logFactory s)) ''close log factory'' errors)))))))"

text \<open>
  \<open>Close\<close>: the Box after the call, the events of the call, and what it returns.
  \<open>os.ErrClosed\<close> when \<open>s.done\<close> is closed already; otherwise \<open>s.done\<close> is closed and the
  teardown runs.
\<close>

definition Close :: "schedule \<Rightarrow> Box \<Rightarrow> Box \<times> errors prog" where
  "Close sch s =
     (if done_chan s then (s, ret [ErrClosed])
      else (s\<lparr>done_chan := True\<rparr>, teardown sch s))"

subsection \<open>Starting\<close>

text \<open>
  One step of a start stage: \<open>s.logger.Trace(msg)\<close>, then \<open>err = x.M()\<close> and
  \<open>if err != nil { return E.Cause(err, wrap) }\<close>.
\<close>

definition starting :: "string \<Rightarrow> target \<Rightarrow> lifecycle \<Rightarrow> outcome \<Rightarrow> string \<Rightarrow> error option prog" where
  "starting msg t m oc wrap =
     bind_prog (emit (Trace msg)) (\<lambda>_.
     bind_prog (call t m oc) (\<lambda>err.
     ret (map_option (\<lambda>err. Cause err wrap) err)))"

text \<open>
  Modelled from the spec: \<open>Box.startOutbounds\<close>, of another file of the repository that
  is not under src/. By the spec \<open>PreStart\<close> starts every outbound, any failure
  short-circuits, and the returned error is wrapped with the name of the failing stage.
  The model starts the outbounds in list order and stops at the first failure. The spec
  does not give the text of the name: it is written the way \<open>start\<close> names an inbound,
  the kind, the type, and the tag (the index when the tag is empty).
\<close>

definition startOutbounds :: "Box \<Rightarrow> error option prog" where
  "startOutbounds s =
     for_each (enumerate 0 (outbounds s))
        (\<lambda>(i, out).
           let tag = (if ob_Tag out = [] then ToString i else ob_Tag out) in
           bind_prog (call (Outbound i) MStart (ob_Start out)) (\<lambda>err.
           ret (map_option (\<lambda>err. Cause err (''initialize outbound/'' @ ob_Type out @ ''['' @ tag @ '']'')) err)))"

definition preStart :: "schedule \<Rightarrow> Box \<Rightarrow> error option prog" where
  "preStart sch s =
     or_return (for_each (range_map (preServices s) (sch Range_preStart))
        (\<lambda>(serviceName, service).
           case sv_PreStart service of
             None \<Rightarrow> ret None
           | Some preService \<Rightarrow>
               starting (''pre-start '' @ serviceName) (PreService serviceName) MPreStart preService
                 (''pre-starting '' @ serviceName)))
    (or_return (startOutbounds s)
    (call Router MStart (rt_Start (router s))))"

definition start :: "schedule \<Rightarrow> Box \<Rightarrow> error option prog" where
  "start sch s =
     or_return (preStart sch s)
    (or_return (for_each (range_map (preServices s) (sch Range_start))
        (\<lambda>(serviceName, service).
           starting (''starting '' @ serviceName) (PreService serviceName) MStart (sv_Start service)
             (''start '' @ serviceName)))
    (or_return (for_each (enumerate 0 (proxyProviders s))
        (\<lambda>(i, proxyProvider).
           starting (''starting proxyprovider '' @ pp_Tag proxyProvider) (ProxyProvider i) MStart
             (pp_Start proxyProvider) (''start proxyprovider '' @ pp_Tag proxyProvider)))
    (or_return (for_each (enumerate 0 (ruleProviders s))
        (\<lambda>(i, ruleProvider).
           starting (''starting ruleprovider '' @ rp_Tag ruleProvider) (RuleProvider i) MStart
             (rp_Start ruleProvider) (''start ruleprovider '' @ rp_Tag ruleProvider)))
    (or_return (for_each (enumerate 0 (inbounds s))
        (\<lambda>(i, inb).
           let tag = (if in_Tag inb = [] then ToString i else in_Tag inb) in
           starting (''initializing inbound/'' @ in_Type inb @ ''['' @ tag @ '']'') (Inbound i) MStart
             (in_Start inb) (''initialize inbound/'' @ in_Type inb @ ''['' @ tag @ '']'')))
    (ret None)))))"

definition postStart :: "schedule \<Rightarrow> Box \<Rightarrow> error option prog" where
  "postStart sch s =
     or_return (for_each (range_map (postServices s) (sch Range_postStart))
        (\<lambda>(serviceName, service).
           starting (''starting '' @ sv_String service) (PostService serviceName) MStart
             (sv_Start service) (''start '' @ serviceName)))
    (or_return (for_each (enumerate 0 (outbounds s))
        (\<lambda>(serviceName, service).
           case ob_PostStart service of
             None \<Rightarrow> ret None
           | Some lateService \<Rightarrow>
               starting (''post-starting '' @ ob_String service) (Outbound serviceName) MPostStart
                 lateService (''post-start '' @ ToString serviceName)))
    (ret None))"





section \<open>The teardown order of the spec\<close>

text \<open>
  Follows the spec's words: post-services, rule providers, proxy providers, inbounds
  (index order), outbounds (index order), router, pre-services, log factory.
\<close>

definition close_targets :: "schedule \<Rightarrow> Box \<Rightarrow> target list" where
  "close_targets sch s =
     map PostService (sch Range_Close_post) @
     map RuleProvider [0..<length (ruleProviders s)] @
     map ProxyProvider [0..<length (proxyProviders s)] @
     map Inbound [0..<length (inbounds s)] @
     map Outbound [0..<length (outbounds s)] @
     [Router] @
     map PreService (sch Range_Close_pre) @
     [LogFactory]"

text \<open>Every subsystem the Box holds.\<close>

definition subsystems :: "Box \<Rightarrow> target set" where
  "subsystems s =
     PostService ` dom (postServices s) \<union>
     RuleProvider ` {..<length (ruleProviders s)} \<union>
     ProxyProvider ` {..<length (proxyProviders s)} \<union>
     Inbound ` {..<length (inbounds s)} \<union>
     Outbound ` {..<length (outbounds s)} \<union>
     {Router} \<union>
     PreService ` dom (preServices s) \<union>
     {LogFactory}"

text \<open>
  What closing a subsystem does, and the name \<open>Close\<close> gives it: \<open>Close\<close> logs
  "closing " and wraps a failure under "close ", each followed by this name. A target the
  Box does not hold has no entry.
\<close>

definition close_of :: "Box \<Rightarrow> target \<Rightarrow> (outcome \<times> string) option" where
  "close_of s t =
     (case t of
        PostService k \<Rightarrow> map_option (\<lambda>sv. (sv_Close sv, k)) (postServices s k)
      | PreService k \<Rightarrow> map_option (\<lambda>sv. (sv_Close sv, k)) (preServices s k)
      | RuleProvider i \<Rightarrow>
          (if i < length (ruleProviders s)
           then Some (rp_Close (ruleProviders s ! i), ''ruleprovider '' @ rp_Tag (ruleProviders s ! i))
           else None)
      | ProxyProvider i \<Rightarrow>
          (if i < length (proxyProviders s)
           then Some (pp_Close (proxyProviders s ! i), ''proxyprovider '' @ pp_Tag (proxyProviders s ! i))
           else None)
      | Inbound i \<Rightarrow>
          (if i < length (inbounds s)
           then Some (in_Close (inbounds s ! i),
                  ''inbound/'' @ in_Type (inbounds s ! i) @ ''['' @ ToString i @ '']'')
           else None)
      | Outbound i \<Rightarrow>
          (if i < length (outbounds s)
           then Some (ob_Close (outbounds s ! i),
                  ''outbound/'' @ ob_Type (outbounds s ! i) @ ''['' @ ToString i @ '']'')
           else None)
      | Router \<Rightarrow> Some (rt_Close (router s), ''router'')
      | LogFactory \<Rightarrow> Some (lf_Close (logFactory s), ''log factory''))"

text \<open>The events of closing one subsystem: the log line, then the call.\<close>

definition close_events :: "Box \<Rightarrow> target \<Rightarrow> event list" where
  "close_events s t =
     (case close_of s t of
        Some (oc, name) \<Rightarrow> [Trace (''closing '' @ name), Call t MClose]
      | None \<Rightarrow> [])"

text \<open>The wrapped failure of closing one subsystem: nothing when its close returns nil.\<close>

definition failure_of :: "Box \<Rightarrow> target \<Rightarrow> errors" where
  "failure_of s t =
     (case close_of s t of
        Some (Returned (Some err), name) \<Rightarrow> [Cause err (''close '' @ name)]
      | _ \<Rightarrow> [])"

text \<open>Closing the subsystem returns (with nil or an error): it does not panic.\<close>

definition close_returns :: "Box \<Rightarrow> target \<Rightarrow> bool" where
  "close_returns s t =
     (case close_of s t of Some (Returned _, _) \<Rightarrow> True | _ \<Rightarrow> False)"

definition close_clean :: "Box \<Rightarrow> target \<Rightarrow> bool" where
  "close_clean s t =
     (case close_of s t of Some (Returned None, _) \<Rightarrow> True | _ \<Rightarrow> False)"

text \<open>The lifecycle calls among the events of a run.\<close>

fun is_Call :: "event \<Rightarrow> bool" where
  "is_Call (Call t m) = True"
| "is_Call _ = False"

definition calls :: "event list \<Rightarrow> event list" where
  "calls evs = filter is_Call evs"

text \<open>What one close adds to the aggregate: its failure under \<open>wrap\<close>, or nothing.\<close>

definition fail_of :: "outcome \<Rightarrow> string \<Rightarrow> errors" where
  "fail_of oc wrap = (case oc of Returned (Some err) \<Rightarrow> [Cause err wrap] | _ \<Rightarrow> [])"

section \<open>What a failing start returns\<close>




section \<open>New\<close>

text \<open>
  The constructors of the other packages (\<open>log.New\<close>, \<open>ruleprovider.NewRuleProvider\<close>,
  \<open>route.NewRouter\<close>, \<open>inbound.New\<close>, \<open>outbound.New\<close>,
  \<open>proxyprovider.NewProxyProvider\<close>, \<open>experimental.NewClashServer\<close>,
  \<open>experimental.NewV2RayServer\<close>), none of them under src/: parameters of the model.
  A constructor gets the name of the logger made for it, the tag where \<open>New\<close> passes one,
  and its options; it answers the object or an error. \<open>log_New\<close> gets \<open>Observable\<close>.
\<close>

record env =
  log_New :: "bool \<Rightarrow> error + log_Factory"
  ruleprovider_NewRuleProvider :: "string \<Rightarrow> string \<Rightarrow> ruleprovider_options \<Rightarrow> error + adapter_RuleProvider"
  route_NewRouter :: "Rule list \<Rightarrow> DNSRule list \<Rightarrow> inbound_options list \<Rightarrow> error + adapter_Router"
  inbound_New :: "string \<Rightarrow> inbound_options \<Rightarrow> error + adapter_Inbound"
  outbound_New :: "string \<Rightarrow> string \<Rightarrow> outbound_options \<Rightarrow> error + adapter_Outbound"
  proxyprovider_NewProxyProvider :: "string \<Rightarrow> string \<Rightarrow> proxyprovider_options \<Rightarrow> error + adapter_ProxyProvider"
  experimental_NewClashServer :: "error + adapter_Service"
  experimental_NewV2RayServer :: "error + adapter_Service"

text \<open>Emits \<open>evs\<close>, then goes on with \<open>k\<close>.\<close>

definition emits :: "event list \<Rightarrow> 'a prog \<Rightarrow> 'a prog" where
  "emits evs k = (evs @ fst k, snd k)"

text \<open>\<open>x, err := f(...); if err != nil { return nil, wrap(err) }\<close>, then the rest \<open>k x\<close>.\<close>

definition attempt :: "error + 'a \<Rightarrow> (error \<Rightarrow> error) \<Rightarrow> ('a \<Rightarrow> (error + 'b) prog) \<Rightarrow> (error + 'b) prog" where
  "attempt r wrap k = (case r of Inl err \<Rightarrow> ret (Inl (wrap err)) | Inr x \<Rightarrow> k x)"

text \<open>Runs \<open>m\<close>; an error it returns is what \<open>New\<close> returns, otherwise the rest \<open>k\<close> runs.\<close>

definition and_then :: "(error + 'a) prog \<Rightarrow> ('a \<Rightarrow> (error + 'b) prog) \<Rightarrow> (error + 'b) prog" where
  "and_then m k = bind_prog m (\<lambda>r. case r of Inl err \<Rightarrow> ret (Inl err) | Inr x \<Rightarrow> k x)"

text \<open>
  A \<open>for ... range\<close> loop of \<open>New\<close>: the body updates the variables \<open>st\<close> or makes \<open>New\<close>
  return an error.
\<close>

fun for_each_try :: "'a list \<Rightarrow> ('a \<Rightarrow> 's \<Rightarrow> (error + 's) prog) \<Rightarrow> 's \<Rightarrow> (error + 's) prog" where
  "for_each_try [] body st = ret (Inr st)"
| "for_each_try (x # xs) body st = and_then (body x st) (for_each_try xs body)"

text \<open>
  The tag \<open>New\<close> computes for the \<open>i\<close>-th configured item: its \<open>Tag\<close> when that is not
  empty, else \<open>F.ToString(i)\<close>.
\<close>

definition assign_tag :: "nat \<Rightarrow> string \<Rightarrow> string" where
  "assign_tag i tag = (if tag \<noteq> [] then tag else ToString i)"

definition needClashAPI :: "Options \<Rightarrow> bool" where
  "needClashAPI options \<longleftrightarrow> ClashAPI options \<or> PlatformInterface options \<noteq> None"

definition needV2RayAPI :: "Options \<Rightarrow> bool" where
  "needV2RayAPI options \<longleftrightarrow> (case V2RayAPI_Listen options of None \<Rightarrow> False | Some listen \<Rightarrow> listen \<noteq> [])"

text \<open>
  The body of the loop over \<open>options.RulProviders\<close>. The variables are the route rules,
  the DNS rules and \<open>ruleProviders\<close>. \<open>FormatRule\<close> is called for every provider; a rule
  list is passed to it (as a pointer) only when it is not empty, and replaced by the
  list that comes back only when it is not empty.
\<close>

definition new_ruleProvider :: "env \<Rightarrow> nat \<times> ruleprovider_options \<Rightarrow>
    Rule list \<times> DNSRule list \<times> adapter_RuleProvider list \<Rightarrow>
    (error + Rule list \<times> DNSRule list \<times> adapter_RuleProvider list) prog" where
  "new_ruleProvider env = (\<lambda>(i, ruleProviderOptions) (routeRules, dnsRules, ruleProviders).
     let tag = assign_tag i (rpo_Tag ruleProviderOptions);
         ruleProviderOptions = ruleProviderOptions\<lparr>rpo_Tag := tag\<rparr> in
     emits [NewLogger (''ruleprovider['' @ tag @ '']''), NewRuleProvider tag ruleProviderOptions]
    (attempt (ruleprovider_NewRuleProvider env (''ruleprovider['' @ tag @ '']'') tag ruleProviderOptions)
       (\<lambda>err. Cause err (''parse ruleprovider['' @ ToString i @ '']'')) (\<lambda>rp.
     let routeArg = (if routeRules \<noteq> [] then Some routeRules else None);
         dnsArg = (if dnsRules \<noteq> [] then Some dnsRules else None) in
     emits [FormatRule i dnsArg routeArg]
    (attempt (rp_FormatRule rp dnsArg routeArg)
       (\<lambda>err. Cause err (''ruleprovider['' @ ToString i @ ''] format rule'')) (\<lambda>(newDNSRules, newRouteRules).
     ret (Inr (if routeRules \<noteq> [] then newRouteRules else routeRules,
               if dnsRules \<noteq> [] then newDNSRules else dnsRules,
               ruleProviders @ [rp])))))))"

text \<open>The body of the loop over \<open>options.Inbounds\<close>: the tag only names the logger.\<close>

definition new_inbound :: "env \<Rightarrow> nat \<times> inbound_options \<Rightarrow> adapter_Inbound list \<Rightarrow>
    (error + adapter_Inbound list) prog" where
  "new_inbound env = (\<lambda>(i, inboundOptions) inbounds.
     let tag = assign_tag i (io_Tag inboundOptions);
         logger = ''inbound/'' @ io_Type inboundOptions @ ''['' @ tag @ '']'' in
     emits [NewLogger logger, NewInbound inboundOptions]
    (attempt (inbound_New env logger inboundOptions)
       (\<lambda>err. Cause err (''parse inbound['' @ ToString i @ '']'')) (\<lambda>inb.
     ret (Inr (inbounds @ [inb])))))"

text \<open>The body of the loop over \<open>options.Outbounds\<close>.\<close>

definition new_outbound :: "env \<Rightarrow> nat \<times> outbound_options \<Rightarrow> adapter_Outbound list \<Rightarrow>
    (error + adapter_Outbound list) prog" where
  "new_outbound env = (\<lambda>(i, outboundOptions) outbounds.
     let tag = assign_tag i (oo_Tag outboundOptions);
         logger = ''outbound/'' @ oo_Type outboundOptions @ ''['' @ tag @ '']'' in
     emits [NewLogger logger, NewOutbound tag outboundOptions]
    (attempt (outbound_New env logger tag outboundOptions)
       (\<lambda>err. Cause err (''parse outbound['' @ ToString i @ '']'')) (\<lambda>out.
     ret (Inr (outbounds @ [out])))))"

text \<open>
  The body of the inner loop over the outbound options a proxy provider returned: the tag
  is the \<open>Tag\<close> of the options, as it is.
\<close>

definition new_provider_outbound :: "env \<Rightarrow> adapter_ProxyProvider \<Rightarrow> nat \<times> outbound_options \<Rightarrow>
    adapter_Outbound list \<Rightarrow> (error + adapter_Outbound list) prog" where
  "new_provider_outbound env pp = (\<lambda>(i, outboundOptions) outbounds.
     let tag = oo_Tag outboundOptions;
         logger = ''outbound/'' @ oo_Type outboundOptions @ ''['' @ tag @ '']'' in
     emits [NewLogger logger, NewOutbound tag outboundOptions]
    (attempt (outbound_New env logger tag outboundOptions)
       (\<lambda>err. Cause err (''parse proxyprovider ['' @ pp_Tag pp @ ''] outbound['' @ ToString i @ '']'')) (\<lambda>out.
     ret (Inr (outbounds @ [out])))))"

text \<open>The body of the loop over \<open>options.ProxyProviders\<close>; the variables are \<open>outbounds\<close> and \<open>proxyProviders\<close>.\<close>

definition new_proxyProvider :: "env \<Rightarrow> nat \<times> proxyprovider_options \<Rightarrow>
    adapter_Outbound list \<times> adapter_ProxyProvider list \<Rightarrow>
    (error + adapter_Outbound list \<times> adapter_ProxyProvider list) prog" where
  "new_proxyProvider env = (\<lambda>(i, proxyProviderOptions) (outbounds, proxyProviders).
     let tag = assign_tag i (ppo_Tag proxyProviderOptions);
         proxyProviderOptions = proxyProviderOptions\<lparr>ppo_Tag := tag\<rparr> in
     emits [NewLogger (''proxyprovider['' @ tag @ '']''), NewProxyProvider tag proxyProviderOptions]
    (attempt (proxyprovider_NewProxyProvider env (''proxyprovider['' @ tag @ '']'') tag proxyProviderOptions)
       (\<lambda>err. Cause err (''parse proxyprovider['' @ ToString i @ '']'')) (\<lambda>pp.
     emits [StartGetOutbounds i]
    (attempt (pp_StartGetOutbounds pp)
       (\<lambda>err. Cause err (''get outbounds from proxyprovider['' @ ToString i @ '']'')) (\<lambda>outboundOptions.
     and_then (for_each_try (enumerate 0 outboundOptions) (new_provider_outbound env pp) outbounds) (\<lambda>outbounds.
     ret (Inr (outbounds, proxyProviders @ [pp]))))))))"

text \<open>The local variables of \<open>New\<close> when it reaches \<open>router.Initialize\<close>.\<close>

record wiring =
  w_logFactory :: log_Factory
  w_ruleProviders :: "adapter_RuleProvider list"
  w_router :: adapter_Router
  w_inbounds :: "adapter_Inbound list"
  w_outbounds :: "adapter_Outbound list"
  w_proxyProviders :: "adapter_ProxyProvider list"

text \<open>
  \<open>New\<close> up to the call of \<open>router.Initialize\<close>. The context, the debug options and the
  NTP options are left out; so is the test \<open>len(...) > 0\<close> around the two provider loops,
  which run no step on an empty list.
\<close>

definition New_wire :: "env \<Rightarrow> Options \<Rightarrow> (error + wiring) prog" where
  "New_wire env options =
     attempt (log_New env (needClashAPI options)) (\<lambda>err. Cause err ''create log factory'') (\<lambda>logFactory.
     and_then (for_each_try (enumerate 0 (RulProviders options)) (new_ruleProvider env)
                 (Route_Rules options, DNS_Rules options, [])) (\<lambda>(routeRules, dnsRules, ruleProviders).
     emits [NewRouter routeRules dnsRules]
    (attempt (route_NewRouter env routeRules dnsRules (Inbounds options))
       (\<lambda>err. Cause err ''parse route options'') (\<lambda>router.
     emits (map SetRouter [0..<length ruleProviders])
    (and_then (for_each_try (enumerate 0 (Inbounds options)) (new_inbound env) []) (\<lambda>inbounds.
     and_then (for_each_try (enumerate 0 (Outbounds options)) (new_outbound env) []) (\<lambda>outbounds.
     and_then (for_each_try (enumerate 0 (ProxyProviders options)) (new_proxyProvider env) (outbounds, []))
       (\<lambda>(outbounds, proxyProviders).
     ret (Inr \<lparr>w_logFactory = logFactory, w_ruleProviders = ruleProviders, w_router = router,
            w_inbounds = inbounds, w_outbounds = outbounds, w_proxyProviders = proxyProviders\<rparr>)))))))))"

text \<open>
  The default-outbound factory that \<open>New\<close> hands to \<open>router.Initialize\<close>: it builds a
  direct outbound (logger "outbound/direct", tag argument "direct", options of type
  "direct" and tag "default"), appends it to \<open>outbounds\<close> and returns it. Its type has no
  error result: \<open>common.Must(oErr)\<close> panics with the error when there is one.
\<close>

definition default_options :: outbound_options where
  "default_options = \<lparr>oo_Type = ''direct'', oo_Tag = ''default''\<rparr>"

definition default_outbound :: "env \<Rightarrow> adapter_Outbound list \<Rightarrow> adapter_Outbound list prog" where
  "default_outbound env = (\<lambda>outbounds.
     emits [DefaultOutbound, NewLogger ''outbound/direct'', NewOutbound ''direct'' default_options]
    (case outbound_New env ''outbound/direct'' ''direct'' default_options of
       Inl oErr \<Rightarrow> raise (PanicError oErr)
     | Inr out \<Rightarrow> ret (outbounds @ [out])))"

definition platform_Initialize :: "Options \<Rightarrow> (error + unit) prog" where
  "platform_Initialize options =
     (case PlatformInterface options of
        None \<Rightarrow> ret (Inr ())
      | Some r \<Rightarrow>
          emits [PlatformInitialize]
            (case r of
               Some err \<Rightarrow> ret (Inl (Cause err ''initialize platform interface''))
             | None \<Rightarrow> ret (Inr ())))"

definition new_clashServer :: "env \<Rightarrow> Options \<Rightarrow> (string \<rightharpoonup> adapter_Service) \<Rightarrow>
    (error + (string \<rightharpoonup> adapter_Service)) prog" where
  "new_clashServer env options = (\<lambda>preServices.
     (if needClashAPI options then
        emits [NewClashServer]
       (attempt (experimental_NewClashServer env) (\<lambda>err. Cause err ''create clash api server'') (\<lambda>clashServer.
        emits [SetClashServer]
       (ret (Inr (preServices(''clash api'' \<mapsto> clashServer))))))
      else ret (Inr preServices)))"

definition new_v2rayServer :: "env \<Rightarrow> Options \<Rightarrow> (string \<rightharpoonup> adapter_Service) \<Rightarrow>
    (error + (string \<rightharpoonup> adapter_Service)) prog" where
  "new_v2rayServer env options = (\<lambda>preServices.
     (if needV2RayAPI options then
        emits [NewLogger ''v2ray-api'', NewV2RayServer]
       (attempt (experimental_NewV2RayServer env) (\<lambda>err. Cause err ''create v2ray api server'') (\<lambda>v2rayServer.
        emits [SetV2RayServer]
       (ret (Inr (preServices(''v2ray api'' \<mapsto> v2rayServer))))))
      else ret (Inr preServices)))"

text \<open>
  \<open>New\<close> from the call of \<open>router.Initialize\<close> on. The router answers whether it invokes
  the factory (which then runs, once) and the error it returns; an error of
  \<open>Initialize\<close> is returned as it is.
\<close>

definition New_finish :: "env \<Rightarrow> Options \<Rightarrow> wiring \<Rightarrow> (error + Box) prog" where
  "New_finish env options w =
     emits [Initialize (w_inbounds w) (w_outbounds w) (w_proxyProviders w) (w_ruleProviders w)]
    (case rt_Initialize (w_router w) (w_inbounds w) (w_outbounds w) (w_proxyProviders w) (w_ruleProviders w) of
       (invoked, err) \<Rightarrow>
     bind_prog (if invoked then default_outbound env (w_outbounds w) else ret (w_outbounds w)) (\<lambda>outbounds.
     case err of
       Some err \<Rightarrow> ret (Inl err)
     | None \<Rightarrow>
     and_then (platform_Initialize options) (\<lambda>_.
     and_then (new_clashServer env options Map.empty) (\<lambda>preServices.
     and_then (new_v2rayServer env options preServices) (\<lambda>preServices.
     ret (Inr \<lparr>router = w_router w, inbounds = w_inbounds w, outbounds = outbounds,
            proxyProviders = w_proxyProviders w, ruleProviders = w_ruleProviders w,
            logFactory = w_logFactory w, preServices = preServices, postServices = Map.empty,
            reloadChan = make_chan 1, done_chan = False\<rparr>))))))"

definition New :: "env \<Rightarrow> Options \<Rightarrow> (error + Box) prog" where
  "New env options = and_then (New_wire env options) (New_finish env options)"

section \<open>What New is expected to build\<close>


text \<open>The outbound options a proxy provider returned from \<open>StartGetOutbounds\<close> (none when it failed).\<close>

definition provided :: "adapter_ProxyProvider \<Rightarrow> outbound_options list" where
  "provided pp = (case pp_StartGetOutbounds pp of Inr outboundOptions \<Rightarrow> outboundOptions | Inl err \<Rightarrow> [])"

text \<open>The pointer \<open>New\<close> passes to \<open>FormatRule\<close> for a rule list: nil when the list is empty.\<close>

definition rule_arg :: "'a list \<Rightarrow> 'a list option" where
  "rule_arg rules = (if rules \<noteq> [] then Some rules else None)"

text \<open>The calls of \<open>FormatRule\<close> among the events of a run: provider index and the two arguments.\<close>

fun formatted :: "event \<Rightarrow> (nat \<times> DNSRule list option \<times> Rule list option) list" where
  "formatted (FormatRule i dnsRules routeRules) = [(i, dnsRules, routeRules)]"
| "formatted _ = []"

definition format_calls :: "event list \<Rightarrow> (nat \<times> DNSRule list option \<times> Rule list option) list" where
  "format_calls evs = concat (map formatted evs)"

text \<open>The events \<open>New\<close> emits before it calls \<open>router.Initialize\<close>.\<close>

fun is_construction :: "event \<Rightarrow> bool" where
  "is_construction (NewLogger name) = True"
| "is_construction (NewRuleProvider tag x) = True"
| "is_construction (FormatRule i d r) = True"
| "is_construction (NewRouter r d) = True"
| "is_construction (SetRouter i) = True"
| "is_construction (NewInbound x) = True"
| "is_construction (NewOutbound tag x) = True"
| "is_construction (NewProxyProvider tag x) = True"
| "is_construction (StartGetOutbounds i) = True"
| "is_construction _ = False"

text \<open>
  Follows the spec's words: every outbound definition the proxy providers returned,
  providers in index order and each provider's definitions in returned order, each
  constructed under the tag of its own definition.
\<close>

definition provided_outbounds :: "env \<Rightarrow> adapter_ProxyProvider list \<Rightarrow> (error + adapter_Outbound) list" where
  "provided_outbounds env pps =
     concat (map (\<lambda>pp. map (\<lambda>oo. outbound_New env (''outbound/'' @ oo_Type oo @ ''['' @ oo_Tag oo @ '']'')
                                (oo_Tag oo) oo) (provided pp)) pps)"

text \<open>
  Follows the spec's words: the outbounds constructed from the static \<open>Outbounds\<close>
  configuration, in index order, each under its assigned tag.
\<close>

definition static_outbounds :: "env \<Rightarrow> Options \<Rightarrow> (error + adapter_Outbound) list" where
  "static_outbounds env options =
     map (\<lambda>(i, oo). outbound_New env (''outbound/'' @ oo_Type oo @ ''['' @ assign_tag i (oo_Tag oo) @ '']'')
                       (assign_tag i (oo_Tag oo)) oo) (enumerate 0 (Outbounds options))"

text \<open>
  The rule lists after the rule providers have rewritten them: each provider in turn
  gets each list that is not empty and replaces it; an empty list stays empty.
\<close>

fun format_rules :: "adapter_RuleProvider list \<Rightarrow> Rule list \<times> DNSRule list \<Rightarrow> Rule list \<times> DNSRule list" where
  "format_rules [] (route, dns) = (route, dns)"
| "format_rules (rp # rps) (route, dns) =
     (case rp_FormatRule rp (rule_arg dns) (rule_arg route) of
        Inr (newDNS, newRoute) \<Rightarrow>
          format_rules rps (if route \<noteq> [] then newRoute else route, if dns \<noteq> [] then newDNS else dns)
      | Inl err \<Rightarrow> (route, dns))"

text \<open>The tags under which outbounds were constructed in a run, in order.\<close>

fun constructed_tag :: "event \<Rightarrow> string list" where
  "constructed_tag (NewOutbound tag x) = [tag]"
| "constructed_tag _ = []"

definition outbound_tags :: "event list \<Rightarrow> string list" where
  "outbound_tags evs = concat (map constructed_tag evs)"

text \<open>The calls of \<open>router.Initialize\<close> among the events of a run.\<close>

fun is_Initialize :: "event \<Rightarrow> bool" where
  "is_Initialize (Initialize ins outs pps rps) = True"
| "is_Initialize _ = False"

section \<open>The reload notification\<close>

text \<open>
  \<open>ReloadChan\<close> returns \<open>s.reloadChan\<close> as a \<open><-chan struct{}\<close>: a view of the channel
  that can be received from and not sent to.
\<close>

datatype recv_chan = RecvOnly chan

primrec chan_of :: "recv_chan \<Rightarrow> chan" where
  "chan_of (RecvOnly c) = c"

definition ReloadChan :: "Box \<Rightarrow> recv_chan" where
  "ReloadChan s = RecvOnly (reloadChan s)"

text \<open>
  A receive from the view: it takes one waiting value; \<open>None\<close> when no value waits
  (the receive blocks).
\<close>

definition receive :: "recv_chan \<Rightarrow> recv_chan option" where
  "receive r =
     (if pending (chan_of r) = 0 then None
      else Some (RecvOnly ((chan_of r)\<lparr>pending := pending (chan_of r) - 1\<rparr>)))"

text \<open>
  Modelled from the spec: the post of a reload notification, which the router and the
  providers make in files that are not under src/. By the spec it does not block and is
  dropped when a notification is pending already: Go's
  \<open>select { case reloadChan <- struct{}{}: default: }\<close> on the buffered channel.
  The result is the channel after the post and whether the notification was taken.
\<close>

definition post :: "chan \<Rightarrow> chan \<times> bool" where
  "post c =
     (if pending c < capacity c then (c\<lparr>pending := pending c + 1\<rparr>, True)
      else (c, False))"

text \<open>What happens to the channel over time: posts by the producers, reads by the caller.\<close>

datatype chan_op = Post | Read

definition chan_step :: "chan \<Rightarrow> chan_op \<Rightarrow> chan" where
  "chan_step c op =
     (case op of
        Post \<Rightarrow> fst (post c)
      | Read \<Rightarrow> (case receive (RecvOnly c) of None \<Rightarrow> c | Some r \<Rightarrow> chan_of r))"


section \<open>Concrete boxes\<close>

text \<open>Collaborators that start and close without error.\<close>

definition service_ok :: adapter_Service where
  "service_ok = \<lparr>sv_String = ''service'', sv_PreStart = None, sv_Start = Returned None, sv_Close = Returned None\<rparr>"

definition inbound_ok :: adapter_Inbound where
  "inbound_ok = \<lparr>in_Type = ''mixed'', in_Tag = ''in'', in_Start = Returned None, in_Close = Returned None\<rparr>"

definition outbound_ok :: adapter_Outbound where
  "outbound_ok = \<lparr>ob_Type = ''direct'', ob_Tag = ''out'', ob_String = ''out'', ob_Start = Returned None,
     ob_PostStart = None, ob_Close = Returned None\<rparr>"

definition router_ok :: adapter_Router where
  "router_ok = \<lparr>rt_Initialize = (\<lambda>ins outs pps rps. (False, None)), rt_Start = Returned None,
     rt_Close = Returned None\<rparr>"

definition box_busy :: Box where
  "box_busy = \<lparr>router = router_ok\<lparr>rt_Close := Returned (Some (Msg ''router busy''))\<rparr>,
     inbounds = [inbound_ok], outbounds = [outbound_ok], proxyProviders = [], ruleProviders = [],
     logFactory = \<lparr>lf_Close = Returned (Some (Msg ''log busy''))\<rparr>,
     preServices = [''clash api'' \<mapsto> service_ok], postServices = Map.empty,
     reloadChan = make_chan 1, done_chan = False\<rparr>"

definition sched_one :: schedule where
  "sched_one site = (if site \<in> {Range_postStart, Range_Close_post} then [] else [''clash api''])"


definition sched_none :: schedule where
  "sched_none site = []"


section \<open>Concrete configurations\<close>

text \<open>
  Collaborators for running \<open>New\<close>: a rule provider appends its tag to each rule list
  it is given, a proxy provider returns two outbound definitions tagged after itself,
  the router asks for the default outbound when it is given no outbound, and every
  constructor succeeds; an outbound carries the tag it was constructed under.
\<close>

definition rule_provider_plain :: "string \<Rightarrow> adapter_RuleProvider" where
  "rule_provider_plain tag =
     \<lparr>rp_Tag = tag,
      rp_FormatRule = (\<lambda>dnsRules routeRules.
         Inr (case dnsRules of None \<Rightarrow> [] | Some rules \<Rightarrow> rules @ [tag],
              case routeRules of None \<Rightarrow> [] | Some rules \<Rightarrow> rules @ [tag])),
      rp_Start = Returned None, rp_Close = Returned None\<rparr>"

definition proxy_provider_plain :: "string \<Rightarrow> adapter_ProxyProvider" where
  "proxy_provider_plain tag =
     \<lparr>pp_Tag = tag,
      pp_StartGetOutbounds = Inr [\<lparr>oo_Type = ''socks'', oo_Tag = tag @ ''/a''\<rparr>,
                                  \<lparr>oo_Type = ''socks'', oo_Tag = tag @ ''/b''\<rparr>],
      pp_Start = Returned None, pp_Close = Returned None\<rparr>"

definition router_plain :: adapter_Router where
  "router_plain = \<lparr>rt_Initialize = (\<lambda>ins outs pps rps. (outs = [], None)), rt_Start = Returned None,
     rt_Close = Returned None\<rparr>"

definition env_plain :: env where
  "env_plain =
     \<lparr>log_New = (\<lambda>observable. Inr \<lparr>lf_Close = Returned None\<rparr>),
      ruleprovider_NewRuleProvider = (\<lambda>logger tag x. Inr (rule_provider_plain tag)),
      route_NewRouter = (\<lambda>routeRules dnsRules ins. Inr router_plain),
      inbound_New = (\<lambda>logger x. Inr \<lparr>in_Type = io_Type x, in_Tag = io_Tag x,
         in_Start = Returned None, in_Close = Returned None\<rparr>),
      outbound_New = (\<lambda>logger tag x. Inr \<lparr>ob_Type = oo_Type x, ob_Tag = tag, ob_String = logger,
         ob_Start = Returned None, ob_PostStart = None, ob_Close = Returned None\<rparr>),
      proxyprovider_NewProxyProvider = (\<lambda>logger tag x. Inr (proxy_provider_plain tag)),
      experimental_NewClashServer = Inr service_ok,
      experimental_NewV2RayServer = Inr service_ok\<rparr>"

definition options_empty :: Options where
  "options_empty = \<lparr>Route_Rules = [], DNS_Rules = [], Inbounds = [], Outbounds = [], ProxyProviders = [],
     RulProviders = [], ClashAPI = False, V2RayAPI_Listen = None, PlatformInterface = None\<rparr>"

definition options_one_rule_provider :: Options where
  "options_one_rule_provider = options_empty\<lparr>RulProviders := [\<lparr>rpo_Tag = []\<rparr>]\<rparr>"

definition options_two_rule_providers :: Options where
  "options_two_rule_providers =
     options_empty\<lparr>Route_Rules := [''r1''], RulProviders := [\<lparr>rpo_Tag = ''geo''\<rparr>, \<lparr>rpo_Tag = []\<rparr>]\<rparr>"

definition options_tagged_inbound :: Options where
  "options_tagged_inbound = options_empty\<lparr>Inbounds := [\<lparr>io_Type = ''mixed'', io_Tag = ''in''\<rparr>]\<rparr>"

definition outbound_default :: adapter_Outbound where
  "outbound_default = \<lparr>ob_Type = ''direct'', ob_Tag = ''direct'', ob_String = ''outbound/direct'',
     ob_Start = Returned None, ob_PostStart = None, ob_Close = Returned None\<rparr>"

definition box_tagged_inbound :: Box where
  "box_tagged_inbound = \<lparr>router = router_plain,
     inbounds = [\<lparr>in_Type = ''mixed'', in_Tag = ''in'', in_Start = Returned None, in_Close = Returned None\<rparr>],
     outbounds = [outbound_default], proxyProviders = [], ruleProviders = [],
     logFactory = \<lparr>lf_Close = Returned None\<rparr>,
     preServices = Map.empty, postServices = Map.empty,
     reloadChan = make_chan 1, done_chan = False\<rparr>"

text \<open>
  An untagged inbound with a tagged static outbound, and the Box \<open>New\<close> builds from
  them up to \<open>router.Initialize\<close>.
\<close>

definition options_mixed_tags :: Options where
  "options_mixed_tags = options_empty\<lparr>Inbounds := [\<lparr>io_Type = ''mixed'', io_Tag = []\<rparr>],
     Outbounds := [\<lparr>oo_Type = ''socks'', oo_Tag = ''out''\<rparr>]\<rparr>"

definition box_mixed_tags :: Box where
  "box_mixed_tags = \<lparr>router = router_plain,
     inbounds = [\<lparr>in_Type = ''mixed'', in_Tag = [], in_Start = Returned None, in_Close = Returned None\<rparr>],
     outbounds = [\<lparr>ob_Type = ''socks'', ob_Tag = ''out'', ob_String = ''outbound/socks[out]'',
        ob_Start = Returned None, ob_PostStart = None, ob_Close = Returned None\<rparr>],
     proxyProviders = [], ruleProviders = [],
     logFactory = \<lparr>lf_Close = Returned None\<rparr>,
     preServices = Map.empty, postServices = Map.empty,
     reloadChan = make_chan 1, done_chan = False\<rparr>"

text \<open>
  Two proxy providers behind one static outbound; with \<open>env_same_tags\<close> both providers
  return definitions tagged "a" and "b".
\<close>

definition proxy_provider_fixed :: "string \<Rightarrow> adapter_ProxyProvider" where
  "proxy_provider_fixed tag =
     \<lparr>pp_Tag = tag,
      pp_StartGetOutbounds = Inr [\<lparr>oo_Type = ''socks'', oo_Tag = ''a''\<rparr>, \<lparr>oo_Type = ''socks'', oo_Tag = ''b''\<rparr>],
      pp_Start = Returned None, pp_Close = Returned None\<rparr>"

definition env_same_tags :: env where
  "env_same_tags = env_plain\<lparr>proxyprovider_NewProxyProvider := (\<lambda>logger tag x. Inr (proxy_provider_fixed tag))\<rparr>"

definition options_two_providers :: Options where
  "options_two_providers = options_empty\<lparr>Outbounds := [\<lparr>oo_Type = ''direct'', oo_Tag = ''out''\<rparr>],
     ProxyProviders := [\<lparr>ppo_Tag = ''p1''\<rparr>, \<lparr>ppo_Tag = ''p2''\<rparr>]\<rparr>"

text \<open>The outbound \<open>outbound_New env_plain\<close> builds.\<close>

definition outbound_plain :: "string \<Rightarrow> string \<Rightarrow> string \<Rightarrow> adapter_Outbound" where
  "outbound_plain logger tag type =
     \<lparr>ob_Type = type, ob_Tag = tag, ob_String = logger, ob_Start = Returned None,
      ob_PostStart = None, ob_Close = Returned None\<rparr>"

text \<open>
  An environment in which no outbound can be constructed, and the Box \<open>New\<close> builds
  from the empty configuration when the router asks for the default outbound.
\<close>

definition env_no_outbound :: env where
  "env_no_outbound = env_plain\<lparr>outbound_New := (\<lambda>logger tag x. Inl (Msg ''no outbound''))\<rparr>"

definition box_default_only :: Box where
  "box_default_only = \<lparr>router = router_plain, inbounds = [],
     outbounds = [outbound_plain ''outbound/direct'' ''direct'' ''direct''],
     proxyProviders = [], ruleProviders = [],
     logFactory = \<lparr>lf_Close = Returned None\<rparr>,
     preServices = Map.empty, postServices = Map.empty,
     reloadChan = make_chan 1, done_chan = False\<rparr>"

text \<open>
  The Boxes \<open>New\<close> builds with the Clash API alone and with both the Clash API and the
  V2Ray API, and iteration orders of their pre-service map: the only one of a map with
  one entry (written in two ways), and the two of a map with two entries.
\<close>

definition options_both_apis :: Options where
  "options_both_apis = options_empty\<lparr>ClashAPI := True, V2RayAPI_Listen := Some ''127.0.0.1:8080''\<rparr>"

definition box_both_apis :: Box where
  "box_both_apis = \<lparr>router = router_plain, inbounds = [],
     outbounds = [outbound_plain ''outbound/direct'' ''direct'' ''direct''],
     proxyProviders = [], ruleProviders = [],
     logFactory = \<lparr>lf_Close = Returned None\<rparr>,
     preServices = [''clash api'' \<mapsto> service_ok, ''v2ray api'' \<mapsto> service_ok],
     postServices = Map.empty,
     reloadChan = make_chan 1, done_chan = False\<rparr>"

definition sched_clash_first :: schedule where
  "sched_clash_first site =
     (if site \<in> {Range_postStart, Range_Close_post} then [] else [''clash api'', ''v2ray api''])"

definition sched_v2ray_first :: schedule where
  "sched_v2ray_first site =
     (if site \<in> {Range_postStart, Range_Close_post} then [] else [''v2ray api'', ''clash api''])"

definition options_clash_api :: Options where
  "options_clash_api = options_empty\<lparr>ClashAPI := True\<rparr>"

definition box_clash_api :: Box where
  "box_clash_api = \<lparr>router = router_plain, inbounds = [],
     outbounds = [outbound_plain ''outbound/direct'' ''direct'' ''direct''],
     proxyProviders = [], ruleProviders = [],
     logFactory = \<lparr>lf_Close = Returned None\<rparr>,
     preServices = [''clash api'' \<mapsto> service_ok],
     postServices = Map.empty,
     reloadChan = make_chan 1, done_chan = False\<rparr>"

definition sched_clash_only :: schedule where
  "sched_clash_only site =
     (case site of Range_postStart \<Rightarrow> [] | Range_Close_post \<Rightarrow> [] | _ \<Rightarrow> [''clash api''])"

text \<open>The Box of the empty configuration after one reload notification was posted.\<close>

definition box_reload_pending :: Box where
  "box_reload_pending = box_default_only\<lparr>reloadChan := fst (post (reloadChan box_default_only))\<rparr>"


section \<open>Running programs\<close>

lemma bind_prog_Returned [simp]:
  "bind_prog (evs, Returned x) f = (case f x of (evs', r) \<Rightarrow> (evs @ evs', r))"
  by (simp add: bind_prog_def)

lemma bind_prog_Panicked [simp]:
  "bind_prog (evs, Panicked v) f = (evs, Panicked v)"
  by (simp add: bind_prog_def)

lemma calls_append [simp]: "calls (xs @ ys) = calls xs @ calls ys"
  by (simp add: calls_def)

lemma calls_Nil [simp]: "calls [] = []"
  by (simp add: calls_def)

lemma calls_Cons [simp]: "calls (e # evs) = (if is_Call e then e # calls evs else calls evs)"
  by (simp add: calls_def)

lemma range_map_Nil [simp]: "range_map m [] = []"
  by (simp add: range_map_def)

lemma range_map_Cons [simp]:
  "range_map m (k # ks) = (case m k of None \<Rightarrow> range_map m ks | Some v \<Rightarrow> (k, v) # range_map m ks)"
  by (simp add: range_map_def List.map_filter_simps split: option.splits)

lemma range_map_in_dom:
  "set ks \<subseteq> dom m \<Longrightarrow> range_map m ks = map (\<lambda>k. (k, the (m k))) ks"
  by (induction ks) auto

lemma map_enumerate_nth:
  "map (\<lambda>(i, x). f i x) (enumerate 0 xs) = map (\<lambda>i. f i (xs ! i)) [0..<length xs]"
  by (rule nth_equalityI) (simp_all add: nth_enumerate_eq)

section \<open>The teardown\<close>

lemma closing_returns:
  "closing msg t (Returned r) wrap errors =
     ([Trace msg, Call t MClose], Returned (errors @ fail_of (Returned r) wrap))"
  by (simp add: closing_def call_def ret_def emit_def E_Append_def fail_of_def split: option.splits)

text \<open>A loop of closes none of which panics runs to its end and gathers every failure.\<close>

lemma for_each_acc_closing:
  assumes "\<forall>x \<in> set xs. \<exists>r. oc x = Returned r"
  shows "for_each_acc xs (\<lambda>x. closing (msg x) (tg x) (oc x) (wr x)) acc =
           (concat (map (\<lambda>x. [Trace (msg x), Call (tg x) MClose]) xs),
            Returned (acc @ concat (map (\<lambda>x. fail_of (oc x) (wr x)) xs)))"
  using assms
proof (induction xs arbitrary: acc)
  case Nil
  then show ?case by (simp add: ret_def)
next
  case (Cons x xs)
  then obtain r where r: "oc x = Returned r" by auto
  from Cons.prems have "\<forall>x \<in> set xs. \<exists>r. oc x = Returned r" by simp
  from Cons.IH [OF this] show ?case
    by (simp add: r closing_returns)
qed

lemma close_stage_list:
  assumes "\<forall>i < length xs. \<exists>r. oc (xs ! i) = Returned r"
  shows "for_each_acc (enumerate 0 xs) (\<lambda>(i, x). closing (msg i x) (tg i) (oc x) (wr i x)) acc =
           (concat (map (\<lambda>i. [Trace (msg i (xs ! i)), Call (tg i) MClose]) [0..<length xs]),
            Returned (acc @ concat (map (\<lambda>i. fail_of (oc (xs ! i)) (wr i (xs ! i))) [0..<length xs])))"
proof -
  have "\<forall>p \<in> set (enumerate 0 xs). \<exists>r. oc (snd p) = Returned r"
    using assms by (auto simp: in_set_enumerate_eq)
  from for_each_acc_closing [OF this, of "\<lambda>p. msg (fst p) (snd p)" "\<lambda>p. tg (fst p)" "\<lambda>p. wr (fst p) (snd p)"]
  show ?thesis
    by (simp add: case_prod_unfold
        map_enumerate_nth [of "\<lambda>i x. [Trace (msg i x), Call (tg i) MClose]", unfolded case_prod_unfold]
        map_enumerate_nth [of "\<lambda>i x. fail_of (oc x) (wr i x)", unfolded case_prod_unfold])
qed

lemma close_stage_map:
  assumes "set ks \<subseteq> dom m" and "\<forall>k \<in> set ks. \<exists>r. oc (the (m k)) = Returned r"
  shows "for_each_acc (range_map m ks) (\<lambda>(k, sv). closing (msg k) (tg k) (oc sv) (wr k)) acc =
           (concat (map (\<lambda>k. [Trace (msg k), Call (tg k) MClose]) ks),
            Returned (acc @ concat (map (\<lambda>k. fail_of (oc (the (m k))) (wr k)) ks)))"
proof -
  have "\<forall>p \<in> set (range_map m ks). \<exists>r. oc (snd p) = Returned r"
    using assms by (auto simp: range_map_in_dom)
  from for_each_acc_closing [OF this, of "\<lambda>p. msg (fst p)" "\<lambda>p. tg (fst p)" "\<lambda>p. wr (fst p)"]
  show ?thesis
    by (simp add: case_prod_unfold range_map_in_dom [OF assms(1)] comp_def)
qed

lemma failure_of_fail_of:
  "close_of s t = Some (oc, name) \<Longrightarrow> failure_of s t = fail_of oc (''close '' @ name)"
  by (simp add: failure_of_def fail_of_def split: res.splits option.splits)

lemma close_events_name:
  "close_of s t = Some (oc, name) \<Longrightarrow> close_events s t = [Trace (''closing '' @ name), Call t MClose]"
  by (simp add: close_events_def)

lemma close_returns_Returned:
  "close_of s t = Some (oc, name) \<Longrightarrow> close_returns s t \<Longrightarrow> \<exists>r. oc = Returned r"
  by (cases oc) (simp_all add: close_returns_def)

lemma returns_from_ok:
  "\<forall>t \<in> set ts. close_returns s t \<Longrightarrow> t \<in> set ts \<Longrightarrow> close_of s t = Some (oc, name) \<Longrightarrow>
   \<exists>r. oc = Returned r"
  using close_returns_Returned by blast

lemma calls_close_events:
  "\<forall>t \<in> set ts. close_of s t \<noteq> None \<Longrightarrow>
   calls (concat (map (close_events s) ts)) = map (\<lambda>t. Call t MClose) ts"
  by (induction ts) (auto simp: close_events_def)

lemma teardown_returns:
  assumes post: "set (sch Range_Close_post) \<subseteq> dom (postServices s)"
    and pre: "set (sch Range_Close_pre) \<subseteq> dom (preServices s)"
    and ok: "\<forall>t \<in> set (close_targets sch s). close_returns s t"
  shows "teardown sch s =
           (concat (map (close_events s) (close_targets sch s)),
            Returned (concat (map (failure_of s) (close_targets sch s))))"
proof -
  have c1: "\<And>k. k \<in> set (sch Range_Close_post) \<Longrightarrow>
      close_of s (PostService k) = Some (sv_Close (the (postServices s k)), k)"
    using post by (auto simp: close_of_def)
  have c2: "\<And>i. i < length (ruleProviders s) \<Longrightarrow>
      close_of s (RuleProvider i) =
        Some (rp_Close (ruleProviders s ! i), ''ruleprovider '' @ rp_Tag (ruleProviders s ! i))"
    by (simp add: close_of_def)
  have c3: "\<And>i. i < length (proxyProviders s) \<Longrightarrow>
      close_of s (ProxyProvider i) =
        Some (pp_Close (proxyProviders s ! i), ''proxyprovider '' @ pp_Tag (proxyProviders s ! i))"
    by (simp add: close_of_def)
  have c4: "\<And>i. i < length (inbounds s) \<Longrightarrow>
      close_of s (Inbound i) =
        Some (in_Close (inbounds s ! i), ''inbound/'' @ in_Type (inbounds s ! i) @ ''['' @ ToString i @ '']'')"
    by (simp add: close_of_def)
  have c5: "\<And>i. i < length (outbounds s) \<Longrightarrow>
      close_of s (Outbound i) =
        Some (ob_Close (outbounds s ! i), ''outbound/'' @ ob_Type (outbounds s ! i) @ ''['' @ ToString i @ '']'')"
    by (simp add: close_of_def)
  have c6: "close_of s Router = Some (rt_Close (router s), ''router'')"
    by (simp add: close_of_def)
  have c7: "\<And>k. k \<in> set (sch Range_Close_pre) \<Longrightarrow>
      close_of s (PreService k) = Some (sv_Close (the (preServices s k)), k)"
    using pre by (auto simp: close_of_def)
  have c8: "close_of s LogFactory = Some (lf_Close (logFactory s), ''log factory'')"
    by (simp add: close_of_def)
  have m1: "\<And>k. k \<in> set (sch Range_Close_post) \<Longrightarrow> PostService k \<in> set (close_targets sch s)"
    and m2: "\<And>i. i < length (ruleProviders s) \<Longrightarrow> RuleProvider i \<in> set (close_targets sch s)"
    and m3: "\<And>i. i < length (proxyProviders s) \<Longrightarrow> ProxyProvider i \<in> set (close_targets sch s)"
    and m4: "\<And>i. i < length (inbounds s) \<Longrightarrow> Inbound i \<in> set (close_targets sch s)"
    and m5: "\<And>i. i < length (outbounds s) \<Longrightarrow> Outbound i \<in> set (close_targets sch s)"
    and m6: "Router \<in> set (close_targets sch s)"
    and m7: "\<And>k. k \<in> set (sch Range_Close_pre) \<Longrightarrow> PreService k \<in> set (close_targets sch s)"
    and m8: "LogFactory \<in> set (close_targets sch s)"
    by (simp_all add: close_targets_def)
  have "\<forall>k \<in> set (sch Range_Close_post). \<exists>r. sv_Close (the (postServices s k)) = Returned r"
    using returns_from_ok [OF ok m1 c1] by blast
  note st1 = close_stage_map [OF post this, of "\<lambda>k. ''closing '' @ k" PostService "\<lambda>k. ''close '' @ k"]
  have "\<forall>i < length (ruleProviders s). \<exists>r. rp_Close (ruleProviders s ! i) = Returned r"
    using returns_from_ok [OF ok m2 c2] by blast
  note st2 = close_stage_list [OF this, of "\<lambda>i x. ''closing ruleprovider '' @ rp_Tag x" RuleProvider
      "\<lambda>i x. ''close ruleprovider '' @ rp_Tag x"]
  have "\<forall>i < length (proxyProviders s). \<exists>r. pp_Close (proxyProviders s ! i) = Returned r"
    using returns_from_ok [OF ok m3 c3] by blast
  note st3 = close_stage_list [OF this, of "\<lambda>i x. ''closing proxyprovider '' @ pp_Tag x" ProxyProvider
      "\<lambda>i x. ''close proxyprovider '' @ pp_Tag x"]
  have "\<forall>i < length (inbounds s). \<exists>r. in_Close (inbounds s ! i) = Returned r"
    using returns_from_ok [OF ok m4 c4] by blast
  note st4 = close_stage_list [OF this, of "\<lambda>i x. ''closing inbound/'' @ in_Type x @ ''['' @ ToString i @ '']''"
      Inbound "\<lambda>i x. ''close inbound/'' @ in_Type x @ ''['' @ ToString i @ '']''"]
  have "\<forall>i < length (outbounds s). \<exists>r. ob_Close (outbounds s ! i) = Returned r"
    using returns_from_ok [OF ok m5 c5] by blast
  note st5 = close_stage_list [OF this, of "\<lambda>i x. ''closing outbound/'' @ ob_Type x @ ''['' @ ToString i @ '']''"
      Outbound "\<lambda>i x. ''close outbound/'' @ ob_Type x @ ''['' @ ToString i @ '']''"]
  obtain r6 where r6: "rt_Close (router s) = Returned r6"
    using returns_from_ok [OF ok m6 c6] by blast
  have "\<forall>k \<in> set (sch Range_Close_pre). \<exists>r. sv_Close (the (preServices s k)) = Returned r"
    using returns_from_ok [OF ok m7 c7] by blast
  note st7 = close_stage_map [OF pre this, of "\<lambda>k. ''closing '' @ k" PreService "\<lambda>k. ''close '' @ k"]
  obtain r8 where r8: "lf_Close (logFactory s) = Returned r8"
    using returns_from_ok [OF ok m8 c8] by blast
  have f: "map (failure_of s) (map PostService (sch Range_Close_post)) =
      map (\<lambda>k. fail_of (sv_Close (the (postServices s k))) (''close '' @ k)) (sch Range_Close_post)"
    "map (failure_of s) (map RuleProvider [0..<length (ruleProviders s)]) =
      map (\<lambda>i. fail_of (rp_Close (ruleProviders s ! i))
          (''close ruleprovider '' @ rp_Tag (ruleProviders s ! i))) [0..<length (ruleProviders s)]"
    "map (failure_of s) (map ProxyProvider [0..<length (proxyProviders s)]) =
      map (\<lambda>i. fail_of (pp_Close (proxyProviders s ! i))
          (''close proxyprovider '' @ pp_Tag (proxyProviders s ! i))) [0..<length (proxyProviders s)]"
    "map (failure_of s) (map Inbound [0..<length (inbounds s)]) =
      map (\<lambda>i. fail_of (in_Close (inbounds s ! i))
          (''close inbound/'' @ in_Type (inbounds s ! i) @ ''['' @ ToString i @ '']'')) [0..<length (inbounds s)]"
    "map (failure_of s) (map Outbound [0..<length (outbounds s)]) =
      map (\<lambda>i. fail_of (ob_Close (outbounds s ! i))
          (''close outbound/'' @ ob_Type (outbounds s ! i) @ ''['' @ ToString i @ '']'')) [0..<length (outbounds s)]"
    "map (failure_of s) (map PreService (sch Range_Close_pre)) =
      map (\<lambda>k. fail_of (sv_Close (the (preServices s k))) (''close '' @ k)) (sch Range_Close_pre)"
    "failure_of s Router = fail_of (Returned r6) ''close router''"
    "failure_of s LogFactory = fail_of (Returned r8) ''close log factory''"
    by (simp_all add: failure_of_fail_of [OF c1] failure_of_fail_of [OF c2] failure_of_fail_of [OF c3]
        failure_of_fail_of [OF c4] failure_of_fail_of [OF c5] failure_of_fail_of [OF c6]
        failure_of_fail_of [OF c7] failure_of_fail_of [OF c8] r6 r8)
  have e: "map (close_events s) (map PostService (sch Range_Close_post)) =
      map (\<lambda>k. [Trace (''closing '' @ k), Call (PostService k) MClose]) (sch Range_Close_post)"
    "map (close_events s) (map RuleProvider [0..<length (ruleProviders s)]) =
      map (\<lambda>i. [Trace (''closing ruleprovider '' @ rp_Tag (ruleProviders s ! i)), Call (RuleProvider i) MClose])
        [0..<length (ruleProviders s)]"
    "map (close_events s) (map ProxyProvider [0..<length (proxyProviders s)]) =
      map (\<lambda>i. [Trace (''closing proxyprovider '' @ pp_Tag (proxyProviders s ! i)), Call (ProxyProvider i) MClose])
        [0..<length (proxyProviders s)]"
    "map (close_events s) (map Inbound [0..<length (inbounds s)]) =
      map (\<lambda>i. [Trace (''closing inbound/'' @ in_Type (inbounds s ! i) @ ''['' @ ToString i @ '']''),
                 Call (Inbound i) MClose]) [0..<length (inbounds s)]"
    "map (close_events s) (map Outbound [0..<length (outbounds s)]) =
      map (\<lambda>i. [Trace (''closing outbound/'' @ ob_Type (outbounds s ! i) @ ''['' @ ToString i @ '']''),
                 Call (Outbound i) MClose]) [0..<length (outbounds s)]"
    "map (close_events s) (map PreService (sch Range_Close_pre)) =
      map (\<lambda>k. [Trace (''closing '' @ k), Call (PreService k) MClose]) (sch Range_Close_pre)"
    "close_events s Router = [Trace ''closing router'', Call Router MClose]"
    "close_events s LogFactory = [Trace ''closing log factory'', Call LogFactory MClose]"
    by (simp_all add: close_events_name [OF c1] close_events_name [OF c2] close_events_name [OF c3]
        close_events_name [OF c4] close_events_name [OF c5] close_events_name [OF c6]
        close_events_name [OF c7] close_events_name [OF c8])
  have run: "teardown sch s =
      (concat (map (\<lambda>k. [Trace (''closing '' @ k), Call (PostService k) MClose]) (sch Range_Close_post)) @
       concat (map (\<lambda>i. [Trace (''closing ruleprovider '' @ rp_Tag (ruleProviders s ! i)),
                  Call (RuleProvider i) MClose]) [0..<length (ruleProviders s)]) @
       concat (map (\<lambda>i. [Trace (''closing proxyprovider '' @ pp_Tag (proxyProviders s ! i)),
                  Call (ProxyProvider i) MClose]) [0..<length (proxyProviders s)]) @
       concat (map (\<lambda>i. [Trace (''closing inbound/'' @ in_Type (inbounds s ! i) @ ''['' @ ToString i @ '']''),
                  Call (Inbound i) MClose]) [0..<length (inbounds s)]) @
       concat (map (\<lambda>i. [Trace (''closing outbound/'' @ ob_Type (outbounds s ! i) @ ''['' @ ToString i @ '']''),
                  Call (Outbound i) MClose]) [0..<length (outbounds s)]) @
       [Trace ''closing router'', Call Router MClose] @
       concat (map (\<lambda>k. [Trace (''closing '' @ k), Call (PreService k) MClose]) (sch Range_Close_pre)) @
       [Trace ''closing log factory'', Call LogFactory MClose],
       Returned
        (concat (map (\<lambda>k. fail_of (sv_Close (the (postServices s k))) (''close '' @ k)) (sch Range_Close_post)) @
         concat (map (\<lambda>i. fail_of (rp_Close (ruleProviders s ! i))
            (''close ruleprovider '' @ rp_Tag (ruleProviders s ! i))) [0..<length (ruleProviders s)]) @
         concat (map (\<lambda>i. fail_of (pp_Close (proxyProviders s ! i))
            (''close proxyprovider '' @ pp_Tag (proxyProviders s ! i))) [0..<length (proxyProviders s)]) @
         concat (map (\<lambda>i. fail_of (in_Close (inbounds s ! i))
            (''close inbound/'' @ in_Type (inbounds s ! i) @ ''['' @ ToString i @ '']'')) [0..<length (inbounds s)]) @
         concat (map (\<lambda>i. fail_of (ob_Close (outbounds s ! i))
            (''close outbound/'' @ ob_Type (outbounds s ! i) @ ''['' @ ToString i @ '']'')) [0..<length (outbounds s)]) @
         fail_of (Returned r6) ''close router'' @
         concat (map (\<lambda>k. fail_of (sv_Close (the (preServices s k))) (''close '' @ k)) (sch Range_Close_pre)) @
         fail_of (Returned r8) ''close log factory''))"
    by (simp only: teardown_def st1 st2 st3 st4 st5 st7 r6 r8 closing_returns bind_prog_Returned prod.case
        append_Nil append_assoc)
  show ?thesis
    unfolding run close_targets_def map_append concat_append f e
    by (simp add: f e)
qed

section \<open>Close\<close>

lemma failure_of_Nil_iff:
  "close_returns s t \<Longrightarrow> failure_of s t = [] \<longleftrightarrow> close_clean s t"
  by (auto simp: close_returns_def failure_of_def close_clean_def split: option.splits res.splits)

lemma distinct_close_targets:
  "distinct (sch Range_Close_post) \<Longrightarrow> distinct (sch Range_Close_pre) \<Longrightarrow> distinct (close_targets sch s)"
  by (auto simp: close_targets_def distinct_map inj_on_def)

lemma set_close_targets:
  "set (sch Range_Close_post) = dom (postServices s) \<Longrightarrow> set (sch Range_Close_pre) = dom (preServices s) \<Longrightarrow>
   set (close_targets sch s) = subsystems s"
  by (auto simp: close_targets_def subsystems_def)

text \<open>
  C1. On the first call of \<open>Close\<close> (the \<open>done\<close> channel still open), when no
  subsystem's close panics, the teardown closes every subsystem of the Box exactly once,
  in the order post-services, rule providers, proxy providers, inbounds by index,
  outbounds by index, router, pre-services, log factory. A close that returns an error
  does not stop the traversal: the call returns the aggregate of every failure, each
  wrapped for its subsystem, in that order; the aggregate is nil exactly when every
  subsystem closes without error.
\<close>

theorem Close_first_call_tears_down_everything:
  assumes "\<not> done_chan s"
    and "range_order (postServices s) (sch Range_Close_post)"
    and "range_order (preServices s) (sch Range_Close_pre)"
    and "list_all (close_returns s) (close_targets sch s)"
  shows "fst (Close sch s) = s\<lparr>done_chan := True\<rparr> \<and>
         fst (snd (Close sch s)) = concat (map (close_events s) (close_targets sch s)) \<and>
         calls (fst (snd (Close sch s))) = map (\<lambda>t. Call t MClose) (close_targets sch s) \<and>
         distinct (close_targets sch s) \<and>
         set (close_targets sch s) = subsystems s \<and>
         snd (snd (Close sch s)) = Returned (concat (map (failure_of s) (close_targets sch s))) \<and>
         (concat (map (failure_of s) (close_targets sch s)) = [] \<longleftrightarrow>
            list_all (close_clean s) (close_targets sch s))"
proof -
  from assms(2,3) have post: "set (sch Range_Close_post) \<subseteq> dom (postServices s)"
    and pre: "set (sch Range_Close_pre) \<subseteq> dom (preServices s)"
    by (simp_all add: range_order_def)
  from assms(4) have ok: "\<forall>t \<in> set (close_targets sch s). close_returns s t"
    by (simp add: list_all_iff)
  note E = teardown_returns [OF post pre ok]
  have held: "\<forall>t \<in> set (close_targets sch s). close_of s t \<noteq> None"
    using ok by (auto simp: close_returns_def split: option.splits)
  have run: "Close sch s = (s\<lparr>done_chan := True\<rparr>, teardown sch s)"
    using assms(1) by (simp add: Close_def)
  have nil: "concat (map (failure_of s) (close_targets sch s)) = [] \<longleftrightarrow>
      list_all (close_clean s) (close_targets sch s)"
    using ok by (simp add: list_all_iff failure_of_Nil_iff)
  have c1: "fst (Close sch s) = s\<lparr>done_chan := True\<rparr>"
    and c2: "fst (snd (Close sch s)) = concat (map (close_events s) (close_targets sch s))"
    and c2': "calls (fst (snd (Close sch s))) = map (\<lambda>t. Call t MClose) (close_targets sch s)"
    and c5: "snd (snd (Close sch s)) = Returned (concat (map (failure_of s) (close_targets sch s)))"
    by (simp_all add: run E calls_close_events [OF held])
  from assms(2,3) have c3: "distinct (close_targets sch s)"
    and c4: "set (close_targets sch s) = subsystems s"
    by (simp_all add: distinct_close_targets set_close_targets range_order_def)
  show ?thesis
    by (intro conjI c1 c2 c2' c3 c4 c5 nil)
qed

text \<open>
  A Box whose router and log factory both fail to close: all five subsystems are closed,
  and the aggregate holds both failures.
\<close>

theorem Close_first_call_witness:
  "\<not> done_chan box_busy \<and>
   range_order (postServices box_busy) (sched_one Range_Close_post) \<and>
   range_order (preServices box_busy) (sched_one Range_Close_pre) \<and>
   list_all (close_returns box_busy) (close_targets sched_one box_busy) \<and>
   calls (fst (snd (Close sched_one box_busy))) =
     [Call (Inbound 0) MClose, Call (Outbound 0) MClose, Call Router MClose,
      Call (PreService ''clash api'') MClose, Call LogFactory MClose] \<and>
   snd (snd (Close sched_one box_busy)) =
     Returned [Cause (Msg ''router busy'') ''close router'', Cause (Msg ''log busy'') ''close log factory'']"
proof -
  have h1: "\<not> done_chan box_busy"
    by (simp add: box_busy_def)
  have h2: "range_order (postServices box_busy) (sched_one Range_Close_post)"
    by (simp add: box_busy_def sched_one_def range_order_def)
  have h3: "range_order (preServices box_busy) (sched_one Range_Close_pre)"
    by (simp add: box_busy_def sched_one_def range_order_def)
  have ts: "close_targets sched_one box_busy =
      [Inbound 0, Outbound 0, Router, PreService ''clash api'', LogFactory]"
    by (simp add: close_targets_def box_busy_def sched_one_def)
  have h4: "list_all (close_returns box_busy) (close_targets sched_one box_busy)"
    unfolding ts
    by (simp add: close_returns_def close_of_def box_busy_def inbound_ok_def outbound_ok_def
        router_ok_def service_ok_def)
  have fs: "concat (map (failure_of box_busy) [Inbound 0, Outbound 0, Router, PreService ''clash api'', LogFactory]) =
      [Cause (Msg ''router busy'') ''close router'', Cause (Msg ''log busy'') ''close log factory'']"
    by (simp add: failure_of_def close_of_def box_busy_def inbound_ok_def outbound_ok_def
        router_ok_def service_ok_def)
  note run = Close_first_call_tears_down_everything [OF h1 h2 h3 h4]
  from run have "calls (fst (snd (Close sched_one box_busy))) =
      map (\<lambda>t. Call t MClose) (close_targets sched_one box_busy)"
    by blast
  then have c: "calls (fst (snd (Close sched_one box_busy))) =
     [Call (Inbound 0) MClose, Call (Outbound 0) MClose, Call Router MClose,
      Call (PreService ''clash api'') MClose, Call LogFactory MClose]"
    by (simp add: ts)
  from run have "snd (snd (Close sched_one box_busy)) =
      Returned (concat (map (failure_of box_busy) (close_targets sched_one box_busy)))"
    by blast
  then have e: "snd (snd (Close sched_one box_busy)) =
     Returned [Cause (Msg ''router busy'') ''close router'', Cause (Msg ''log busy'') ''close log factory'']"
    unfolding ts fs .
  show ?thesis
    by (intro conjI h1 h2 h3 h4 c e)
qed

text \<open>
  C2. \<open>Close\<close> is idempotent: on the Box that any call of \<open>Close\<close> leaves behind, every
  later call returns \<open>os.ErrClosed\<close>, emits nothing (no subsystem is closed a second
  time) and leaves the Box as it is.
\<close>

theorem Close_again_already_closed:
  assumes "Close sch s = (s', evs, r)"
  shows "done_chan s' \<and> Close sch' s' = (s', [], Returned [ErrClosed])"
proof -
  from assms have "done_chan s'"
    by (auto simp: Close_def split: if_splits)
  then show ?thesis
    by (simp add: Close_def ret_def)
qed

text \<open>The second \<open>Close\<close> of the Box above.\<close>

theorem Close_again_witness:
  "fst (Close sched_one box_busy) = box_busy\<lparr>done_chan := True\<rparr> \<and>
   Close sched_one (box_busy\<lparr>done_chan := True\<rparr>) = (box_busy\<lparr>done_chan := True\<rparr>, [], Returned [ErrClosed])"
proof -
  have first: "fst (Close sched_one box_busy) = box_busy\<lparr>done_chan := True\<rparr>"
    by (simp add: Close_def box_busy_def)
  have "Close sched_one box_busy =
      (box_busy\<lparr>done_chan := True\<rparr>, fst (snd (Close sched_one box_busy)), snd (snd (Close sched_one box_busy)))"
    by (simp add: first [symmetric])
  from Close_again_already_closed [OF this, of sched_one] first show ?thesis
    by simp
qed


section \<open>PreStart and Start\<close>


















section \<open>New\<close>

lemma emits_eq: "emits evs k = (E, r) \<longleftrightarrow> (\<exists>E'. k = (E', r) \<and> E = evs @ E')"
  by (cases k) (auto simp: emits_def)

lemma attempt_Inr:
  "attempt r wrap k = (E, Returned (Inr y)) \<Longrightarrow> \<exists>x. r = Inr x \<and> k x = (E, Returned (Inr y))"
  by (cases r) (auto simp: attempt_def ret_def)

lemma and_then_Inr:
  assumes "and_then m k = (E, Returned (Inr y))"
  shows "\<exists>E1 x E2. m = (E1, Returned (Inr x)) \<and> k x = (E2, Returned (Inr y)) \<and> E = E1 @ E2"
proof (cases m)
  case (Pair E1 r)
  show ?thesis
  proof (cases r)
    case (Returned v)
    with Pair assms show ?thesis
      by (cases v; cases "k (projr v)") (auto simp: and_then_def ret_def)
  next
    case (Panicked p)
    with Pair assms show ?thesis
      by (simp add: and_then_def)
  qed
qed

lemma and_then_Returned [simp]:
  "and_then (E1, Returned (Inr x)) k = (E1 @ fst (k x), snd (k x))"
  by (simp add: and_then_def split: prod.splits)

text \<open>A loop that builds one object per item and appends it.\<close>

lemma for_each_try_append:
  assumes body: "\<And>i x acc. body (i, x) acc =
      emits (ev i x) (attempt (mk i x) (wr i) (\<lambda>y. ret (Inr (acc @ [y]))))"
    and run: "for_each_try (enumerate n xs) body acc = (E, Returned (Inr acc'))"
  shows "\<exists>ys. acc' = acc @ ys \<and> map Inr ys = map (\<lambda>(i, x). mk i x) (enumerate n xs) \<and>
           E = concat (map (\<lambda>(i, x). ev i x) (enumerate n xs))"
  using run
proof (induction xs arbitrary: n acc E)
  case Nil
  then show ?case by (simp add: ret_def)
next
  case (Cons x xs)
  from Cons.prems have "and_then (body (n, x) acc) (for_each_try (enumerate (Suc n) xs) body) =
      (E, Returned (Inr acc'))"
    by simp
  from and_then_Inr [OF this] obtain E1 st E2 where
    step: "body (n, x) acc = (E1, Returned (Inr st))"
    and rest: "for_each_try (enumerate (Suc n) xs) body st = (E2, Returned (Inr acc'))"
    and E: "E = E1 @ E2"
    by blast
  from step [unfolded body emits_eq] obtain E' where
    "attempt (mk n x) (wr n) (\<lambda>y. ret (Inr (acc @ [y]))) = (E', Returned (Inr st))" "E1 = ev n x @ E'"
    by blast
  with attempt_Inr [OF this(1)] obtain y where y: "mk n x = Inr y" "st = acc @ [y]" "E1 = ev n x"
    by (auto simp: ret_def)
  from Cons.IH [OF rest] obtain ys where
    "acc' = st @ ys" "map Inr ys = map (\<lambda>(i, x). mk i x) (enumerate (Suc n) xs)"
    "E2 = concat (map (\<lambda>(i, x). ev i x) (enumerate (Suc n) xs))"
    by blast
  with y E show ?case
    by (intro exI [of _ "y # ys"]) simp
qed

lemma new_inbound_body:
  "new_inbound env (i, x) acc =
     emits [NewLogger (''inbound/'' @ io_Type x @ ''['' @ assign_tag i (io_Tag x) @ '']''), NewInbound x]
       (attempt (inbound_New env (''inbound/'' @ io_Type x @ ''['' @ assign_tag i (io_Tag x) @ '']'') x)
          (\<lambda>err. Cause err (''parse inbound['' @ ToString i @ '']'')) (\<lambda>y. ret (Inr (acc @ [y]))))"
  by (simp add: new_inbound_def Let_def)

lemma new_outbound_body:
  "new_outbound env (i, x) acc =
     emits [NewLogger (''outbound/'' @ oo_Type x @ ''['' @ assign_tag i (oo_Tag x) @ '']''),
            NewOutbound (assign_tag i (oo_Tag x)) x]
       (attempt (outbound_New env (''outbound/'' @ oo_Type x @ ''['' @ assign_tag i (oo_Tag x) @ '']'')
            (assign_tag i (oo_Tag x)) x)
          (\<lambda>err. Cause err (''parse outbound['' @ ToString i @ '']'')) (\<lambda>y. ret (Inr (acc @ [y]))))"
  by (simp add: new_outbound_def Let_def)

lemma new_provider_outbound_body:
  "new_provider_outbound env pp (i, x) acc =
     emits [NewLogger (''outbound/'' @ oo_Type x @ ''['' @ oo_Tag x @ '']''), NewOutbound (oo_Tag x) x]
       (attempt (outbound_New env (''outbound/'' @ oo_Type x @ ''['' @ oo_Tag x @ '']'') (oo_Tag x) x)
          (\<lambda>err. Cause err (''parse proxyprovider ['' @ pp_Tag pp @ ''] outbound['' @ ToString i @ '']''))
          (\<lambda>y. ret (Inr (acc @ [y]))))"
  by (simp add: new_provider_outbound_def Let_def)

lemmas inbound_loop = for_each_try_append [where body = "new_inbound env" for env, OF new_inbound_body]
lemmas outbound_loop = for_each_try_append [where body = "new_outbound env" for env, OF new_outbound_body]
lemmas provider_outbound_loop =
  for_each_try_append [where body = "new_provider_outbound env pp" for env pp, OF new_provider_outbound_body]

lemma new_ruleProvider_Inr:
  assumes "new_ruleProvider env (i, x) (route, dns, rps) = (E, Returned (Inr (route', dns', rps')))"
  shows "\<exists>rp newDNS newRoute.
     ruleprovider_NewRuleProvider env (''ruleprovider['' @ assign_tag i (rpo_Tag x) @ '']'')
        (assign_tag i (rpo_Tag x)) (x\<lparr>rpo_Tag := assign_tag i (rpo_Tag x)\<rparr>) = Inr rp \<and>
     rp_FormatRule rp (rule_arg dns) (rule_arg route) = Inr (newDNS, newRoute) \<and>
     E = [NewLogger (''ruleprovider['' @ assign_tag i (rpo_Tag x) @ '']''),
          NewRuleProvider (assign_tag i (rpo_Tag x)) (x\<lparr>rpo_Tag := assign_tag i (rpo_Tag x)\<rparr>),
          FormatRule i (rule_arg dns) (rule_arg route)] \<and>
     route' = (if route \<noteq> [] then newRoute else route) \<and>
     dns' = (if dns \<noteq> [] then newDNS else dns) \<and>
     rps' = rps @ [rp]"
proof -
  let ?tag = "assign_tag i (rpo_Tag x)"
  from assms obtain E1 where
    a1: "attempt (ruleprovider_NewRuleProvider env (''ruleprovider['' @ ?tag @ '']'') ?tag (x\<lparr>rpo_Tag := ?tag\<rparr>))
       (\<lambda>err. Cause err (''parse ruleprovider['' @ ToString i @ '']'')) (\<lambda>rp.
     let routeArg = (if route \<noteq> [] then Some route else None);
         dnsArg = (if dns \<noteq> [] then Some dns else None) in
     emits [FormatRule i dnsArg routeArg]
    (attempt (rp_FormatRule rp dnsArg routeArg)
       (\<lambda>err. Cause err (''ruleprovider['' @ ToString i @ ''] format rule'')) (\<lambda>(newDNSRules, newRouteRules).
     ret (Inr (if route \<noteq> [] then newRouteRules else route,
               if dns \<noteq> [] then newDNSRules else dns,
               rps @ [rp]))))) = (E1, Returned (Inr (route', dns', rps')))"
    and E: "E = [NewLogger (''ruleprovider['' @ ?tag @ '']''), NewRuleProvider ?tag (x\<lparr>rpo_Tag := ?tag\<rparr>)] @ E1"
    unfolding new_ruleProvider_def prod.case Let_def emits_eq by blast
  from attempt_Inr [OF a1] obtain rp where
    rp: "ruleprovider_NewRuleProvider env (''ruleprovider['' @ ?tag @ '']'') ?tag (x\<lparr>rpo_Tag := ?tag\<rparr>) = Inr rp"
    and a2: "emits [FormatRule i (rule_arg dns) (rule_arg route)]
      (attempt (rp_FormatRule rp (rule_arg dns) (rule_arg route))
       (\<lambda>err. Cause err (''ruleprovider['' @ ToString i @ ''] format rule'')) (\<lambda>(newDNSRules, newRouteRules).
     ret (Inr (if route \<noteq> [] then newRouteRules else route,
               if dns \<noteq> [] then newDNSRules else dns,
               rps @ [rp])))) = (E1, Returned (Inr (route', dns', rps')))"
    unfolding Let_def rule_arg_def by blast
  from a2 [unfolded emits_eq] obtain E2 where
    a3: "attempt (rp_FormatRule rp (rule_arg dns) (rule_arg route))
       (\<lambda>err. Cause err (''ruleprovider['' @ ToString i @ ''] format rule'')) (\<lambda>(newDNSRules, newRouteRules).
     ret (Inr (if route \<noteq> [] then newRouteRules else route,
               if dns \<noteq> [] then newDNSRules else dns,
               rps @ [rp]))) = (E2, Returned (Inr (route', dns', rps')))"
    and E1: "E1 = [FormatRule i (rule_arg dns) (rule_arg route)] @ E2"
    by blast
  from attempt_Inr [OF a3] obtain new where
    new: "rp_FormatRule rp (rule_arg dns) (rule_arg route) = Inr new"
    and a4: "(case new of (newDNSRules, newRouteRules) \<Rightarrow>
     ret (Inr (if route \<noteq> [] then newRouteRules else route,
               if dns \<noteq> [] then newDNSRules else dns,
               rps @ [rp]))) = (E2, Returned (Inr (route', dns', rps') :: error + _))"
    by blast
  obtain newDNS newRoute where nn: "new = (newDNS, newRoute)"
    by (cases new)
  from a4 nn have "E2 = []" "route' = (if route \<noteq> [] then newRoute else route)"
    "dns' = (if dns \<noteq> [] then newDNS else dns)" "rps' = rps @ [rp]"
    by (simp_all add: ret_def)
  with rp new nn E E1 show ?thesis
    by simp
qed

lemma new_proxyProvider_Inr:
  assumes "new_proxyProvider env (i, x) (outs, pps) = (E, Returned (Inr (outs', pps')))"
  shows "\<exists>pp ys.
     proxyprovider_NewProxyProvider env (''proxyprovider['' @ assign_tag i (ppo_Tag x) @ '']'')
        (assign_tag i (ppo_Tag x)) (x\<lparr>ppo_Tag := assign_tag i (ppo_Tag x)\<rparr>) = Inr pp \<and>
     pp_StartGetOutbounds pp = Inr (provided pp) \<and>
     outs' = outs @ ys \<and>
     map Inr ys = map (\<lambda>(j, oo). outbound_New env (''outbound/'' @ oo_Type oo @ ''['' @ oo_Tag oo @ '']'')
                       (oo_Tag oo) oo) (enumerate 0 (provided pp)) \<and>
     E = [NewLogger (''proxyprovider['' @ assign_tag i (ppo_Tag x) @ '']''),
          NewProxyProvider (assign_tag i (ppo_Tag x)) (x\<lparr>ppo_Tag := assign_tag i (ppo_Tag x)\<rparr>),
          StartGetOutbounds i] @
         concat (map (\<lambda>(j, oo). [NewLogger (''outbound/'' @ oo_Type oo @ ''['' @ oo_Tag oo @ '']''),
                      NewOutbound (oo_Tag oo) oo]) (enumerate 0 (provided pp))) \<and>
     pps' = pps @ [pp]"
proof -
  let ?tag = "assign_tag i (ppo_Tag x)"
  from assms obtain E1 where
    a1: "attempt (proxyprovider_NewProxyProvider env (''proxyprovider['' @ ?tag @ '']'') ?tag (x\<lparr>ppo_Tag := ?tag\<rparr>))
       (\<lambda>err. Cause err (''parse proxyprovider['' @ ToString i @ '']'')) (\<lambda>pp.
     emits [StartGetOutbounds i]
    (attempt (pp_StartGetOutbounds pp)
       (\<lambda>err. Cause err (''get outbounds from proxyprovider['' @ ToString i @ '']'')) (\<lambda>outboundOptions.
     and_then (for_each_try (enumerate 0 outboundOptions) (new_provider_outbound env pp) outs) (\<lambda>outbounds.
     ret (Inr (outbounds, pps @ [pp])))))) = (E1, Returned (Inr (outs', pps')))"
    and E: "E = [NewLogger (''proxyprovider['' @ ?tag @ '']''), NewProxyProvider ?tag (x\<lparr>ppo_Tag := ?tag\<rparr>)] @ E1"
    unfolding new_proxyProvider_def prod.case Let_def emits_eq by blast
  from attempt_Inr [OF a1] obtain pp where
    pp: "proxyprovider_NewProxyProvider env (''proxyprovider['' @ ?tag @ '']'') ?tag (x\<lparr>ppo_Tag := ?tag\<rparr>) = Inr pp"
    and a2: "emits [StartGetOutbounds i]
    (attempt (pp_StartGetOutbounds pp)
       (\<lambda>err. Cause err (''get outbounds from proxyprovider['' @ ToString i @ '']'')) (\<lambda>outboundOptions.
     and_then (for_each_try (enumerate 0 outboundOptions) (new_provider_outbound env pp) outs) (\<lambda>outbounds.
     ret (Inr (outbounds, pps @ [pp]))))) = (E1, Returned (Inr (outs', pps')))"
    by blast
  from a2 [unfolded emits_eq] obtain E2 where
    a3: "attempt (pp_StartGetOutbounds pp)
       (\<lambda>err. Cause err (''get outbounds from proxyprovider['' @ ToString i @ '']'')) (\<lambda>outboundOptions.
     and_then (for_each_try (enumerate 0 outboundOptions) (new_provider_outbound env pp) outs) (\<lambda>outbounds.
     ret (Inr (outbounds, pps @ [pp])))) = (E2, Returned (Inr (outs', pps')))"
    and E1: "E1 = [StartGetOutbounds i] @ E2"
    by blast
  from attempt_Inr [OF a3] obtain oos where
    oos: "pp_StartGetOutbounds pp = Inr oos"
    and a4: "and_then (for_each_try (enumerate 0 oos) (new_provider_outbound env pp) outs) (\<lambda>outbounds.
     ret (Inr (outbounds, pps @ [pp]))) = (E2, Returned (Inr (outs', pps')))"
    by blast
  from oos have prov: "provided pp = oos"
    by (simp add: provided_def)
  from and_then_Inr [OF a4] obtain E3 outs1 E4 where
    loop: "for_each_try (enumerate 0 oos) (new_provider_outbound env pp) outs = (E3, Returned (Inr outs1))"
    and fin: "ret (Inr (outs1, pps @ [pp])) = (E4, Returned (Inr (outs', pps') :: error + _))"
    and E2: "E2 = E3 @ E4"
    by blast
  from fin have fin': "E4 = []" "outs' = outs1" "pps' = pps @ [pp]"
    by (simp_all add: ret_def)
  from provider_outbound_loop [OF loop] obtain ys where
    "outs1 = outs @ ys"
    "map Inr ys = map (\<lambda>(j, oo). outbound_New env (''outbound/'' @ oo_Type oo @ ''['' @ oo_Tag oo @ '']'')
                       (oo_Tag oo) oo) (enumerate 0 oos)"
    "E3 = concat (map (\<lambda>(j, oo). [NewLogger (''outbound/'' @ oo_Type oo @ ''['' @ oo_Tag oo @ '']''),
                      NewOutbound (oo_Tag oo) oo]) (enumerate 0 oos))"
    by blast
  with pp oos prov fin' E E1 E2 show ?thesis
    by simp
qed

lemma outbound_tags_simps [simp]:
  "outbound_tags [] = []"
  "outbound_tags (e # evs) = constructed_tag e @ outbound_tags evs"
  "outbound_tags (xs @ ys) = outbound_tags xs @ outbound_tags ys"
  by (simp_all add: outbound_tags_def)

lemma outbound_tags_constructions:
  "outbound_tags (concat (map (\<lambda>x. [NewLogger (name x), NewOutbound (tag x) (opts x)]) xs)) = map tag xs"
  by (induction xs) simp_all

lemma format_calls_simps [simp]:
  "format_calls [] = []"
  "format_calls (e # evs) = formatted e @ format_calls evs"
  "format_calls (xs @ ys) = format_calls xs @ format_calls ys"
  by (simp_all add: format_calls_def)

lemma rule_arg_simps [simp]:
  "rule_arg rules \<noteq> Some []"
  "rule_arg [] = None"
  "rule_arg rules = None \<longleftrightarrow> rules = []"
  by (simp_all add: rule_arg_def)

lemma ruleProvider_loop:
  assumes "for_each_try (enumerate n xs) (new_ruleProvider env) (route, dns, rps) =
      (E, Returned (Inr (route', dns', rps')))"
  shows "(\<exists>ys. rps' = rps @ ys \<and>
            map Inr ys = map (\<lambda>(i, x). ruleprovider_NewRuleProvider env
              (''ruleprovider['' @ assign_tag i (rpo_Tag x) @ '']'') (assign_tag i (rpo_Tag x))
              (x\<lparr>rpo_Tag := assign_tag i (rpo_Tag x)\<rparr>)) (enumerate n xs) \<and>
            format_rules ys (route, dns) = (route', dns')) \<and>
         map fst (format_calls E) = [n..<n + length xs] \<and>
         (\<forall>c \<in> set (format_calls E). fst (snd c) \<noteq> Some [] \<and> snd (snd c) \<noteq> Some []) \<and>
         (route = [] \<longrightarrow> route' = [] \<and> (\<forall>c \<in> set (format_calls E). snd (snd c) = None)) \<and>
         (dns = [] \<longrightarrow> dns' = [] \<and> (\<forall>c \<in> set (format_calls E). fst (snd c) = None)) \<and>
         (\<forall>e \<in> set E. is_construction e) \<and>
         (\<forall>p \<in> set (enumerate n xs).
            NewRuleProvider (assign_tag (fst p) (rpo_Tag (snd p)))
              ((snd p)\<lparr>rpo_Tag := assign_tag (fst p) (rpo_Tag (snd p))\<rparr>) \<in> set E \<and>
            NewLogger (''ruleprovider['' @ assign_tag (fst p) (rpo_Tag (snd p)) @ '']'') \<in> set E) \<and>
         outbound_tags E = []"
  using assms
proof (induction xs arbitrary: n route dns rps E)
  case Nil
  then show ?case by (simp add: ret_def)
next
  case (Cons x xs)
  from Cons.prems have "and_then (new_ruleProvider env (n, x) (route, dns, rps))
      (for_each_try (enumerate (Suc n) xs) (new_ruleProvider env)) = (E, Returned (Inr (route', dns', rps')))"
    by simp
  from and_then_Inr [OF this] obtain E1 st E2 where
    step: "new_ruleProvider env (n, x) (route, dns, rps) = (E1, Returned (Inr st))"
    and rest: "for_each_try (enumerate (Suc n) xs) (new_ruleProvider env) st =
        (E2, Returned (Inr (route', dns', rps')))"
    and E: "E = E1 @ E2"
    by blast
  obtain route1 dns1 rps1 where st: "st = (route1, dns1, rps1)"
    by (cases st)
  from new_ruleProvider_Inr [OF step [unfolded st]] obtain rp newDNS newRoute where
    rp: "ruleprovider_NewRuleProvider env (''ruleprovider['' @ assign_tag n (rpo_Tag x) @ '']'')
        (assign_tag n (rpo_Tag x)) (x\<lparr>rpo_Tag := assign_tag n (rpo_Tag x)\<rparr>) = Inr rp"
    and fr: "rp_FormatRule rp (rule_arg dns) (rule_arg route) = Inr (newDNS, newRoute)"
    and E1: "E1 = [NewLogger (''ruleprovider['' @ assign_tag n (rpo_Tag x) @ '']''),
          NewRuleProvider (assign_tag n (rpo_Tag x)) (x\<lparr>rpo_Tag := assign_tag n (rpo_Tag x)\<rparr>),
          FormatRule n (rule_arg dns) (rule_arg route)]"
    and route1: "route1 = (if route \<noteq> [] then newRoute else route)"
    and dns1: "dns1 = (if dns \<noteq> [] then newDNS else dns)"
    and rps1: "rps1 = rps @ [rp]"
    by blast
  note IH = Cons.IH [OF rest [unfolded st]]
  from IH obtain ys where ys: "rps' = rps1 @ ys"
    "map Inr ys = map (\<lambda>(i, x). ruleprovider_NewRuleProvider env
              (''ruleprovider['' @ assign_tag i (rpo_Tag x) @ '']'') (assign_tag i (rpo_Tag x))
              (x\<lparr>rpo_Tag := assign_tag i (rpo_Tag x)\<rparr>)) (enumerate (Suc n) xs)"
    "format_rules ys (route1, dns1) = (route', dns')"
    by blast
  have a: "\<exists>ys. rps' = rps @ ys \<and>
            map Inr ys = map (\<lambda>(i, x). ruleprovider_NewRuleProvider env
              (''ruleprovider['' @ assign_tag i (rpo_Tag x) @ '']'') (assign_tag i (rpo_Tag x))
              (x\<lparr>rpo_Tag := assign_tag i (rpo_Tag x)\<rparr>)) (enumerate n (x # xs)) \<and>
            format_rules ys (route, dns) = (route', dns')"
    using ys rp rps1 fr route1 dns1 by (intro exI [of _ "rp # ys"]) simp
  from IH have "map fst (format_calls E2) = [Suc n..<Suc n + length xs]"
    by blast
  moreover have "[n..<n + length (x # xs)] = n # [Suc n..<Suc n + length xs]"
    by (simp add: upt_conv_Cons del: upt_Suc)
  ultimately have b: "map fst (format_calls E) = [n..<n + length (x # xs)]"
    by (simp add: E E1 del: upt_Suc)
  from IH have c: "\<forall>c \<in> set (format_calls E). fst (snd c) \<noteq> Some [] \<and> snd (snd c) \<noteq> Some []"
    by (simp add: E E1)
  from IH have d: "route = [] \<longrightarrow> route' = [] \<and> (\<forall>c \<in> set (format_calls E). snd (snd c) = None)"
    by (simp add: E E1 route1)
  from IH have e: "dns = [] \<longrightarrow> dns' = [] \<and> (\<forall>c \<in> set (format_calls E). fst (snd c) = None)"
    by (simp add: E E1 dns1)
  from IH have f: "\<forall>e \<in> set E. is_construction e"
    by (auto simp: E E1)
  from IH have g: "\<forall>p \<in> set (enumerate n (x # xs)).
            NewRuleProvider (assign_tag (fst p) (rpo_Tag (snd p)))
              ((snd p)\<lparr>rpo_Tag := assign_tag (fst p) (rpo_Tag (snd p))\<rparr>) \<in> set E \<and>
            NewLogger (''ruleprovider['' @ assign_tag (fst p) (rpo_Tag (snd p)) @ '']'') \<in> set E"
    by (simp add: E E1)
  from IH have h: "outbound_tags E = []"
    by (simp add: E E1)
  show ?case
    by (intro conjI a b c d e f g h)
qed

lemma map_snd_enumerate_fun: "map (\<lambda>(j, x). f x) (enumerate n xs) = map f xs"
proof -
  have "map (\<lambda>(j, x). f x) (enumerate n xs) = map (f \<circ> snd) (enumerate n xs)"
    by (simp add: case_prod_unfold comp_def)
  also have "\<dots> = map f (map snd (enumerate n xs))"
    by (simp only: map_map)
  finally show ?thesis by simp
qed

lemma proxyProvider_loop:
  assumes "for_each_try (enumerate n xs) (new_proxyProvider env) (outs, pps) =
      (E, Returned (Inr (outs', pps')))"
  shows "\<exists>ys zs. pps' = pps @ ys \<and>
            map Inr ys = map (\<lambda>(i, x). proxyprovider_NewProxyProvider env
              (''proxyprovider['' @ assign_tag i (ppo_Tag x) @ '']'') (assign_tag i (ppo_Tag x))
              (x\<lparr>ppo_Tag := assign_tag i (ppo_Tag x)\<rparr>)) (enumerate n xs) \<and>
            outs' = outs @ zs \<and>
            map Inr zs = provided_outbounds env ys \<and>
            (\<forall>pp \<in> set ys. pp_StartGetOutbounds pp = Inr (provided pp)) \<and>
            (\<forall>pp \<in> set ys. \<forall>oo \<in> set (provided pp).
               NewOutbound (oo_Tag oo) oo \<in> set E \<and>
               NewLogger (''outbound/'' @ oo_Type oo @ ''['' @ oo_Tag oo @ '']'') \<in> set E) \<and>
            (\<forall>p \<in> set (enumerate n xs).
               NewProxyProvider (assign_tag (fst p) (ppo_Tag (snd p)))
                 ((snd p)\<lparr>ppo_Tag := assign_tag (fst p) (ppo_Tag (snd p))\<rparr>) \<in> set E \<and>
               NewLogger (''proxyprovider['' @ assign_tag (fst p) (ppo_Tag (snd p)) @ '']'') \<in> set E) \<and>
            (\<forall>e \<in> set E. is_construction e) \<and>
            format_calls E = [] \<and>
            outbound_tags E = concat (map (\<lambda>pp. map oo_Tag (provided pp)) ys)"
  using assms
proof (induction xs arbitrary: n outs pps E)
  case Nil
  then show ?case by (simp add: ret_def provided_outbounds_def)
next
  case (Cons x xs)
  from Cons.prems have "and_then (new_proxyProvider env (n, x) (outs, pps))
      (for_each_try (enumerate (Suc n) xs) (new_proxyProvider env)) = (E, Returned (Inr (outs', pps')))"
    by simp
  from and_then_Inr [OF this] obtain E1 st E2 where
    step: "new_proxyProvider env (n, x) (outs, pps) = (E1, Returned (Inr st))"
    and rest: "for_each_try (enumerate (Suc n) xs) (new_proxyProvider env) st =
        (E2, Returned (Inr (outs', pps')))"
    and E: "E = E1 @ E2"
    by blast
  obtain outs1 pps1 where st: "st = (outs1, pps1)"
    by (cases st)
  from new_proxyProvider_Inr [OF step [unfolded st]] obtain pp zs1 where
    pp: "proxyprovider_NewProxyProvider env (''proxyprovider['' @ assign_tag n (ppo_Tag x) @ '']'')
        (assign_tag n (ppo_Tag x)) (x\<lparr>ppo_Tag := assign_tag n (ppo_Tag x)\<rparr>) = Inr pp"
    and got: "pp_StartGetOutbounds pp = Inr (provided pp)"
    and outs1: "outs1 = outs @ zs1"
    and zs1: "map Inr zs1 = map (\<lambda>(j, oo). outbound_New env (''outbound/'' @ oo_Type oo @ ''['' @ oo_Tag oo @ '']'')
                       (oo_Tag oo) oo) (enumerate 0 (provided pp))"
    and E1: "E1 = [NewLogger (''proxyprovider['' @ assign_tag n (ppo_Tag x) @ '']''),
          NewProxyProvider (assign_tag n (ppo_Tag x)) (x\<lparr>ppo_Tag := assign_tag n (ppo_Tag x)\<rparr>),
          StartGetOutbounds n] @
         concat (map (\<lambda>(j, oo). [NewLogger (''outbound/'' @ oo_Type oo @ ''['' @ oo_Tag oo @ '']''),
                      NewOutbound (oo_Tag oo) oo]) (enumerate 0 (provided pp)))"
    and pps1: "pps1 = pps @ [pp]"
    by blast
  from Cons.IH [OF rest [unfolded st]] obtain ys zs where
    ys: "pps' = pps1 @ ys"
    and mk: "map Inr ys = map (\<lambda>(i, x). proxyprovider_NewProxyProvider env
              (''proxyprovider['' @ assign_tag i (ppo_Tag x) @ '']'') (assign_tag i (ppo_Tag x))
              (x\<lparr>ppo_Tag := assign_tag i (ppo_Tag x)\<rparr>)) (enumerate (Suc n) xs)"
    and zs: "outs' = outs1 @ zs" "map Inr zs = provided_outbounds env ys"
    and gots: "\<forall>pp \<in> set ys. pp_StartGetOutbounds pp = Inr (provided pp)"
    and evs: "\<forall>pp \<in> set ys. \<forall>oo \<in> set (provided pp).
               NewOutbound (oo_Tag oo) oo \<in> set E2 \<and>
               NewLogger (''outbound/'' @ oo_Type oo @ ''['' @ oo_Tag oo @ '']'') \<in> set E2"
    and evp: "\<forall>p \<in> set (enumerate (Suc n) xs).
               NewProxyProvider (assign_tag (fst p) (ppo_Tag (snd p)))
                 ((snd p)\<lparr>ppo_Tag := assign_tag (fst p) (ppo_Tag (snd p))\<rparr>) \<in> set E2 \<and>
               NewLogger (''proxyprovider['' @ assign_tag (fst p) (ppo_Tag (snd p)) @ '']'') \<in> set E2"
    and cls: "\<forall>e \<in> set E2. is_construction e"
    and nof: "format_calls E2 = []"
    and tags: "outbound_tags E2 = concat (map (\<lambda>pp. map oo_Tag (provided pp)) ys)"
    by blast
  have zs1': "map Inr zs1 = map (\<lambda>oo. outbound_New env (''outbound/'' @ oo_Type oo @ ''['' @ oo_Tag oo @ '']'')
                       (oo_Tag oo) oo) (provided pp)"
    using zs1 by (simp only: map_snd_enumerate_fun)
  have E1': "set E1 = {NewLogger (''proxyprovider['' @ assign_tag n (ppo_Tag x) @ '']''),
          NewProxyProvider (assign_tag n (ppo_Tag x)) (x\<lparr>ppo_Tag := assign_tag n (ppo_Tag x)\<rparr>),
          StartGetOutbounds n} \<union>
         (\<Union>oo \<in> set (provided pp). {NewLogger (''outbound/'' @ oo_Type oo @ ''['' @ oo_Tag oo @ '']''),
                      NewOutbound (oo_Tag oo) oo})"
    unfolding E1 map_snd_enumerate_fun by auto
  show ?case
  proof (intro exI [of _ "pp # ys"] exI [of _ "zs1 @ zs"] conjI)
    show "pps' = pps @ pp # ys"
      using ys pps1 by simp
    show "map Inr (pp # ys) = map (\<lambda>(i, x). proxyprovider_NewProxyProvider env
              (''proxyprovider['' @ assign_tag i (ppo_Tag x) @ '']'') (assign_tag i (ppo_Tag x))
              (x\<lparr>ppo_Tag := assign_tag i (ppo_Tag x)\<rparr>)) (enumerate n (x # xs))"
      using mk pp by simp
    show "outs' = outs @ zs1 @ zs"
      using zs outs1 by simp
    show "map Inr (zs1 @ zs) = provided_outbounds env (pp # ys)"
      using zs(2) zs1' by (simp add: provided_outbounds_def)
    show "\<forall>pp \<in> set (pp # ys). pp_StartGetOutbounds pp = Inr (provided pp)"
      using gots got by simp
    show "\<forall>pp \<in> set (pp # ys). \<forall>oo \<in> set (provided pp).
               NewOutbound (oo_Tag oo) oo \<in> set E \<and>
               NewLogger (''outbound/'' @ oo_Type oo @ ''['' @ oo_Tag oo @ '']'') \<in> set E"
      using evs by (auto simp: E E1')
    show "\<forall>p \<in> set (enumerate n (x # xs)).
               NewProxyProvider (assign_tag (fst p) (ppo_Tag (snd p)))
                 ((snd p)\<lparr>ppo_Tag := assign_tag (fst p) (ppo_Tag (snd p))\<rparr>) \<in> set E \<and>
               NewLogger (''proxyprovider['' @ assign_tag (fst p) (ppo_Tag (snd p)) @ '']'') \<in> set E"
      using evp by (auto simp: E E1')
    show "\<forall>e \<in> set E. is_construction e"
      using cls by (auto simp: E E1')
    show "format_calls E = []"
      using nof by (simp add: E E1 map_snd_enumerate_fun format_calls_def)
    show "outbound_tags E = concat (map (\<lambda>pp. map oo_Tag (provided pp)) (pp # ys))"
      using tags by (simp add: E E1 map_snd_enumerate_fun outbound_tags_constructions)
  qed
qed

lemma New_wire_Inr:
  assumes "New_wire env options = (E, Returned (Inr w))"
  shows "\<exists>route' dns' E_rp E_in E_out outs0 E_pp.
    log_New env (needClashAPI options) = Inr (w_logFactory w) \<and>
    for_each_try (enumerate 0 (RulProviders options)) (new_ruleProvider env)
        (Route_Rules options, DNS_Rules options, []) =
      (E_rp, Returned (Inr (route', dns', w_ruleProviders w))) \<and>
    route_NewRouter env route' dns' (Inbounds options) = Inr (w_router w) \<and>
    for_each_try (enumerate 0 (Inbounds options)) (new_inbound env) [] =
      (E_in, Returned (Inr (w_inbounds w))) \<and>
    for_each_try (enumerate 0 (Outbounds options)) (new_outbound env) [] =
      (E_out, Returned (Inr outs0)) \<and>
    for_each_try (enumerate 0 (ProxyProviders options)) (new_proxyProvider env) (outs0, []) =
      (E_pp, Returned (Inr (w_outbounds w, w_proxyProviders w))) \<and>
    E = E_rp @ [NewRouter route' dns'] @ map SetRouter [0..<length (w_ruleProviders w)] @ E_in @ E_out @ E_pp"
proof -
  from attempt_Inr [OF assms [unfolded New_wire_def]] obtain lf where
    lf: "log_New env (needClashAPI options) = Inr lf"
    and a1: "and_then (for_each_try (enumerate 0 (RulProviders options)) (new_ruleProvider env)
                 (Route_Rules options, DNS_Rules options, [])) (\<lambda>(routeRules, dnsRules, ruleProviders).
     emits [NewRouter routeRules dnsRules]
    (attempt (route_NewRouter env routeRules dnsRules (Inbounds options))
       (\<lambda>err. Cause err ''parse route options'') (\<lambda>router.
     emits (map SetRouter [0..<length ruleProviders])
    (and_then (for_each_try (enumerate 0 (Inbounds options)) (new_inbound env) []) (\<lambda>inbounds.
     and_then (for_each_try (enumerate 0 (Outbounds options)) (new_outbound env) []) (\<lambda>outbounds.
     and_then (for_each_try (enumerate 0 (ProxyProviders options)) (new_proxyProvider env) (outbounds, []))
       (\<lambda>(outbounds, proxyProviders).
     ret (Inr \<lparr>w_logFactory = lf, w_ruleProviders = ruleProviders, w_router = router,
            w_inbounds = inbounds, w_outbounds = outbounds, w_proxyProviders = proxyProviders\<rparr>)))))))) =
     (E, Returned (Inr w))"
    by blast
  from and_then_Inr [OF a1] obtain E_rp st E1 where
    rp: "for_each_try (enumerate 0 (RulProviders options)) (new_ruleProvider env)
                 (Route_Rules options, DNS_Rules options, []) = (E_rp, Returned (Inr st))"
    and a2: "(case st of (routeRules, dnsRules, rps) \<Rightarrow>
     emits [NewRouter routeRules dnsRules]
    (attempt (route_NewRouter env routeRules dnsRules (Inbounds options))
       (\<lambda>err. Cause err ''parse route options'') (\<lambda>router.
     emits (map SetRouter [0..<length rps])
    (and_then (for_each_try (enumerate 0 (Inbounds options)) (new_inbound env) []) (\<lambda>inbounds.
     and_then (for_each_try (enumerate 0 (Outbounds options)) (new_outbound env) []) (\<lambda>outbounds.
     and_then (for_each_try (enumerate 0 (ProxyProviders options)) (new_proxyProvider env) (outbounds, []))
       (\<lambda>(outbounds, proxyProviders).
     ret (Inr \<lparr>w_logFactory = lf, w_ruleProviders = rps, w_router = router,
            w_inbounds = inbounds, w_outbounds = outbounds, w_proxyProviders = proxyProviders\<rparr>)))))))) =
     (E1, Returned (Inr w))"
    and E: "E = E_rp @ E1"
    by blast
  obtain route' dns' rps where st: "st = (route', dns', rps)"
    by (cases st)
  from a2 [unfolded st prod.case emits_eq] obtain E2 where
    a3: "attempt (route_NewRouter env route' dns' (Inbounds options))
       (\<lambda>err. Cause err ''parse route options'') (\<lambda>router.
     emits (map SetRouter [0..<length rps])
    (and_then (for_each_try (enumerate 0 (Inbounds options)) (new_inbound env) []) (\<lambda>inbounds.
     and_then (for_each_try (enumerate 0 (Outbounds options)) (new_outbound env) []) (\<lambda>outbounds.
     and_then (for_each_try (enumerate 0 (ProxyProviders options)) (new_proxyProvider env) (outbounds, []))
       (\<lambda>(outbounds, proxyProviders).
     ret (Inr \<lparr>w_logFactory = lf, w_ruleProviders = rps, w_router = router,
            w_inbounds = inbounds, w_outbounds = outbounds, w_proxyProviders = proxyProviders\<rparr>)))))) =
     (E2, Returned (Inr w))"
    and E1: "E1 = [NewRouter route' dns'] @ E2"
    by blast
  from attempt_Inr [OF a3] obtain rt where
    rt: "route_NewRouter env route' dns' (Inbounds options) = Inr rt"
    and a4: "emits (map SetRouter [0..<length rps])
    (and_then (for_each_try (enumerate 0 (Inbounds options)) (new_inbound env) []) (\<lambda>inbounds.
     and_then (for_each_try (enumerate 0 (Outbounds options)) (new_outbound env) []) (\<lambda>outbounds.
     and_then (for_each_try (enumerate 0 (ProxyProviders options)) (new_proxyProvider env) (outbounds, []))
       (\<lambda>(outbounds, proxyProviders).
     ret (Inr \<lparr>w_logFactory = lf, w_ruleProviders = rps, w_router = rt,
            w_inbounds = inbounds, w_outbounds = outbounds, w_proxyProviders = proxyProviders\<rparr>))))) =
     (E2, Returned (Inr w))"
    by blast
  from a4 [unfolded emits_eq] obtain E3 where
    a5: "and_then (for_each_try (enumerate 0 (Inbounds options)) (new_inbound env) []) (\<lambda>inbounds.
     and_then (for_each_try (enumerate 0 (Outbounds options)) (new_outbound env) []) (\<lambda>outbounds.
     and_then (for_each_try (enumerate 0 (ProxyProviders options)) (new_proxyProvider env) (outbounds, []))
       (\<lambda>(outbounds, proxyProviders).
     ret (Inr \<lparr>w_logFactory = lf, w_ruleProviders = rps, w_router = rt,
            w_inbounds = inbounds, w_outbounds = outbounds, w_proxyProviders = proxyProviders\<rparr>)))) =
     (E3, Returned (Inr w))"
    and E2: "E2 = map SetRouter [0..<length rps] @ E3"
    by blast
  from and_then_Inr [OF a5] obtain E_in ins E4 where
    ins: "for_each_try (enumerate 0 (Inbounds options)) (new_inbound env) [] = (E_in, Returned (Inr ins))"
    and a6: "and_then (for_each_try (enumerate 0 (Outbounds options)) (new_outbound env) []) (\<lambda>outbounds.
     and_then (for_each_try (enumerate 0 (ProxyProviders options)) (new_proxyProvider env) (outbounds, []))
       (\<lambda>(outbounds, proxyProviders).
     ret (Inr \<lparr>w_logFactory = lf, w_ruleProviders = rps, w_router = rt,
            w_inbounds = ins, w_outbounds = outbounds, w_proxyProviders = proxyProviders\<rparr>))) =
     (E4, Returned (Inr w))"
    and E3: "E3 = E_in @ E4"
    by blast
  from and_then_Inr [OF a6] obtain E_out outs0 E5 where
    outs0: "for_each_try (enumerate 0 (Outbounds options)) (new_outbound env) [] = (E_out, Returned (Inr outs0))"
    and a7: "and_then (for_each_try (enumerate 0 (ProxyProviders options)) (new_proxyProvider env) (outs0, []))
       (\<lambda>(outbounds, proxyProviders).
     ret (Inr \<lparr>w_logFactory = lf, w_ruleProviders = rps, w_router = rt,
            w_inbounds = ins, w_outbounds = outbounds, w_proxyProviders = proxyProviders\<rparr>)) =
     (E5, Returned (Inr w))"
    and E4: "E4 = E_out @ E5"
    by blast
  from and_then_Inr [OF a7] obtain E_pp st2 E6 where
    pps: "for_each_try (enumerate 0 (ProxyProviders options)) (new_proxyProvider env) (outs0, []) =
        (E_pp, Returned (Inr st2))"
    and a8: "(case st2 of (outs, pps) \<Rightarrow>
     ret (Inr \<lparr>w_logFactory = lf, w_ruleProviders = rps, w_router = rt,
            w_inbounds = ins, w_outbounds = outs, w_proxyProviders = pps\<rparr>)) =
     (E6, Returned (Inr w :: error + wiring))"
    and E5: "E5 = E_pp @ E6"
    by blast
  obtain outs pps' where st2: "st2 = (outs, pps')"
    by (cases st2)
  from a8 st2 have w: "w = \<lparr>w_logFactory = lf, w_ruleProviders = rps, w_router = rt,
            w_inbounds = ins, w_outbounds = outs, w_proxyProviders = pps'\<rparr>" and E6: "E6 = []"
    by (simp_all add: ret_def)
  show ?thesis
    using lf rp rt ins outs0 pps
    by (intro exI [of _ route'] exI [of _ dns'] exI [of _ E_rp] exI [of _ E_in] exI [of _ E_out]
        exI [of _ outs0] exI [of _ E_pp])
       (simp add: w st st2 E E1 E2 E3 E4 E5 E6)
qed

lemma platform_Initialize_Inr:
  "platform_Initialize options = (E, Returned (Inr u)) \<Longrightarrow> DefaultOutbound \<notin> set E"
  by (auto simp: platform_Initialize_def emits_def ret_def split: option.splits)

lemma new_clashServer_Inr:
  "new_clashServer env options m = (E, Returned (Inr m')) \<Longrightarrow>
   DefaultOutbound \<notin> set E \<and> dom m' \<subseteq> insert ''clash api'' (dom m)"
  by (auto simp: new_clashServer_def emits_def attempt_def ret_def split: if_splits sum.splits)

lemma new_v2rayServer_Inr:
  "new_v2rayServer env options m = (E, Returned (Inr m')) \<Longrightarrow>
   DefaultOutbound \<notin> set E \<and> dom m' \<subseteq> insert ''v2ray api'' (dom m)"
  by (auto simp: new_v2rayServer_def emits_def attempt_def ret_def split: if_splits sum.splits)

lemma services_Inr:
  assumes "and_then (platform_Initialize options) (\<lambda>_.
     and_then (new_clashServer env options Map.empty) (\<lambda>preServices.
     and_then (new_v2rayServer env options preServices) (\<lambda>preServices.
     ret (Inr (mk preServices))))) = (E, Returned (Inr b))"
  shows "\<exists>m. b = mk m \<and> dom m \<subseteq> {''clash api'', ''v2ray api''} \<and> DefaultOutbound \<notin> set E"
proof -
  from and_then_Inr [OF assms] obtain E1 u E2 where
    p: "platform_Initialize options = (E1, Returned (Inr u))"
    and a1: "and_then (new_clashServer env options Map.empty) (\<lambda>preServices.
     and_then (new_v2rayServer env options preServices) (\<lambda>preServices.
     ret (Inr (mk preServices)))) = (E2, Returned (Inr b))"
    and E: "E = E1 @ E2"
    by blast
  from and_then_Inr [OF a1] obtain E3 m1 E4 where
    c: "new_clashServer env options Map.empty = (E3, Returned (Inr m1))"
    and a2: "and_then (new_v2rayServer env options m1) (\<lambda>preServices.
     ret (Inr (mk preServices))) = (E4, Returned (Inr b))"
    and E2: "E2 = E3 @ E4"
    by blast
  from and_then_Inr [OF a2] obtain E5 m2 E6 where
    v: "new_v2rayServer env options m1 = (E5, Returned (Inr m2))"
    and a3: "ret (Inr (mk m2)) = (E6, Returned (Inr b :: error + _))"
    and E4: "E4 = E5 @ E6"
    by blast
  from a3 have b: "b = mk m2" "E6 = []"
    by (simp_all add: ret_def)
  from new_clashServer_Inr [OF c] new_v2rayServer_Inr [OF v]
  have "dom m2 \<subseteq> {''clash api'', ''v2ray api''}"
    by fastforce
  moreover from platform_Initialize_Inr [OF p] new_clashServer_Inr [OF c] new_v2rayServer_Inr [OF v]
  have "DefaultOutbound \<notin> set E"
    by (simp add: E E2 E4 b)
  moreover note b(1)
  ultimately show ?thesis by blast
qed

lemma New_finish_Inr:
  assumes "New_finish env options w = (E, Returned (Inr b))"
  shows "\<exists>invoked E' m.
    rt_Initialize (w_router w) (w_inbounds w) (w_outbounds w) (w_proxyProviders w) (w_ruleProviders w) =
      (invoked, None) \<and>
    (if invoked
     then \<exists>out. outbound_New env ''outbound/direct'' ''direct'' default_options = Inr out \<and>
            outbounds b = w_outbounds w @ [out]
     else outbounds b = w_outbounds w) \<and>
    E = Initialize (w_inbounds w) (w_outbounds w) (w_proxyProviders w) (w_ruleProviders w) #
        (if invoked then [DefaultOutbound, NewLogger ''outbound/direct'', NewOutbound ''direct'' default_options]
         else []) @ E' \<and>
    DefaultOutbound \<notin> set E' \<and>
    b = \<lparr>router = w_router w, inbounds = w_inbounds w, outbounds = outbounds b,
            proxyProviders = w_proxyProviders w, ruleProviders = w_ruleProviders w,
            logFactory = w_logFactory w, preServices = m, postServices = Map.empty,
            reloadChan = make_chan 1, done_chan = False\<rparr> \<and>
    dom m \<subseteq> {''clash api'', ''v2ray api''}"
proof -
  obtain invoked err where init:
    "rt_Initialize (w_router w) (w_inbounds w) (w_outbounds w) (w_proxyProviders w) (w_ruleProviders w) =
      (invoked, err)"
    by (cases "rt_Initialize (w_router w) (w_inbounds w) (w_outbounds w) (w_proxyProviders w) (w_ruleProviders w)")
  let ?rest = "\<lambda>outs. and_then (platform_Initialize options) (\<lambda>_.
     and_then (new_clashServer env options Map.empty) (\<lambda>preServices.
     and_then (new_v2rayServer env options preServices) (\<lambda>preServices.
     ret (Inr \<lparr>router = w_router w, inbounds = w_inbounds w, outbounds = outs,
            proxyProviders = w_proxyProviders w, ruleProviders = w_ruleProviders w,
            logFactory = w_logFactory w, preServices = preServices, postServices = Map.empty,
            reloadChan = make_chan 1, done_chan = False\<rparr>))))"
  from assms [unfolded New_finish_def init prod.case emits_eq] obtain E1 where
    a1: "bind_prog (if invoked then default_outbound env (w_outbounds w) else ret (w_outbounds w))
      (\<lambda>outs. case err of Some err \<Rightarrow> ret (Inl err) | None \<Rightarrow> ?rest outs) = (E1, Returned (Inr b))"
    and E: "E = [Initialize (w_inbounds w) (w_outbounds w) (w_proxyProviders w) (w_ruleProviders w)] @ E1"
    by blast
  have err: "err = None"
    using a1
    by (cases err; cases invoked; cases "outbound_New env ''outbound/direct'' ''direct'' default_options")
       (auto simp: default_outbound_def emits_def ret_def raise_def)
  show ?thesis
  proof (cases invoked)
    case True
    with a1 err obtain out where
      out: "outbound_New env ''outbound/direct'' ''direct'' default_options = Inr out"
      by (cases "outbound_New env ''outbound/direct'' ''direct'' default_options")
         (auto simp: default_outbound_def emits_def ret_def raise_def)
    with a1 err True obtain E2 where
      a2: "?rest (w_outbounds w @ [out]) = (E2, Returned (Inr b))"
      and E1: "E1 = [DefaultOutbound, NewLogger ''outbound/direct'', NewOutbound ''direct'' default_options] @ E2"
      by (cases "?rest (w_outbounds w @ [out])")
         (auto simp: default_outbound_def emits_def ret_def)
    from services_Inr [OF a2] obtain m where
      m: "b = \<lparr>router = w_router w, inbounds = w_inbounds w, outbounds = w_outbounds w @ [out],
            proxyProviders = w_proxyProviders w, ruleProviders = w_ruleProviders w,
            logFactory = w_logFactory w, preServices = m, postServices = Map.empty,
            reloadChan = make_chan 1, done_chan = False\<rparr>"
      "dom m \<subseteq> {''clash api'', ''v2ray api''}" "DefaultOutbound \<notin> set E2"
      by blast
    show ?thesis
      apply (intro exI [of _ True] exI [of _ E2] exI [of _ m])
      using m out init err E E1 True
      apply simp
      done
  next
    case False
    with a1 err obtain E2 where
      a2: "?rest (w_outbounds w) = (E2, Returned (Inr b))"
      and E1: "E1 = E2"
      by (cases "?rest (w_outbounds w)") (auto simp: ret_def)
    from services_Inr [OF a2] obtain m where
      m: "b = \<lparr>router = w_router w, inbounds = w_inbounds w, outbounds = w_outbounds w,
            proxyProviders = w_proxyProviders w, ruleProviders = w_ruleProviders w,
            logFactory = w_logFactory w, preServices = m, postServices = Map.empty,
            reloadChan = make_chan 1, done_chan = False\<rparr>"
      "dom m \<subseteq> {''clash api'', ''v2ray api''}" "DefaultOutbound \<notin> set E2"
      by blast
    show ?thesis
      apply (intro exI [of _ False] exI [of _ E2] exI [of _ m])
      using m init err E E1 False
      apply simp
      done
  qed
qed

section \<open>Runs of the concrete configurations\<close>

lemma rule_provider_plain_simps [simp]:
  "rp_Tag (rule_provider_plain tag) = tag"
  "rp_FormatRule (rule_provider_plain tag) dnsRules routeRules =
     Inr (case dnsRules of None \<Rightarrow> [] | Some rules \<Rightarrow> rules @ [tag],
          case routeRules of None \<Rightarrow> [] | Some rules \<Rightarrow> rules @ [tag])"
  "rp_Start (rule_provider_plain tag) = Returned None"
  "rp_Close (rule_provider_plain tag) = Returned None"
  by (simp_all add: rule_provider_plain_def)

lemma proxy_provider_plain_simps [simp]:
  "pp_Tag (proxy_provider_plain tag) = tag"
  "pp_StartGetOutbounds (proxy_provider_plain tag) =
     Inr [\<lparr>oo_Type = ''socks'', oo_Tag = tag @ ''/a''\<rparr>, \<lparr>oo_Type = ''socks'', oo_Tag = tag @ ''/b''\<rparr>]"
  "pp_Start (proxy_provider_plain tag) = Returned None"
  "pp_Close (proxy_provider_plain tag) = Returned None"
  by (simp_all add: proxy_provider_plain_def)

lemma router_plain_simps [simp]:
  "rt_Initialize router_plain ins outs pps rps = (outs = [], None)"
  "rt_Start router_plain = Returned None"
  "rt_Close router_plain = Returned None"
  by (simp_all add: router_plain_def)

lemma ToString_digits [simp]:
  "ToString 0 = ''0''" "ToString (Suc 0) = ''1''" "ToString 1 = ''1''" "ToString 2 = ''2''"
  by (simp_all add: ToString.simps digit_def)

lemmas run_New = New_def New_wire_def New_finish_def new_ruleProvider_def new_inbound_def new_outbound_def
  new_proxyProvider_def new_provider_outbound_def default_outbound_def default_options_def
  platform_Initialize_def new_clashServer_def new_v2rayServer_def needClashAPI_def needV2RayAPI_def
  attempt_def and_then_def emits_def ret_def raise_def assign_tag_def Let_def

lemma New_wire_two_rule_providers:
  "New_wire env_plain options_two_rule_providers =
     ([NewLogger ''ruleprovider[geo]'', NewRuleProvider ''geo'' \<lparr>rpo_Tag = ''geo''\<rparr>,
       FormatRule 0 None (Some [''r1'']),
       NewLogger ''ruleprovider[1]'', NewRuleProvider ''1'' \<lparr>rpo_Tag = ''1''\<rparr>,
       FormatRule 1 None (Some [''r1'', ''geo'']),
       NewRouter [''r1'', ''geo'', ''1''] [], SetRouter 0, SetRouter 1],
      Returned (Inr \<lparr>w_logFactory = \<lparr>lf_Close = Returned None\<rparr>,
         w_ruleProviders = [rule_provider_plain ''geo'', rule_provider_plain ''1''],
         w_router = router_plain, w_inbounds = [], w_outbounds = [], w_proxyProviders = []\<rparr>))"
  by (simp add: run_New env_plain_def options_two_rule_providers_def options_empty_def upt_rec)

lemma New_one_rule_provider:
  "fst (New env_plain options_one_rule_provider) =
     [NewLogger ''ruleprovider[0]'', NewRuleProvider ''0'' \<lparr>rpo_Tag = ''0''\<rparr>,
      FormatRule 0 None None, NewRouter [] [], SetRouter 0,
      Initialize [] [] [] [rule_provider_plain ''0''],
      DefaultOutbound, NewLogger ''outbound/direct'',
      NewOutbound ''direct'' \<lparr>oo_Type = ''direct'', oo_Tag = ''default''\<rparr>]"
  by (simp add: run_New env_plain_def options_one_rule_provider_def options_empty_def upt_rec)


section \<open>What New builds\<close>

lemma New_wire_built:
  assumes "New_wire env options = (E, Returned (Inr w))"
  shows "map Inr (w_ruleProviders w) =
           map (\<lambda>(i, x). ruleprovider_NewRuleProvider env
              (''ruleprovider['' @ assign_tag i (rpo_Tag x) @ '']'') (assign_tag i (rpo_Tag x))
              (x\<lparr>rpo_Tag := assign_tag i (rpo_Tag x)\<rparr>)) (enumerate 0 (RulProviders options))"
    and "map Inr (w_inbounds w) =
           map (\<lambda>(i, x). inbound_New env (''inbound/'' @ io_Type x @ ''['' @ assign_tag i (io_Tag x) @ '']'') x)
             (enumerate 0 (Inbounds options))"
    and "map Inr (w_outbounds w) = static_outbounds env options @ provided_outbounds env (w_proxyProviders w)"
    and "map Inr (w_proxyProviders w) =
           map (\<lambda>(i, x). proxyprovider_NewProxyProvider env
              (''proxyprovider['' @ assign_tag i (ppo_Tag x) @ '']'') (assign_tag i (ppo_Tag x))
              (x\<lparr>ppo_Tag := assign_tag i (ppo_Tag x)\<rparr>)) (enumerate 0 (ProxyProviders options))"
    and "\<forall>pp \<in> set (w_proxyProviders w). pp_StartGetOutbounds pp = Inr (provided pp)"
    and "\<forall>p \<in> set (enumerate 0 (RulProviders options)).
           NewLogger (''ruleprovider['' @ assign_tag (fst p) (rpo_Tag (snd p)) @ '']'') \<in> set E"
    and "\<forall>p \<in> set (enumerate 0 (Inbounds options)).
           NewLogger (''inbound/'' @ io_Type (snd p) @ ''['' @ assign_tag (fst p) (io_Tag (snd p)) @ '']'') \<in> set E"
    and "\<forall>p \<in> set (enumerate 0 (Outbounds options)).
           NewLogger (''outbound/'' @ oo_Type (snd p) @ ''['' @ assign_tag (fst p) (oo_Tag (snd p)) @ '']'') \<in> set E"
    and "\<forall>p \<in> set (enumerate 0 (ProxyProviders options)).
           NewLogger (''proxyprovider['' @ assign_tag (fst p) (ppo_Tag (snd p)) @ '']'') \<in> set E"
    and "\<forall>pp \<in> set (w_proxyProviders w). \<forall>oo \<in> set (provided pp). NewOutbound (oo_Tag oo) oo \<in> set E"
    and "\<forall>e \<in> set E. is_construction e"
    and "outbound_tags E =
           map (\<lambda>(i, x). assign_tag i (oo_Tag x)) (enumerate 0 (Outbounds options)) @
           concat (map (\<lambda>pp. map oo_Tag (provided pp)) (w_proxyProviders w))"
proof -
  from New_wire_Inr [OF assms] obtain route' dns' E_rp E_in E_out outs0 E_pp where
    rp: "for_each_try (enumerate 0 (RulProviders options)) (new_ruleProvider env)
        (Route_Rules options, DNS_Rules options, []) =
      (E_rp, Returned (Inr (route', dns', w_ruleProviders w)))"
    and ins: "for_each_try (enumerate 0 (Inbounds options)) (new_inbound env) [] =
      (E_in, Returned (Inr (w_inbounds w)))"
    and outs: "for_each_try (enumerate 0 (Outbounds options)) (new_outbound env) [] =
      (E_out, Returned (Inr outs0))"
    and pps: "for_each_try (enumerate 0 (ProxyProviders options)) (new_proxyProvider env) (outs0, []) =
      (E_pp, Returned (Inr (w_outbounds w, w_proxyProviders w)))"
    and E: "E = E_rp @ [NewRouter route' dns'] @ map SetRouter [0..<length (w_ruleProviders w)] @
      E_in @ E_out @ E_pp"
    by blast
  note R = ruleProvider_loop [OF rp]
  note I = inbound_loop [OF ins]
  note O = outbound_loop [OF outs]
  note P = proxyProvider_loop [OF pps]
  from R show "map Inr (w_ruleProviders w) =
           map (\<lambda>(i, x). ruleprovider_NewRuleProvider env
              (''ruleprovider['' @ assign_tag i (rpo_Tag x) @ '']'') (assign_tag i (rpo_Tag x))
              (x\<lparr>rpo_Tag := assign_tag i (rpo_Tag x)\<rparr>)) (enumerate 0 (RulProviders options))"
    by auto
  from I show "map Inr (w_inbounds w) =
           map (\<lambda>(i, x). inbound_New env (''inbound/'' @ io_Type x @ ''['' @ assign_tag i (io_Tag x) @ '']'') x)
             (enumerate 0 (Inbounds options))"
    by auto
  from O have o: "map Inr outs0 = static_outbounds env options"
    by (auto simp: static_outbounds_def)
  from P obtain ys zs where p: "w_proxyProviders w = ys" "w_outbounds w = outs0 @ zs"
    "map Inr zs = provided_outbounds env ys"
    by auto
  with o show "map Inr (w_outbounds w) = static_outbounds env options @ provided_outbounds env (w_proxyProviders w)"
    by simp
  from P show "map Inr (w_proxyProviders w) =
           map (\<lambda>(i, x). proxyprovider_NewProxyProvider env
              (''proxyprovider['' @ assign_tag i (ppo_Tag x) @ '']'') (assign_tag i (ppo_Tag x))
              (x\<lparr>ppo_Tag := assign_tag i (ppo_Tag x)\<rparr>)) (enumerate 0 (ProxyProviders options))"
    by auto
  from P show "\<forall>pp \<in> set (w_proxyProviders w). pp_StartGetOutbounds pp = Inr (provided pp)"
    by auto
  from R show "\<forall>p \<in> set (enumerate 0 (RulProviders options)).
           NewLogger (''ruleprovider['' @ assign_tag (fst p) (rpo_Tag (snd p)) @ '']'') \<in> set E"
    unfolding E by auto
  from I have "E_in = concat (map (\<lambda>(i, x). [NewLogger (''inbound/'' @ io_Type x @ ''['' @ assign_tag i (io_Tag x) @ '']''),
        NewInbound x]) (enumerate 0 (Inbounds options)))"
    by blast
  then show "\<forall>p \<in> set (enumerate 0 (Inbounds options)).
           NewLogger (''inbound/'' @ io_Type (snd p) @ ''['' @ assign_tag (fst p) (io_Tag (snd p)) @ '']'') \<in> set E"
    unfolding E by (auto simp: case_prod_unfold)
  from O have E_out: "E_out = concat (map (\<lambda>(i, x). [NewLogger (''outbound/'' @ oo_Type x @ ''['' @ assign_tag i (oo_Tag x) @ '']''),
        NewOutbound (assign_tag i (oo_Tag x)) x]) (enumerate 0 (Outbounds options)))"
    by blast
  then show "\<forall>p \<in> set (enumerate 0 (Outbounds options)).
           NewLogger (''outbound/'' @ oo_Type (snd p) @ ''['' @ assign_tag (fst p) (oo_Tag (snd p)) @ '']'') \<in> set E"
    unfolding E by (auto simp: case_prod_unfold)
  from P show "\<forall>p \<in> set (enumerate 0 (ProxyProviders options)).
           NewLogger (''proxyprovider['' @ assign_tag (fst p) (ppo_Tag (snd p)) @ '']'') \<in> set E"
    unfolding E by auto
  from P show "\<forall>pp \<in> set (w_proxyProviders w). \<forall>oo \<in> set (provided pp). NewOutbound (oo_Tag oo) oo \<in> set E"
    unfolding E by auto
  from I have "\<forall>e \<in> set E_in. is_construction e"
    by (auto simp: case_prod_unfold)
  moreover from E_out have "\<forall>e \<in> set E_out. is_construction e"
    by (auto simp: case_prod_unfold)
  moreover from R have "\<forall>e \<in> set E_rp. is_construction e"
    by blast
  moreover from P have "\<forall>e \<in> set E_pp. is_construction e"
    by blast
  ultimately show "\<forall>e \<in> set E. is_construction e"
    unfolding E by auto
  from R have t1: "outbound_tags E_rp = []"
    by blast
  have t2: "outbound_tags (map SetRouter ns) = []" for ns
    by (induction ns) simp_all
  from I have "E_in = concat (map (\<lambda>p. [NewLogger (''inbound/'' @ io_Type (snd p) @ ''['' @
        assign_tag (fst p) (io_Tag (snd p)) @ '']''), NewInbound (snd p)]) (enumerate 0 (Inbounds options)))"
    by (auto simp: case_prod_unfold)
  moreover have "outbound_tags (concat (map (\<lambda>x. [NewLogger (name x), NewInbound (opts x)]) xs)) = []"
    for name opts and xs :: "(nat \<times> inbound_options) list"
    by (induction xs) simp_all
  ultimately have t3: "outbound_tags E_in = []"
    by simp
  from E_out have t4: "outbound_tags E_out = map (\<lambda>(i, x). assign_tag i (oo_Tag x)) (enumerate 0 (Outbounds options))"
    using outbound_tags_constructions [of "\<lambda>p. ''outbound/'' @ oo_Type (snd p) @ ''['' @
        assign_tag (fst p) (oo_Tag (snd p)) @ '']''" "\<lambda>p. assign_tag (fst p) (oo_Tag (snd p))" snd
        "enumerate 0 (Outbounds options)"]
    by (simp add: case_prod_unfold)
  from P p(1) have t5: "outbound_tags E_pp = concat (map (\<lambda>pp. map oo_Tag (provided pp)) (w_proxyProviders w))"
    by auto
  show "outbound_tags E =
           map (\<lambda>(i, x). assign_tag i (oo_Tag x)) (enumerate 0 (Outbounds options)) @
           concat (map (\<lambda>pp. map oo_Tag (provided pp)) (w_proxyProviders w))"
    by (simp add: E t1 t2 t3 t4 t5)
qed

lemma Close_names:
  assumes "\<not> done_chan s"
    and "range_order (postServices s) (sch Range_Close_post)"
    and "range_order (preServices s) (sch Range_Close_pre)"
    and "list_all (close_returns s) (close_targets sch s)"
    and "t \<in> set (close_targets sch s)"
  shows "set (close_events s t) \<subseteq> set (fst (snd (Close sch s)))"
    and "set (failure_of s t) \<subseteq> set (case snd (snd (Close sch s)) of Returned errs \<Rightarrow> errs | Panicked v \<Rightarrow> [])"
proof -
  from assms(2,3) have post: "set (sch Range_Close_post) \<subseteq> dom (postServices s)"
    and pre: "set (sch Range_Close_pre) \<subseteq> dom (preServices s)"
    by (simp_all add: range_order_def)
  from assms(4) have ok: "\<forall>t \<in> set (close_targets sch s). close_returns s t"
    by (simp add: list_all_iff)
  have run: "Close sch s = (s\<lparr>done_chan := True\<rparr>, teardown sch s)"
    using assms(1) by (simp add: Close_def)
  from assms(5) show "set (close_events s t) \<subseteq> set (fst (snd (Close sch s)))"
    by (auto simp: run teardown_returns [OF post pre ok])
  from assms(5) show "set (failure_of s t) \<subseteq>
      set (case snd (snd (Close sch s)) of Returned errs \<Rightarrow> errs | Panicked v \<Rightarrow> [])"
    by (auto simp: run teardown_returns [OF post pre ok])
qed


lemma or_return_None:
  assumes "or_return m k = (E, Returned None)"
  shows "\<exists>E1 E2. m = (E1, Returned None) \<and> k = (E2, Returned None) \<and> E = E1 @ E2"
  using assms
  by (cases m; cases "snd m"; cases k)
     (auto simp: or_return_def ret_def split: option.splits)

lemma for_each_None:
  assumes "for_each xs body = (E, Returned None)" and "x \<in> set xs"
  shows "\<exists>Ex. body x = (Ex, Returned None) \<and> set Ex \<subseteq> set E"
  using assms
proof (induction xs arbitrary: E)
  case Nil
  then show ?case by simp
next
  case (Cons y ys)
  from or_return_None [OF Cons.prems(1) [simplified]] obtain E1 E2 where
    s: "body y = (E1, Returned None)" "for_each ys body = (E2, Returned None)" "E = E1 @ E2"
    by blast
  show ?case
  proof (cases "x = y")
    case True
    with s show ?thesis by auto
  next
    case False
    with Cons.prems(2) have "x \<in> set ys" by simp
    from Cons.IH [OF s(2) this] s(3) show ?thesis by auto
  qed
qed

lemma starting_None:
  "starting msg t m oc wrap = (E, Returned None) \<Longrightarrow> E = [Trace msg, Call t m]"
  by (cases oc) (auto simp: starting_def call_def emit_def ret_def)

lemma start_names_inbounds:
  assumes "start sch s = (evs, Returned None)" and "i < length (inbounds s)"
  shows "Trace (''initializing inbound/'' @ in_Type (inbounds s ! i) @ ''['' @
           (if in_Tag (inbounds s ! i) = [] then ToString i else in_Tag (inbounds s ! i)) @ '']'') \<in> set evs"
proof -
  from or_return_None [OF assms(1) [unfolded start_def]] obtain E1 E2 where
    a: "or_return (for_each (range_map (preServices s) (sch Range_start))
        (\<lambda>(serviceName, service).
           starting (''starting '' @ serviceName) (PreService serviceName) MStart (sv_Start service)
             (''start '' @ serviceName)))
    (or_return (for_each (enumerate 0 (proxyProviders s))
        (\<lambda>(i, proxyProvider).
           starting (''starting proxyprovider '' @ pp_Tag proxyProvider) (ProxyProvider i) MStart
             (pp_Start proxyProvider) (''start proxyprovider '' @ pp_Tag proxyProvider)))
    (or_return (for_each (enumerate 0 (ruleProviders s))
        (\<lambda>(i, ruleProvider).
           starting (''starting ruleprovider '' @ rp_Tag ruleProvider) (RuleProvider i) MStart
             (rp_Start ruleProvider) (''start ruleprovider '' @ rp_Tag ruleProvider)))
    (or_return (for_each (enumerate 0 (inbounds s))
        (\<lambda>(i, inb).
           let tag = (if in_Tag inb = [] then ToString i else in_Tag inb) in
           starting (''initializing inbound/'' @ in_Type inb @ ''['' @ tag @ '']'') (Inbound i) MStart
             (in_Start inb) (''initialize inbound/'' @ in_Type inb @ ''['' @ tag @ '']'')))
    (ret None)))) = (E2, Returned None)" and E: "evs = E1 @ E2"
    by blast
  from or_return_None [OF a] obtain E3 E4 where
    b: "or_return (for_each (enumerate 0 (proxyProviders s))
        (\<lambda>(i, proxyProvider).
           starting (''starting proxyprovider '' @ pp_Tag proxyProvider) (ProxyProvider i) MStart
             (pp_Start proxyProvider) (''start proxyprovider '' @ pp_Tag proxyProvider)))
    (or_return (for_each (enumerate 0 (ruleProviders s))
        (\<lambda>(i, ruleProvider).
           starting (''starting ruleprovider '' @ rp_Tag ruleProvider) (RuleProvider i) MStart
             (rp_Start ruleProvider) (''start ruleprovider '' @ rp_Tag ruleProvider)))
    (or_return (for_each (enumerate 0 (inbounds s))
        (\<lambda>(i, inb).
           let tag = (if in_Tag inb = [] then ToString i else in_Tag inb) in
           starting (''initializing inbound/'' @ in_Type inb @ ''['' @ tag @ '']'') (Inbound i) MStart
             (in_Start inb) (''initialize inbound/'' @ in_Type inb @ ''['' @ tag @ '']'')))
    (ret None))) = (E4, Returned None)" and E2: "E2 = E3 @ E4"
    by blast
  from or_return_None [OF b] obtain E5 E6 where
    c: "or_return (for_each (enumerate 0 (ruleProviders s))
        (\<lambda>(i, ruleProvider).
           starting (''starting ruleprovider '' @ rp_Tag ruleProvider) (RuleProvider i) MStart
             (rp_Start ruleProvider) (''start ruleprovider '' @ rp_Tag ruleProvider)))
    (or_return (for_each (enumerate 0 (inbounds s))
        (\<lambda>(i, inb).
           let tag = (if in_Tag inb = [] then ToString i else in_Tag inb) in
           starting (''initializing inbound/'' @ in_Type inb @ ''['' @ tag @ '']'') (Inbound i) MStart
             (in_Start inb) (''initialize inbound/'' @ in_Type inb @ ''['' @ tag @ '']'')))
    (ret None)) = (E6, Returned None)" and E4: "E4 = E5 @ E6"
    by blast
  from or_return_None [OF c] obtain E7 E8 where
    d: "or_return (for_each (enumerate 0 (inbounds s))
        (\<lambda>(i, inb).
           let tag = (if in_Tag inb = [] then ToString i else in_Tag inb) in
           starting (''initializing inbound/'' @ in_Type inb @ ''['' @ tag @ '']'') (Inbound i) MStart
             (in_Start inb) (''initialize inbound/'' @ in_Type inb @ ''['' @ tag @ '']'')))
    (ret None) = (E8, Returned None)" and E6: "E6 = E7 @ E8"
    by blast
  from or_return_None [OF d] obtain E9 where
    e: "for_each (enumerate 0 (inbounds s))
        (\<lambda>(i, inb).
           let tag = (if in_Tag inb = [] then ToString i else in_Tag inb) in
           starting (''initializing inbound/'' @ in_Type inb @ ''['' @ tag @ '']'') (Inbound i) MStart
             (in_Start inb) (''initialize inbound/'' @ in_Type inb @ ''['' @ tag @ '']'')) = (E9, Returned None)"
    and E8: "set E9 \<subseteq> set E8"
    by auto
  from assms(2) have "(i, inbounds s ! i) \<in> set (enumerate 0 (inbounds s))"
    by (simp add: in_set_enumerate_eq)
  from for_each_None [OF e this] obtain Ex where
    "starting (''initializing inbound/'' @ in_Type (inbounds s ! i) @ ''['' @
        (if in_Tag (inbounds s ! i) = [] then ToString i else in_Tag (inbounds s ! i)) @ '']'') (Inbound i) MStart
       (in_Start (inbounds s ! i))
       (''initialize inbound/'' @ in_Type (inbounds s ! i) @ ''['' @
        (if in_Tag (inbounds s ! i) = [] then ToString i else in_Tag (inbounds s ! i)) @ '']'') =
     (Ex, Returned None)" "set Ex \<subseteq> set E9"
    by (auto simp: Let_def)
  from starting_None [OF this(1)] this(2) E8 show ?thesis
    by (auto simp: E E2 E4 E6)
qed


section \<open>Rule providers and FormatRule\<close>

text \<open>
  C5 (as amended). When \<open>New\<close> gets as far as \<open>router.Initialize\<close>, it has called
  \<open>FormatRule\<close> once for every configured rule provider, in index order, whether or not
  the rule lists are empty. Each of the two lists is passed only when it is not empty
  (nil otherwise): no call gets an empty list, and a list that is empty in the
  configuration is never passed. The rule lists the router is built from are those of
  \<open>format_rules\<close>: each provider in turn replaces each list that is not empty by the list
  it returns, and an empty list stays empty.
\<close>

theorem FormatRule_called_for_every_rule_provider:
  assumes "New_wire env options = (E, Returned (Inr w))"
  shows "map fst (format_calls E) = [0..<length (RulProviders options)] \<and>
         length (w_ruleProviders w) = length (RulProviders options) \<and>
         (\<forall>c \<in> set (format_calls E). fst (snd c) \<noteq> Some [] \<and> snd (snd c) \<noteq> Some []) \<and>
         (Route_Rules options = [] \<longrightarrow> (\<forall>c \<in> set (format_calls E). snd (snd c) = None)) \<and>
         (DNS_Rules options = [] \<longrightarrow> (\<forall>c \<in> set (format_calls E). fst (snd c) = None)) \<and>
         (\<exists>route' dns'. format_rules (w_ruleProviders w) (Route_Rules options, DNS_Rules options) = (route', dns') \<and>
            route_NewRouter env route' dns' (Inbounds options) = Inr (w_router w) \<and>
            NewRouter route' dns' \<in> set E)"
proof -
  from New_wire_Inr [OF assms] obtain route' dns' E_rp E_in E_out outs0 E_pp where
    rp: "for_each_try (enumerate 0 (RulProviders options)) (new_ruleProvider env)
        (Route_Rules options, DNS_Rules options, []) =
      (E_rp, Returned (Inr (route', dns', w_ruleProviders w)))"
    and rt: "route_NewRouter env route' dns' (Inbounds options) = Inr (w_router w)"
    and ins: "for_each_try (enumerate 0 (Inbounds options)) (new_inbound env) [] =
      (E_in, Returned (Inr (w_inbounds w)))"
    and outs: "for_each_try (enumerate 0 (Outbounds options)) (new_outbound env) [] =
      (E_out, Returned (Inr outs0))"
    and pps: "for_each_try (enumerate 0 (ProxyProviders options)) (new_proxyProvider env) (outs0, []) =
      (E_pp, Returned (Inr (w_outbounds w, w_proxyProviders w)))"
    and E: "E = E_rp @ [NewRouter route' dns'] @ map SetRouter [0..<length (w_ruleProviders w)] @
      E_in @ E_out @ E_pp"
    by blast
  from inbound_loop [OF ins] have "format_calls E_in = []"
    by (auto simp: format_calls_def)
  moreover from outbound_loop [OF outs] have "format_calls E_out = []"
    by (auto simp: format_calls_def)
  moreover from proxyProvider_loop [OF pps] have "format_calls E_pp = []"
    by blast
  moreover have "format_calls (map SetRouter ns) = []" for ns
    by (induction ns) simp_all
  ultimately have fc: "format_calls E = format_calls E_rp"
    by (simp add: E)
  note L = ruleProvider_loop [OF rp]
  from L obtain ys where ys: "w_ruleProviders w = [] @ ys"
    "map Inr ys = map (\<lambda>(i, x). ruleprovider_NewRuleProvider env
              (''ruleprovider['' @ assign_tag i (rpo_Tag x) @ '']'') (assign_tag i (rpo_Tag x))
              (x\<lparr>rpo_Tag := assign_tag i (rpo_Tag x)\<rparr>)) (enumerate 0 (RulProviders options))"
    "format_rules ys (Route_Rules options, DNS_Rules options) = (route', dns')"
    by blast
  from ys(2) have "length ys = length (RulProviders options)"
    using map_eq_imp_length_eq [OF ys(2)] by simp
  with ys have len: "length (w_ruleProviders w) = length (RulProviders options)"
    and fr: "format_rules (w_ruleProviders w) (Route_Rules options, DNS_Rules options) = (route', dns')"
    by simp_all
  from L have c1: "map fst (format_calls E) = [0..<length (RulProviders options)]"
    and c3: "\<forall>c \<in> set (format_calls E). fst (snd c) \<noteq> Some [] \<and> snd (snd c) \<noteq> Some []"
    and c4: "Route_Rules options = [] \<longrightarrow> (\<forall>c \<in> set (format_calls E). snd (snd c) = None)"
    and c5: "DNS_Rules options = [] \<longrightarrow> (\<forall>c \<in> set (format_calls E). fst (snd c) = None)"
    unfolding fc by simp_all
  have c6: "\<exists>route' dns'. format_rules (w_ruleProviders w) (Route_Rules options, DNS_Rules options) = (route', dns') \<and>
            route_NewRouter env route' dns' (Inbounds options) = Inr (w_router w) \<and>
            NewRouter route' dns' \<in> set E"
    using fr rt by (auto simp: E)
  show ?thesis
    by (intro conjI c1 len c3 c4 c5 c6)
qed

text \<open>
  Two rule providers, one route rule and no DNS rule: both providers are asked, the
  route rules go through both, the DNS rules are never passed.
\<close>

theorem FormatRule_witness:
  "New_wire env_plain options_two_rule_providers =
     (fst (New_wire env_plain options_two_rule_providers),
      Returned (Inr \<lparr>w_logFactory = \<lparr>lf_Close = Returned None\<rparr>,
         w_ruleProviders = [rule_provider_plain ''geo'', rule_provider_plain ''1''],
         w_router = router_plain, w_inbounds = [], w_outbounds = [], w_proxyProviders = []\<rparr>)) \<and>
   format_calls (fst (New_wire env_plain options_two_rule_providers)) =
     [(0, None, Some [''r1'']), (1, None, Some [''r1'', ''geo''])] \<and>
   map fst (format_calls (fst (New_wire env_plain options_two_rule_providers))) =
     [0..<length (RulProviders options_two_rule_providers)] \<and>
   format_rules [rule_provider_plain ''geo'', rule_provider_plain ''1'']
     (Route_Rules options_two_rule_providers, DNS_Rules options_two_rule_providers) =
     ([''r1'', ''geo'', ''1''], [])"
proof -
  have run: "New_wire env_plain options_two_rule_providers =
     (fst (New_wire env_plain options_two_rule_providers),
      Returned (Inr \<lparr>w_logFactory = \<lparr>lf_Close = Returned None\<rparr>,
         w_ruleProviders = [rule_provider_plain ''geo'', rule_provider_plain ''1''],
         w_router = router_plain, w_inbounds = [], w_outbounds = [], w_proxyProviders = []\<rparr>))"
    by (simp add: New_wire_two_rule_providers)
  have calls: "format_calls (fst (New_wire env_plain options_two_rule_providers)) =
     [(0, None, Some [''r1'']), (1, None, Some [''r1'', ''geo''])]"
    by (simp add: New_wire_two_rule_providers)
  have rules: "format_rules [rule_provider_plain ''geo'', rule_provider_plain ''1'']
     (Route_Rules options_two_rule_providers, DNS_Rules options_two_rule_providers) =
     ([''r1'', ''geo'', ''1''], [])"
    by (simp add: options_two_rule_providers_def options_empty_def rule_arg_def)
  from FormatRule_called_for_every_rule_provider [OF run]
  have "map fst (format_calls (fst (New_wire env_plain options_two_rule_providers))) =
     [0..<length (RulProviders options_two_rule_providers)]"
    by blast
  with run calls rules show ?thesis
    by blast
qed

text \<open>
  C5 as stated fails: with one rule provider and both rule lists empty, \<open>New\<close> still
  calls \<open>FormatRule\<close> on the provider, with two nil arguments.
\<close>

theorem FormatRule_called_with_empty_lists:
  "Route_Rules options_one_rule_provider = [] \<and>
   DNS_Rules options_one_rule_provider = [] \<and>
   FormatRule 0 None None \<in> set (fst (New env_plain options_one_rule_provider))"
proof -
  have "Route_Rules options_one_rule_provider = []" "DNS_Rules options_one_rule_provider = []"
    by (simp_all add: options_one_rule_provider_def options_empty_def)
  moreover have "FormatRule 0 None None \<in> set (fst (New env_plain options_one_rule_provider))"
    by (simp add: New_one_rule_provider)
  ultimately show ?thesis
    by blast
qed

section \<open>Tags\<close>

lemma assign_tag_alt: "assign_tag i tag = (if tag = [] then ToString i else tag)"
  by (simp add: assign_tag_def)

lemma in_concat_map: "t \<in> set ts \<Longrightarrow> set (f t) \<subseteq> set (concat (map f ts))"
  by auto

text \<open>
  C4 (as amended). In \<open>New\<close>, the tag of the \<open>i\<close>-th configured inbound, outbound, proxy
  provider or rule provider is its configured tag when that is not empty and the decimal
  index \<open>i\<close> otherwise; \<open>New\<close> names the component's logger with it and, for outbounds and
  providers, constructs the component under it. \<open>start\<close> computes the tag of an inbound
  again, by the same rule from \<open>in.Tag()\<close> and the index. \<open>Close\<close> names an inbound or an
  outbound by its index alone, in its log line and in the wrapping of its close error,
  and a provider by \<open>Tag()\<close>.
\<close>

theorem tags_in_New_start_and_Close:
  "(New_wire env options = (E, Returned (Inr w)) \<longrightarrow>
      map Inr (w_ruleProviders w) =
        map (\<lambda>(i, x). ruleprovider_NewRuleProvider env
              (''ruleprovider['' @ assign_tag i (rpo_Tag x) @ '']'') (assign_tag i (rpo_Tag x))
              (x\<lparr>rpo_Tag := assign_tag i (rpo_Tag x)\<rparr>)) (enumerate 0 (RulProviders options)) \<and>
      map Inr (w_inbounds w) =
        map (\<lambda>(i, x). inbound_New env (''inbound/'' @ io_Type x @ ''['' @ assign_tag i (io_Tag x) @ '']'') x)
          (enumerate 0 (Inbounds options)) \<and>
      map Inr (take (length (Outbounds options)) (w_outbounds w)) =
        map (\<lambda>(i, x). outbound_New env (''outbound/'' @ oo_Type x @ ''['' @ assign_tag i (oo_Tag x) @ '']'')
              (assign_tag i (oo_Tag x)) x) (enumerate 0 (Outbounds options)) \<and>
      map Inr (w_proxyProviders w) =
        map (\<lambda>(i, x). proxyprovider_NewProxyProvider env
              (''proxyprovider['' @ assign_tag i (ppo_Tag x) @ '']'') (assign_tag i (ppo_Tag x))
              (x\<lparr>ppo_Tag := assign_tag i (ppo_Tag x)\<rparr>)) (enumerate 0 (ProxyProviders options))) \<and>
   (start sch s = (evs, Returned None) \<longrightarrow>
      (\<forall>i < length (inbounds s).
         Trace (''initializing inbound/'' @ in_Type (inbounds s ! i) @ ''['' @
                assign_tag i (in_Tag (inbounds s ! i)) @ '']'') \<in> set evs)) \<and>
   (\<not> done_chan s \<and> range_order (postServices s) (sch Range_Close_post) \<and>
    range_order (preServices s) (sch Range_Close_pre) \<and>
    list_all (close_returns s) (close_targets sch s) \<longrightarrow>
      (\<forall>i < length (inbounds s).
         Trace (''closing inbound/'' @ in_Type (inbounds s ! i) @ ''['' @ ToString i @ '']'')
           \<in> set (fst (snd (Close sch s))) \<and>
         failure_of s (Inbound i) =
           (case in_Close (inbounds s ! i) of
              Returned (Some err) \<Rightarrow>
                [Cause err (''close inbound/'' @ in_Type (inbounds s ! i) @ ''['' @ ToString i @ '']'')]
            | _ \<Rightarrow> [])) \<and>
      (\<forall>i < length (outbounds s).
         Trace (''closing outbound/'' @ ob_Type (outbounds s ! i) @ ''['' @ ToString i @ '']'')
           \<in> set (fst (snd (Close sch s))) \<and>
         failure_of s (Outbound i) =
           (case ob_Close (outbounds s ! i) of
              Returned (Some err) \<Rightarrow>
                [Cause err (''close outbound/'' @ ob_Type (outbounds s ! i) @ ''['' @ ToString i @ '']'')]
            | _ \<Rightarrow> [])) \<and>
      (\<forall>i < length (ruleProviders s).
         Trace (''closing ruleprovider '' @ rp_Tag (ruleProviders s ! i)) \<in> set (fst (snd (Close sch s)))) \<and>
      (\<forall>i < length (proxyProviders s).
         Trace (''closing proxyprovider '' @ pp_Tag (proxyProviders s ! i)) \<in> set (fst (snd (Close sch s)))) \<and>
      snd (snd (Close sch s)) = Returned (concat (map (failure_of s) (close_targets sch s))))"
proof (intro conjI impI)
  assume run: "New_wire env options = (E, Returned (Inr w))"
  note B = New_wire_built [OF run]
  show "map Inr (w_ruleProviders w) =
        map (\<lambda>(i, x). ruleprovider_NewRuleProvider env
              (''ruleprovider['' @ assign_tag i (rpo_Tag x) @ '']'') (assign_tag i (rpo_Tag x))
              (x\<lparr>rpo_Tag := assign_tag i (rpo_Tag x)\<rparr>)) (enumerate 0 (RulProviders options))"
    by (rule B(1))
  show "map Inr (w_inbounds w) =
        map (\<lambda>(i, x). inbound_New env (''inbound/'' @ io_Type x @ ''['' @ assign_tag i (io_Tag x) @ '']'') x)
          (enumerate 0 (Inbounds options))"
    by (rule B(2))
  have "length (static_outbounds env options) = length (Outbounds options)"
    by (simp add: static_outbounds_def)
  with arg_cong [OF B(3), of "take (length (Outbounds options))"]
  show "map Inr (take (length (Outbounds options)) (w_outbounds w)) =
        map (\<lambda>(i, x). outbound_New env (''outbound/'' @ oo_Type x @ ''['' @ assign_tag i (oo_Tag x) @ '']'')
              (assign_tag i (oo_Tag x)) x) (enumerate 0 (Outbounds options))"
    by (simp add: take_map static_outbounds_def)
  show "map Inr (w_proxyProviders w) =
        map (\<lambda>(i, x). proxyprovider_NewProxyProvider env
              (''proxyprovider['' @ assign_tag i (ppo_Tag x) @ '']'') (assign_tag i (ppo_Tag x))
              (x\<lparr>ppo_Tag := assign_tag i (ppo_Tag x)\<rparr>)) (enumerate 0 (ProxyProviders options))"
    by (rule B(4))
next
  assume started: "start sch s = (evs, Returned None)"
  show "\<forall>i < length (inbounds s).
         Trace (''initializing inbound/'' @ in_Type (inbounds s ! i) @ ''['' @
                assign_tag i (in_Tag (inbounds s ! i)) @ '']'') \<in> set evs"
  proof (intro allI impI)
    fix i
    assume "i < length (inbounds s)"
    from start_names_inbounds [OF started this]
    show "Trace (''initializing inbound/'' @ in_Type (inbounds s ! i) @ ''['' @
                assign_tag i (in_Tag (inbounds s ! i)) @ '']'') \<in> set evs"
      unfolding assign_tag_alt .
  qed
next
  assume h: "\<not> done_chan s \<and> range_order (postServices s) (sch Range_Close_post) \<and>
    range_order (preServices s) (sch Range_Close_pre) \<and>
    list_all (close_returns s) (close_targets sch s)"
  then have h1: "\<not> done_chan s" and h2: "range_order (postServices s) (sch Range_Close_post)"
    and h3: "range_order (preServices s) (sch Range_Close_pre)"
    and h4: "list_all (close_returns s) (close_targets sch s)"
    by simp_all
  note N = Close_names(1) [OF h1 h2 h3 h4]
  have m: "\<And>i. i < length (inbounds s) \<Longrightarrow> Inbound i \<in> set (close_targets sch s)"
    "\<And>i. i < length (outbounds s) \<Longrightarrow> Outbound i \<in> set (close_targets sch s)"
    "\<And>i. i < length (ruleProviders s) \<Longrightarrow> RuleProvider i \<in> set (close_targets sch s)"
    "\<And>i. i < length (proxyProviders s) \<Longrightarrow> ProxyProvider i \<in> set (close_targets sch s)"
    by (simp_all add: close_targets_def)
  show "\<forall>i < length (inbounds s).
         Trace (''closing inbound/'' @ in_Type (inbounds s ! i) @ ''['' @ ToString i @ '']'')
           \<in> set (fst (snd (Close sch s))) \<and>
         failure_of s (Inbound i) =
           (case in_Close (inbounds s ! i) of
              Returned (Some err) \<Rightarrow>
                [Cause err (''close inbound/'' @ in_Type (inbounds s ! i) @ ''['' @ ToString i @ '']'')]
            | _ \<Rightarrow> [])"
    using N [OF m(1)] by (auto simp: close_events_def failure_of_def close_of_def split: res.splits option.splits)
  show "\<forall>i < length (outbounds s).
         Trace (''closing outbound/'' @ ob_Type (outbounds s ! i) @ ''['' @ ToString i @ '']'')
           \<in> set (fst (snd (Close sch s))) \<and>
         failure_of s (Outbound i) =
           (case ob_Close (outbounds s ! i) of
              Returned (Some err) \<Rightarrow>
                [Cause err (''close outbound/'' @ ob_Type (outbounds s ! i) @ ''['' @ ToString i @ '']'')]
            | _ \<Rightarrow> [])"
    using N [OF m(2)] by (auto simp: close_events_def failure_of_def close_of_def split: res.splits option.splits)
  show "\<forall>i < length (ruleProviders s).
         Trace (''closing ruleprovider '' @ rp_Tag (ruleProviders s ! i)) \<in> set (fst (snd (Close sch s)))"
    using N [OF m(3)] by (auto simp: close_events_def close_of_def)
  show "\<forall>i < length (proxyProviders s).
         Trace (''closing proxyprovider '' @ pp_Tag (proxyProviders s ! i)) \<in> set (fst (snd (Close sch s)))"
    using N [OF m(4)] by (auto simp: close_events_def close_of_def)
  from h2 h3 have post: "set (sch Range_Close_post) \<subseteq> dom (postServices s)"
    and pre: "set (sch Range_Close_pre) \<subseteq> dom (preServices s)"
    by (simp_all add: range_order_def)
  from h4 have ok: "\<forall>t \<in> set (close_targets sch s). close_returns s t"
    by (simp add: list_all_iff)
  from h1 show "snd (snd (Close sch s)) = Returned (concat (map (failure_of s) (close_targets sch s)))"
    by (simp add: Close_def teardown_returns [OF post pre ok])
qed


lemma New_wire_mixed_tags:
  "New_wire env_plain options_mixed_tags =
     ([NewRouter [] [], NewLogger ''inbound/mixed[0]'', NewInbound \<lparr>io_Type = ''mixed'', io_Tag = []\<rparr>,
       NewLogger ''outbound/socks[out]'', NewOutbound ''out'' \<lparr>oo_Type = ''socks'', oo_Tag = ''out''\<rparr>],
      Returned (Inr \<lparr>w_logFactory = logFactory box_mixed_tags, w_ruleProviders = [],
         w_router = router_plain, w_inbounds = inbounds box_mixed_tags,
         w_outbounds = outbounds box_mixed_tags, w_proxyProviders = []\<rparr>))"
  by (simp add: run_New env_plain_def options_mixed_tags_def options_empty_def box_mixed_tags_def)

lemma start_mixed_tags:
  "start sched_none box_mixed_tags =
     ([Call (Outbound 0) MStart, Call Router MStart,
       Trace ''initializing inbound/mixed[0]'', Call (Inbound 0) MStart], Returned None)"
  by (simp add: start_def preStart_def startOutbounds_def starting_def or_return_def call_def emit_def
      ret_def box_mixed_tags_def sched_none_def)

lemma Close_mixed_tags:
  "Close sched_none box_mixed_tags =
     (box_mixed_tags\<lparr>done_chan := True\<rparr>,
      [Trace ''closing inbound/mixed[0]'', Call (Inbound 0) MClose,
       Trace ''closing outbound/socks[0]'', Call (Outbound 0) MClose,
       Trace ''closing router'', Call Router MClose,
       Trace ''closing log factory'', Call LogFactory MClose],
      Returned [])"
  by (simp add: Close_def teardown_def closing_def call_def emit_def ret_def E_Append_def
      box_mixed_tags_def sched_none_def)

text \<open>
  An untagged inbound and an outbound tagged "out", through \<open>New\<close>, \<open>start\<close> and \<open>Close\<close>.
\<close>

theorem tags_witness:
  "New_wire env_plain options_mixed_tags =
     (fst (New_wire env_plain options_mixed_tags),
      Returned (Inr \<lparr>w_logFactory = logFactory box_mixed_tags, w_ruleProviders = [],
         w_router = router_plain, w_inbounds = inbounds box_mixed_tags,
         w_outbounds = outbounds box_mixed_tags, w_proxyProviders = []\<rparr>)) \<and>
   start sched_none box_mixed_tags = (fst (start sched_none box_mixed_tags), Returned None) \<and>
   \<not> done_chan box_mixed_tags \<and>
   range_order (postServices box_mixed_tags) (sched_none Range_Close_post) \<and>
   range_order (preServices box_mixed_tags) (sched_none Range_Close_pre) \<and>
   list_all (close_returns box_mixed_tags) (close_targets sched_none box_mixed_tags) \<and>
   map Inr (inbounds box_mixed_tags) =
     [inbound_New env_plain ''inbound/mixed[0]'' \<lparr>io_Type = ''mixed'', io_Tag = []\<rparr>] \<and>
   map Inr (outbounds box_mixed_tags) =
     [outbound_New env_plain ''outbound/socks[out]'' ''out'' \<lparr>oo_Type = ''socks'', oo_Tag = ''out''\<rparr>] \<and>
   NewLogger ''inbound/mixed[0]'' \<in> set (fst (New_wire env_plain options_mixed_tags)) \<and>
   NewLogger ''outbound/socks[out]'' \<in> set (fst (New_wire env_plain options_mixed_tags)) \<and>
   Trace ''initializing inbound/mixed[0]'' \<in> set (fst (start sched_none box_mixed_tags)) \<and>
   Trace ''closing inbound/mixed[0]'' \<in> set (fst (snd (Close sched_none box_mixed_tags))) \<and>
   Trace ''closing outbound/socks[0]'' \<in> set (fst (snd (Close sched_none box_mixed_tags)))"
proof -
  have hN: "New_wire env_plain options_mixed_tags =
     (fst (New_wire env_plain options_mixed_tags),
      Returned (Inr \<lparr>w_logFactory = logFactory box_mixed_tags, w_ruleProviders = [],
         w_router = router_plain, w_inbounds = inbounds box_mixed_tags,
         w_outbounds = outbounds box_mixed_tags, w_proxyProviders = []\<rparr>))"
    by (simp add: New_wire_mixed_tags)
  have hS: "start sched_none box_mixed_tags = (fst (start sched_none box_mixed_tags), Returned None)"
    by (simp add: start_mixed_tags)
  have h1: "\<not> done_chan box_mixed_tags"
    and h2: "range_order (postServices box_mixed_tags) (sched_none Range_Close_post)"
    and h3: "range_order (preServices box_mixed_tags) (sched_none Range_Close_pre)"
    by (simp_all add: box_mixed_tags_def sched_none_def range_order_def)
  have h4: "list_all (close_returns box_mixed_tags) (close_targets sched_none box_mixed_tags)"
    by (simp add: close_targets_def close_returns_def close_of_def box_mixed_tags_def sched_none_def)
  have len: "length (inbounds box_mixed_tags) = 1" "length (outbounds box_mixed_tags) = 1"
    "in_Type (inbounds box_mixed_tags ! 0) = ''mixed''" "in_Tag (inbounds box_mixed_tags ! 0) = []"
    "ob_Type (outbounds box_mixed_tags ! 0) = ''socks''"
    by (simp_all add: box_mixed_tags_def)
  note T = tags_in_New_start_and_Close [of env_plain options_mixed_tags
      "fst (New_wire env_plain options_mixed_tags)"
      "\<lparr>w_logFactory = logFactory box_mixed_tags, w_ruleProviders = [],
         w_router = router_plain, w_inbounds = inbounds box_mixed_tags,
         w_outbounds = outbounds box_mixed_tags, w_proxyProviders = []\<rparr>"
      sched_none box_mixed_tags "fst (start sched_none box_mixed_tags)"]
  from T hS have "\<forall>i < length (inbounds box_mixed_tags).
         Trace (''initializing inbound/'' @ in_Type (inbounds box_mixed_tags ! i) @ ''['' @
                assign_tag i (in_Tag (inbounds box_mixed_tags ! i)) @ '']'')
           \<in> set (fst (start sched_none box_mixed_tags))"
    by blast
  then have c1: "Trace ''initializing inbound/mixed[0]'' \<in> set (fst (start sched_none box_mixed_tags))"
    by (simp add: len assign_tag_def)
  from T h1 h2 h3 h4 have "\<forall>i < length (inbounds box_mixed_tags).
         Trace (''closing inbound/'' @ in_Type (inbounds box_mixed_tags ! i) @ ''['' @ ToString i @ '']'')
           \<in> set (fst (snd (Close sched_none box_mixed_tags)))"
    by blast
  then have c2: "Trace ''closing inbound/mixed[0]'' \<in> set (fst (snd (Close sched_none box_mixed_tags)))"
    by (simp add: len)
  from T h1 h2 h3 h4 have "\<forall>i < length (outbounds box_mixed_tags).
         Trace (''closing outbound/'' @ ob_Type (outbounds box_mixed_tags ! i) @ ''['' @ ToString i @ '']'')
           \<in> set (fst (snd (Close sched_none box_mixed_tags)))"
    by blast
  then have c3: "Trace ''closing outbound/socks[0]'' \<in> set (fst (snd (Close sched_none box_mixed_tags)))"
    by (simp add: len)
  have c0: "NewLogger ''inbound/mixed[0]'' \<in> set (fst (New_wire env_plain options_mixed_tags))"
    "NewLogger ''outbound/socks[out]'' \<in> set (fst (New_wire env_plain options_mixed_tags))"
    by (simp_all add: New_wire_mixed_tags)
  from T hN have "map Inr (inbounds box_mixed_tags) =
        map (\<lambda>(i, x). inbound_New env_plain (''inbound/'' @ io_Type x @ ''['' @ assign_tag i (io_Tag x) @ '']'') x)
          (enumerate 0 (Inbounds options_mixed_tags))"
    by simp
  then have b1: "map Inr (inbounds box_mixed_tags) =
     [inbound_New env_plain ''inbound/mixed[0]'' \<lparr>io_Type = ''mixed'', io_Tag = []\<rparr>]"
    by (simp add: options_mixed_tags_def options_empty_def assign_tag_def)
  from T hN have "map Inr (take (length (Outbounds options_mixed_tags)) (outbounds box_mixed_tags)) =
        map (\<lambda>(i, x). outbound_New env_plain (''outbound/'' @ oo_Type x @ ''['' @ assign_tag i (oo_Tag x) @ '']'')
              (assign_tag i (oo_Tag x)) x) (enumerate 0 (Outbounds options_mixed_tags))"
    by simp
  then have b2: "map Inr (outbounds box_mixed_tags) =
     [outbound_New env_plain ''outbound/socks[out]'' ''out'' \<lparr>oo_Type = ''socks'', oo_Tag = ''out''\<rparr>]"
    by (simp add: options_mixed_tags_def options_empty_def assign_tag_def len)
  show ?thesis
    by (intro conjI hN hS h1 h2 h3 h4 b1 b2 c0 c1 c2 c3)
qed

lemma New_tagged_inbound:
  "New env_plain options_tagged_inbound =
     ([NewRouter [] [], NewLogger ''inbound/mixed[in]'', NewInbound \<lparr>io_Type = ''mixed'', io_Tag = ''in''\<rparr>,
       Initialize (inbounds box_tagged_inbound) [] [] [],
       DefaultOutbound, NewLogger ''outbound/direct'',
       NewOutbound ''direct'' \<lparr>oo_Type = ''direct'', oo_Tag = ''default''\<rparr>],
      Returned (Inr box_tagged_inbound))"
  by (simp add: run_New env_plain_def options_tagged_inbound_def options_empty_def box_tagged_inbound_def
      outbound_default_def)

text \<open>
  C4 as stated fails: an inbound configured with the tag "in" gets the logger
  "inbound/mixed[in]" in \<open>New\<close> and is started as "inbound/mixed[in]", but \<open>Close\<close> logs it
  as "inbound/mixed[0]": the identity in the \<open>Close\<close> log is the index, not the tag.
\<close>

theorem tagged_inbound_closed_by_index:
  "snd (New env_plain options_tagged_inbound) = Returned (Inr box_tagged_inbound) \<and>
   NewLogger ''inbound/mixed[in]'' \<in> set (fst (New env_plain options_tagged_inbound)) \<and>
   fst (start sched_none box_tagged_inbound) =
     [Call (Outbound 0) MStart, Call Router MStart,
      Trace ''initializing inbound/mixed[in]'', Call (Inbound 0) MStart] \<and>
   fst (snd (Close sched_none box_tagged_inbound)) =
     [Trace ''closing inbound/mixed[0]'', Call (Inbound 0) MClose,
      Trace ''closing outbound/direct[0]'', Call (Outbound 0) MClose,
      Trace ''closing router'', Call Router MClose,
      Trace ''closing log factory'', Call LogFactory MClose]"
proof -
  have "fst (start sched_none box_tagged_inbound) =
     [Call (Outbound 0) MStart, Call Router MStart,
      Trace ''initializing inbound/mixed[in]'', Call (Inbound 0) MStart]"
    by (simp add: start_def preStart_def startOutbounds_def starting_def or_return_def call_def emit_def
      ret_def box_tagged_inbound_def outbound_default_def sched_none_def)
  moreover have "fst (snd (Close sched_none box_tagged_inbound)) =
     [Trace ''closing inbound/mixed[0]'', Call (Inbound 0) MClose,
      Trace ''closing outbound/direct[0]'', Call (Outbound 0) MClose,
      Trace ''closing router'', Call Router MClose,
      Trace ''closing log factory'', Call LogFactory MClose]"
    by (simp add: Close_def teardown_def closing_def call_def emit_def ret_def E_Append_def
      box_tagged_inbound_def outbound_default_def sched_none_def)
  ultimately show ?thesis
    by (simp add: New_tagged_inbound)
qed


section \<open>The outbounds passed to the router\<close>

lemma platform_events: "\<forall>e \<in> set (fst (platform_Initialize options)). \<not> is_Initialize e"
  by (auto simp: platform_Initialize_def emits_def ret_def split: option.splits)

lemma clash_events: "\<forall>e \<in> set (fst (new_clashServer env options m)). \<not> is_Initialize e"
  by (auto simp: new_clashServer_def emits_def attempt_def ret_def split: sum.splits)

lemma v2ray_events: "\<forall>e \<in> set (fst (new_v2rayServer env options m)). \<not> is_Initialize e"
  by (auto simp: new_v2rayServer_def emits_def attempt_def ret_def split: sum.splits)

lemma and_then_events:
  assumes "\<forall>e \<in> set (fst m). P e" and "\<And>x. \<forall>e \<in> set (fst (k x)). P e"
  shows "\<forall>e \<in> set (fst (and_then m k)). P e"
proof (cases m)
  case (Pair E r)
  show ?thesis
  proof (cases r)
    case (Returned v)
    with Pair assms(1) assms(2) show ?thesis
      by (cases v) (auto simp: and_then_def ret_def split: prod.splits, (metis fst_conv)+)
  next
    case (Panicked p)
    with Pair assms(1) show ?thesis
      by (simp add: and_then_def)
  qed
qed

lemma bind_prog_events:
  assumes "\<forall>e \<in> set (fst m). P e" and "\<And>x. \<forall>e \<in> set (fst (k x)). P e"
  shows "\<forall>e \<in> set (fst (bind_prog m k)). P e"
proof (cases m)
  case (Pair E r)
  show ?thesis
  proof (cases r)
    case (Returned v)
    with Pair assms(1) assms(2) [of v] show ?thesis
      by (cases "k v") auto
  next
    case (Panicked p)
    with Pair assms(1) show ?thesis
      by simp
  qed
qed

lemma New_finish_events:
  "\<exists>rest. fst (New_finish env options w) =
      Initialize (w_inbounds w) (w_outbounds w) (w_proxyProviders w) (w_ruleProviders w) # rest \<and>
      (\<forall>e \<in> set rest. \<not> is_Initialize e)"
proof -
  obtain invoked err where init:
    "rt_Initialize (w_router w) (w_inbounds w) (w_outbounds w) (w_proxyProviders w) (w_ruleProviders w) =
      (invoked, err)"
    by (cases "rt_Initialize (w_router w) (w_inbounds w) (w_outbounds w) (w_proxyProviders w) (w_ruleProviders w)")
  have d: "\<forall>e \<in> set (fst (if invoked then default_outbound env (w_outbounds w) else ret (w_outbounds w))).
      \<not> is_Initialize e"
    by (auto simp: default_outbound_def emits_def ret_def raise_def split: sum.splits)
  have k: "\<forall>e \<in> set (fst (case err of Some err \<Rightarrow> ret (Inl err) | None \<Rightarrow>
     and_then (platform_Initialize options) (\<lambda>_.
     and_then (new_clashServer env options Map.empty) (\<lambda>preServices.
     and_then (new_v2rayServer env options preServices) (\<lambda>preServices.
     ret (Inr (mk outs preServices))))))). \<not> is_Initialize e" for outs and mk :: "_ \<Rightarrow> _ \<Rightarrow> Box"
  proof (cases err)
    case None
    have "\<forall>e \<in> set (fst (and_then (platform_Initialize options) (\<lambda>_.
     and_then (new_clashServer env options Map.empty) (\<lambda>preServices.
     and_then (new_v2rayServer env options preServices) (\<lambda>preServices.
     ret (Inr (mk outs preServices))))))). \<not> is_Initialize e"
      by (intro and_then_events platform_events clash_events v2ray_events) (simp add: ret_def)
    with None show ?thesis by simp
  next
    case (Some a)
    then show ?thesis by (simp add: ret_def)
  qed
  show ?thesis
    unfolding New_finish_def init prod.case emits_def
    by (rule exI, rule conjI, simp, rule bind_prog_events [OF d], rule k)
qed


lemma provided_outbounds_length:
  "length (provided_outbounds env pps) = sum_list (map (\<lambda>pp. length (provided pp)) pps)"
  by (simp add: provided_outbounds_def length_concat comp_def)

text \<open>
  C8 (as amended). When \<open>New\<close> reaches \<open>router.Initialize\<close>, it calls it once, and the
  outbound list it passes is made of the outbounds constructed from the static
  \<open>Outbounds\<close> configuration, in index order and each under its assigned tag, followed by
  one outbound for every definition the proxy providers returned from
  \<open>StartGetOutbounds\<close>, providers in index order and each provider's definitions in
  returned order, each constructed under the tag of its own definition as it was
  returned. The list is as long as the static configuration plus all returned
  definitions. The tags the outbounds are constructed under are the assigned static tags
  followed by the returned tags, unchanged: they are distinct exactly when those are.
\<close>

theorem outbounds_passed_to_Initialize:
  assumes "New_wire env options = (E, Returned (Inr w))"
  shows "filter is_Initialize (fst (New env options)) =
           [Initialize (w_inbounds w) (w_outbounds w) (w_proxyProviders w) (w_ruleProviders w)] \<and>
         map Inr (w_outbounds w) = static_outbounds env options @ provided_outbounds env (w_proxyProviders w) \<and>
         map Inr (w_proxyProviders w) =
           map (\<lambda>(i, x). proxyprovider_NewProxyProvider env
              (''proxyprovider['' @ assign_tag i (ppo_Tag x) @ '']'') (assign_tag i (ppo_Tag x))
              (x\<lparr>ppo_Tag := assign_tag i (ppo_Tag x)\<rparr>)) (enumerate 0 (ProxyProviders options)) \<and>
         (\<forall>pp \<in> set (w_proxyProviders w). pp_StartGetOutbounds pp = Inr (provided pp)) \<and>
         length (w_outbounds w) =
           length (Outbounds options) + sum_list (map (\<lambda>pp. length (provided pp)) (w_proxyProviders w)) \<and>
         outbound_tags E =
           map (\<lambda>(i, x). assign_tag i (oo_Tag x)) (enumerate 0 (Outbounds options)) @
           concat (map (\<lambda>pp. map oo_Tag (provided pp)) (w_proxyProviders w))"
proof -
  note B = New_wire_built [OF assms]
  from New_finish_events [of env options w] obtain rest where
    rest: "fst (New_finish env options w) =
      Initialize (w_inbounds w) (w_outbounds w) (w_proxyProviders w) (w_ruleProviders w) # rest"
      "\<forall>e \<in> set rest. \<not> is_Initialize e"
    by blast
  have "\<forall>e \<in> set E. \<not> is_Initialize e"
  proof
    fix e
    assume "e \<in> set E"
    with B(11) have "is_construction e" by blast
    then show "\<not> is_Initialize e" by (cases e) simp_all
  qed
  then have c1: "filter is_Initialize (fst (New env options)) =
           [Initialize (w_inbounds w) (w_outbounds w) (w_proxyProviders w) (w_ruleProviders w)]"
    using rest by (simp add: New_def assms filter_empty_conv [THEN iffD2])
  have "length (map Inr (w_outbounds w) :: (error + _) list) =
      length (static_outbounds env options @ provided_outbounds env (w_proxyProviders w))"
    by (simp only: B(3))
  then have c5: "length (w_outbounds w) =
           length (Outbounds options) + sum_list (map (\<lambda>pp. length (provided pp)) (w_proxyProviders w))"
    by (simp add: static_outbounds_def provided_outbounds_length)
  show ?thesis
    by (intro conjI c1 B(3) B(4) B(5) c5 B(12))
qed

lemma New_wire_two_providers:
  "New_wire env_plain options_two_providers =
     ([NewRouter [] [],
       NewLogger ''outbound/direct[out]'', NewOutbound ''out'' \<lparr>oo_Type = ''direct'', oo_Tag = ''out''\<rparr>,
       NewLogger ''proxyprovider[p1]'', NewProxyProvider ''p1'' \<lparr>ppo_Tag = ''p1''\<rparr>, StartGetOutbounds 0,
       NewLogger ''outbound/socks[p1/a]'', NewOutbound ''p1/a'' \<lparr>oo_Type = ''socks'', oo_Tag = ''p1/a''\<rparr>,
       NewLogger ''outbound/socks[p1/b]'', NewOutbound ''p1/b'' \<lparr>oo_Type = ''socks'', oo_Tag = ''p1/b''\<rparr>,
       NewLogger ''proxyprovider[p2]'', NewProxyProvider ''p2'' \<lparr>ppo_Tag = ''p2''\<rparr>, StartGetOutbounds 1,
       NewLogger ''outbound/socks[p2/a]'', NewOutbound ''p2/a'' \<lparr>oo_Type = ''socks'', oo_Tag = ''p2/a''\<rparr>,
       NewLogger ''outbound/socks[p2/b]'', NewOutbound ''p2/b'' \<lparr>oo_Type = ''socks'', oo_Tag = ''p2/b''\<rparr>],
      Returned (Inr \<lparr>w_logFactory = \<lparr>lf_Close = Returned None\<rparr>, w_ruleProviders = [],
         w_router = router_plain, w_inbounds = [],
         w_outbounds = [outbound_plain ''outbound/direct[out]'' ''out'' ''direct'',
                        outbound_plain ''outbound/socks[p1/a]'' ''p1/a'' ''socks'',
                        outbound_plain ''outbound/socks[p1/b]'' ''p1/b'' ''socks'',
                        outbound_plain ''outbound/socks[p2/a]'' ''p2/a'' ''socks'',
                        outbound_plain ''outbound/socks[p2/b]'' ''p2/b'' ''socks''],
         w_proxyProviders = [proxy_provider_plain ''p1'', proxy_provider_plain ''p2'']\<rparr>))"
  by (simp add: run_New env_plain_def options_two_providers_def options_empty_def outbound_plain_def)

text \<open>
  One static outbound and two providers that each return two definitions tagged after
  the provider: five outbounds are passed, under five different tags.
\<close>

theorem outbounds_passed_witness:
  "New_wire env_plain options_two_providers =
     (fst (New_wire env_plain options_two_providers),
      Returned (Inr \<lparr>w_logFactory = \<lparr>lf_Close = Returned None\<rparr>, w_ruleProviders = [],
         w_router = router_plain, w_inbounds = [],
         w_outbounds = [outbound_plain ''outbound/direct[out]'' ''out'' ''direct'',
                        outbound_plain ''outbound/socks[p1/a]'' ''p1/a'' ''socks'',
                        outbound_plain ''outbound/socks[p1/b]'' ''p1/b'' ''socks'',
                        outbound_plain ''outbound/socks[p2/a]'' ''p2/a'' ''socks'',
                        outbound_plain ''outbound/socks[p2/b]'' ''p2/b'' ''socks''],
         w_proxyProviders = [proxy_provider_plain ''p1'', proxy_provider_plain ''p2'']\<rparr>)) \<and>
   filter is_Initialize (fst (New env_plain options_two_providers)) =
     [Initialize []
        [outbound_plain ''outbound/direct[out]'' ''out'' ''direct'',
         outbound_plain ''outbound/socks[p1/a]'' ''p1/a'' ''socks'',
         outbound_plain ''outbound/socks[p1/b]'' ''p1/b'' ''socks'',
         outbound_plain ''outbound/socks[p2/a]'' ''p2/a'' ''socks'',
         outbound_plain ''outbound/socks[p2/b]'' ''p2/b'' ''socks'']
        [proxy_provider_plain ''p1'', proxy_provider_plain ''p2''] []] \<and>
   outbound_tags (fst (New_wire env_plain options_two_providers)) =
     [''out'', ''p1/a'', ''p1/b'', ''p2/a'', ''p2/b'']"
proof -
  have run: "New_wire env_plain options_two_providers =
     (fst (New_wire env_plain options_two_providers),
      Returned (Inr \<lparr>w_logFactory = \<lparr>lf_Close = Returned None\<rparr>, w_ruleProviders = [],
         w_router = router_plain, w_inbounds = [],
         w_outbounds = [outbound_plain ''outbound/direct[out]'' ''out'' ''direct'',
                        outbound_plain ''outbound/socks[p1/a]'' ''p1/a'' ''socks'',
                        outbound_plain ''outbound/socks[p1/b]'' ''p1/b'' ''socks'',
                        outbound_plain ''outbound/socks[p2/a]'' ''p2/a'' ''socks'',
                        outbound_plain ''outbound/socks[p2/b]'' ''p2/b'' ''socks''],
         w_proxyProviders = [proxy_provider_plain ''p1'', proxy_provider_plain ''p2'']\<rparr>))"
    by (simp add: New_wire_two_providers)
  note T = outbounds_passed_to_Initialize [OF run]
  from T have c1: "filter is_Initialize (fst (New env_plain options_two_providers)) =
     [Initialize []
        [outbound_plain ''outbound/direct[out]'' ''out'' ''direct'',
         outbound_plain ''outbound/socks[p1/a]'' ''p1/a'' ''socks'',
         outbound_plain ''outbound/socks[p1/b]'' ''p1/b'' ''socks'',
         outbound_plain ''outbound/socks[p2/a]'' ''p2/a'' ''socks'',
         outbound_plain ''outbound/socks[p2/b]'' ''p2/b'' ''socks'']
        [proxy_provider_plain ''p1'', proxy_provider_plain ''p2''] []]"
    by simp
  from T have "outbound_tags (fst (New_wire env_plain options_two_providers)) =
      map (\<lambda>(i, x). assign_tag i (oo_Tag x)) (enumerate 0 (Outbounds options_two_providers)) @
      concat (map (\<lambda>pp. map oo_Tag (provided pp)) [proxy_provider_plain ''p1'', proxy_provider_plain ''p2''])"
    by simp
  then have c2: "outbound_tags (fst (New_wire env_plain options_two_providers)) =
     [''out'', ''p1/a'', ''p1/b'', ''p2/a'', ''p2/b'']"
    by (simp add: options_two_providers_def options_empty_def assign_tag_def provided_def)
  show ?thesis
    by (intro conjI run c1 c2)
qed

lemma New_wire_same_tags:
  "New_wire env_same_tags options_two_providers =
     ([NewRouter [] [],
       NewLogger ''outbound/direct[out]'', NewOutbound ''out'' \<lparr>oo_Type = ''direct'', oo_Tag = ''out''\<rparr>,
       NewLogger ''proxyprovider[p1]'', NewProxyProvider ''p1'' \<lparr>ppo_Tag = ''p1''\<rparr>, StartGetOutbounds 0,
       NewLogger ''outbound/socks[a]'', NewOutbound ''a'' \<lparr>oo_Type = ''socks'', oo_Tag = ''a''\<rparr>,
       NewLogger ''outbound/socks[b]'', NewOutbound ''b'' \<lparr>oo_Type = ''socks'', oo_Tag = ''b''\<rparr>,
       NewLogger ''proxyprovider[p2]'', NewProxyProvider ''p2'' \<lparr>ppo_Tag = ''p2''\<rparr>, StartGetOutbounds 1,
       NewLogger ''outbound/socks[a]'', NewOutbound ''a'' \<lparr>oo_Type = ''socks'', oo_Tag = ''a''\<rparr>,
       NewLogger ''outbound/socks[b]'', NewOutbound ''b'' \<lparr>oo_Type = ''socks'', oo_Tag = ''b''\<rparr>],
      Returned (Inr \<lparr>w_logFactory = \<lparr>lf_Close = Returned None\<rparr>, w_ruleProviders = [],
         w_router = router_plain, w_inbounds = [],
         w_outbounds = [outbound_plain ''outbound/direct[out]'' ''out'' ''direct'',
                        outbound_plain ''outbound/socks[a]'' ''a'' ''socks'',
                        outbound_plain ''outbound/socks[b]'' ''b'' ''socks'',
                        outbound_plain ''outbound/socks[a]'' ''a'' ''socks'',
                        outbound_plain ''outbound/socks[b]'' ''b'' ''socks''],
         w_proxyProviders = [proxy_provider_fixed ''p1'', proxy_provider_fixed ''p2'']\<rparr>))"
  by (simp add: run_New env_same_tags_def env_plain_def options_two_providers_def options_empty_def
      outbound_plain_def proxy_provider_fixed_def)

lemma options_two_providers_services:
  "\<not> needClashAPI options_two_providers" "\<not> needV2RayAPI options_two_providers"
  "PlatformInterface options_two_providers = None"
  by (simp_all add: needClashAPI_def needV2RayAPI_def options_two_providers_def options_empty_def)

lemma New_same_tags:
  "fst (New env_same_tags options_two_providers) =
     fst (New_wire env_same_tags options_two_providers) @
     [Initialize []
        [outbound_plain ''outbound/direct[out]'' ''out'' ''direct'',
         outbound_plain ''outbound/socks[a]'' ''a'' ''socks'',
         outbound_plain ''outbound/socks[b]'' ''b'' ''socks'',
         outbound_plain ''outbound/socks[a]'' ''a'' ''socks'',
         outbound_plain ''outbound/socks[b]'' ''b'' ''socks'']
        [proxy_provider_fixed ''p1'', proxy_provider_fixed ''p2''] []]"
  by (simp add: New_def New_wire_same_tags New_finish_def emits_def ret_def
      platform_Initialize_def new_clashServer_def new_v2rayServer_def options_two_providers_services
      and_then_def)

text \<open>
  C8 as stated fails: when the two providers return definitions with the same tags, the
  four provider-supplied outbounds passed to \<open>router.Initialize\<close> are not distinctly
  tagged.
\<close>

theorem provider_outbounds_share_tags:
  "filter is_Initialize (fst (New env_same_tags options_two_providers)) =
     [Initialize []
        [outbound_plain ''outbound/direct[out]'' ''out'' ''direct'',
         outbound_plain ''outbound/socks[a]'' ''a'' ''socks'',
         outbound_plain ''outbound/socks[b]'' ''b'' ''socks'',
         outbound_plain ''outbound/socks[a]'' ''a'' ''socks'',
         outbound_plain ''outbound/socks[b]'' ''b'' ''socks'']
        [proxy_provider_fixed ''p1'', proxy_provider_fixed ''p2''] []] \<and>
   map ob_Tag
        [outbound_plain ''outbound/direct[out]'' ''out'' ''direct'',
         outbound_plain ''outbound/socks[a]'' ''a'' ''socks'',
         outbound_plain ''outbound/socks[b]'' ''b'' ''socks'',
         outbound_plain ''outbound/socks[a]'' ''a'' ''socks'',
         outbound_plain ''outbound/socks[b]'' ''b'' ''socks''] = [''out'', ''a'', ''b'', ''a'', ''b''] \<and>
   outbound_tags (fst (New env_same_tags options_two_providers)) = [''out'', ''a'', ''b'', ''a'', ''b''] \<and>
   \<not> distinct [''out'', ''a'', ''b'', ''a'', ''b'']"
  by (simp add: New_same_tags New_wire_same_tags outbound_plain_def)


section \<open>The default outbound\<close>

lemma count_list_distinct:
  "distinct xs \<Longrightarrow> x \<in> set xs \<Longrightarrow> count_list xs x = 1"
  by (induction xs) (auto simp: count_list_0_iff)

lemma count_list_calls:
  "count_list evs (Call t m) = count_list (calls evs) (Call t m)"
  by (induction evs) auto

lemma Close_calls_once:
  assumes "\<not> done_chan s"
    and "range_order (postServices s) (sch Range_Close_post)"
    and "range_order (preServices s) (sch Range_Close_pre)"
    and "list_all (close_returns s) (close_targets sch s)"
    and "t \<in> set (close_targets sch s)"
  shows "count_list (fst (snd (Close sch s))) (Call t MClose) = 1"
proof -
  from assms(2,3) have post: "set (sch Range_Close_post) \<subseteq> dom (postServices s)"
    and pre: "set (sch Range_Close_pre) \<subseteq> dom (preServices s)"
    and d: "distinct (close_targets sch s)"
    by (simp_all add: range_order_def distinct_close_targets)
  from assms(4) have ok: "\<forall>t \<in> set (close_targets sch s). close_returns s t"
    by (simp add: list_all_iff)
  then have held: "\<forall>t \<in> set (close_targets sch s). close_of s t \<noteq> None"
    by (auto simp: close_returns_def split: option.splits)
  have "calls (fst (snd (Close sch s))) = map (\<lambda>t. Call t MClose) (close_targets sch s)"
    using assms(1) by (simp add: Close_def teardown_returns [OF post pre ok] calls_close_events [OF held])
  moreover have "distinct (map (\<lambda>t. Call t MClose) (close_targets sch s))"
    using d by (simp add: distinct_map inj_on_def)
  moreover have "Call t MClose \<in> set (map (\<lambda>t. Call t MClose) (close_targets sch s))"
    using assms(5) by simp
  ultimately show ?thesis
    by (simp only: count_list_calls [of "fst (snd (Close sch s))"] count_list_distinct)
qed

text \<open>
  C7 (as amended). When the wiring of \<open>New\<close> succeeded, the router invokes the
  default-outbound factory in \<open>Initialize\<close>, and \<open>New\<close> returns a Box: the factory ran
  once, right after the call of \<open>Initialize\<close>; it asked \<open>outbound.New\<close> for an outbound
  under the logger "outbound/direct" and the tag "direct", from the options of type
  "direct" whose \<open>Tag\<close> is "default"; the Box's outbounds are those the router was given
  followed by the outbound it got; and a first \<open>Close\<close> of that Box in which no close
  panics calls the close of that outbound exactly once.
\<close>

theorem default_outbound_built_once_and_closed:
  assumes "New_wire env options = (E1, Returned (Inr w))"
    and "fst (rt_Initialize (w_router w) (w_inbounds w) (w_outbounds w) (w_proxyProviders w)
           (w_ruleProviders w))"
    and "New env options = (E, Returned (Inr b))"
  shows "count_list E DefaultOutbound = 1 \<and>
         take (length E1 + 4) E =
           E1 @ [Initialize (w_inbounds w) (w_outbounds w) (w_proxyProviders w) (w_ruleProviders w),
                 DefaultOutbound, NewLogger ''outbound/direct'', NewOutbound ''direct'' default_options] \<and>
         oo_Type default_options = ''direct'' \<and> oo_Tag default_options = ''default'' \<and>
         outbound_New env ''outbound/direct'' ''direct'' default_options = Inr (last (outbounds b)) \<and>
         outbounds b = w_outbounds w @ [last (outbounds b)] \<and>
         \<not> done_chan b \<and>
         (range_order (postServices b) (sch Range_Close_post) \<and>
          range_order (preServices b) (sch Range_Close_pre) \<and>
          list_all (close_returns b) (close_targets sch b) \<longrightarrow>
            count_list (fst (snd (Close sch b))) (Call (Outbound (length (w_outbounds w))) MClose) = 1)"
proof -
  from and_then_Inr [OF assms(3) [unfolded New_def]] obtain E1' w' E2 where
    wire': "New_wire env options = (E1', Returned (Inr w'))"
    and fin': "New_finish env options w' = (E2, Returned (Inr b))"
    and E': "E = E1' @ E2"
    by blast
  from wire' assms(1) have same: "E1' = E1" "w' = w"
    by simp_all
  note wire = assms(1)
  from fin' E' have fin: "New_finish env options w = (E2, Returned (Inr b))" and E: "E = E1 @ E2"
    by (simp_all add: same)
  have no1: "DefaultOutbound \<notin> set E1"
  proof
    assume "DefaultOutbound \<in> set E1"
    with New_wire_built(11) [OF wire] have "is_construction DefaultOutbound" by blast
    then show False by simp
  qed
  from New_finish_Inr [OF fin] obtain invoked E3 m where
    init: "rt_Initialize (w_router w) (w_inbounds w) (w_outbounds w) (w_proxyProviders w) (w_ruleProviders w) =
      (invoked, None)"
    and inv: "if invoked
     then \<exists>out. outbound_New env ''outbound/direct'' ''direct'' default_options = Inr out \<and>
            outbounds b = w_outbounds w @ [out]
     else outbounds b = w_outbounds w"
    and E2: "E2 = Initialize (w_inbounds w) (w_outbounds w) (w_proxyProviders w) (w_ruleProviders w) #
        (if invoked then [DefaultOutbound, NewLogger ''outbound/direct'', NewOutbound ''direct'' default_options]
         else []) @ E3"
    and no2: "DefaultOutbound \<notin> set E3"
    and b: "b = \<lparr>router = w_router w, inbounds = w_inbounds w, outbounds = outbounds b,
            proxyProviders = w_proxyProviders w, ruleProviders = w_ruleProviders w,
            logFactory = w_logFactory w, preServices = m, postServices = Map.empty,
            reloadChan = make_chan 1, done_chan = False\<rparr>"
    by blast
  from assms(2) init have invoked: invoked
    by simp
  from no1 no2 have c1: "count_list E DefaultOutbound = 1"
    by (simp add: E E2 invoked count_list_0_iff)
  have c2: "take (length E1 + 4) E =
           E1 @ [Initialize (w_inbounds w) (w_outbounds w) (w_proxyProviders w) (w_ruleProviders w),
                 DefaultOutbound, NewLogger ''outbound/direct'', NewOutbound ''direct'' default_options]"
    by (simp add: E E2 invoked)
  from inv invoked obtain out where
    out: "outbound_New env ''outbound/direct'' ''direct'' default_options = Inr out"
    "outbounds b = w_outbounds w @ [out]"
    by auto
  then have c4: "outbound_New env ''outbound/direct'' ''direct'' default_options = Inr (last (outbounds b))"
    and c5: "outbounds b = w_outbounds w @ [last (outbounds b)]"
    by simp_all
  have c3: "oo_Type default_options = ''direct''" "oo_Tag default_options = ''default''"
    by (simp_all add: default_options_def)
  have c6: "\<not> done_chan b"
    by (subst b) simp
  have c7: "range_order (postServices b) (sch Range_Close_post) \<and>
          range_order (preServices b) (sch Range_Close_pre) \<and>
          list_all (close_returns b) (close_targets sch b) \<longrightarrow>
            count_list (fst (snd (Close sch b))) (Call (Outbound (length (w_outbounds w))) MClose) = 1"
  proof
    assume h: "range_order (postServices b) (sch Range_Close_post) \<and>
          range_order (preServices b) (sch Range_Close_pre) \<and>
          list_all (close_returns b) (close_targets sch b)"
    from out(2) have "Outbound (length (w_outbounds w)) \<in> set (close_targets sch b)"
      by (simp add: close_targets_def)
    with h c6 show "count_list (fst (snd (Close sch b))) (Call (Outbound (length (w_outbounds w))) MClose) = 1"
      by (intro Close_calls_once) simp_all
  qed
  show ?thesis
    by (intro conjI c1 c2 c3 c4 c5 c6 c7)
qed

lemma New_wire_empty:
  "New_wire env_plain options_empty =
     ([NewRouter [] []],
      Returned (Inr \<lparr>w_logFactory = \<lparr>lf_Close = Returned None\<rparr>, w_ruleProviders = [],
         w_router = router_plain, w_inbounds = [], w_outbounds = [], w_proxyProviders = []\<rparr>))"
  by (simp add: run_New env_plain_def options_empty_def)

lemma New_empty:
  "New env_plain options_empty =
     ([NewRouter [] [], Initialize [] [] [] [], DefaultOutbound, NewLogger ''outbound/direct'',
       NewOutbound ''direct'' default_options],
      Returned (Inr box_default_only))"
  by (simp add: run_New env_plain_def options_empty_def box_default_only_def outbound_plain_def)

text \<open>
  The empty configuration, with a router that asks for the default outbound when it is
  given no outbound: the Box holds the one outbound the factory built, and \<open>Close\<close>
  closes it.
\<close>

theorem default_outbound_witness:
  "New_wire env_plain options_empty =
     ([NewRouter [] []],
      Returned (Inr \<lparr>w_logFactory = \<lparr>lf_Close = Returned None\<rparr>, w_ruleProviders = [],
         w_router = router_plain, w_inbounds = [], w_outbounds = [], w_proxyProviders = []\<rparr>)) \<and>
   fst (rt_Initialize router_plain [] [] [] []) \<and>
   New env_plain options_empty =
     ([NewRouter [] [], Initialize [] [] [] [], DefaultOutbound, NewLogger ''outbound/direct'',
       NewOutbound ''direct'' default_options],
      Returned (Inr box_default_only)) \<and>
   outbounds box_default_only = [outbound_plain ''outbound/direct'' ''direct'' ''direct''] \<and>
   outbound_New env_plain ''outbound/direct'' ''direct'' default_options =
     Inr (outbound_plain ''outbound/direct'' ''direct'' ''direct'') \<and>
   range_order (postServices box_default_only) (sched_none Range_Close_post) \<and>
   range_order (preServices box_default_only) (sched_none Range_Close_pre) \<and>
   list_all (close_returns box_default_only) (close_targets sched_none box_default_only) \<and>
   count_list (fst (snd (Close sched_none box_default_only))) (Call (Outbound 0) MClose) = 1"
proof -
  let ?w = "\<lparr>w_logFactory = \<lparr>lf_Close = Returned None\<rparr>, w_ruleProviders = [],
         w_router = router_plain, w_inbounds = [], w_outbounds = [], w_proxyProviders = []\<rparr>"
  have a: "fst (rt_Initialize router_plain [] [] [] [])"
    by simp
  then have a': "fst (rt_Initialize (w_router ?w) (w_inbounds ?w) (w_outbounds ?w) (w_proxyProviders ?w)
           (w_ruleProviders ?w))"
    by simp
  have o: "outbounds box_default_only = [outbound_plain ''outbound/direct'' ''direct'' ''direct'']"
    by (simp add: box_default_only_def)
  have h2: "range_order (postServices box_default_only) (sched_none Range_Close_post)"
    and h3: "range_order (preServices box_default_only) (sched_none Range_Close_pre)"
    by (simp_all add: box_default_only_def sched_none_def range_order_def)
  have h4: "list_all (close_returns box_default_only) (close_targets sched_none box_default_only)"
    by (simp add: close_targets_def close_returns_def close_of_def box_default_only_def sched_none_def
        outbound_plain_def)
  note T = default_outbound_built_once_and_closed [OF New_wire_empty a' New_empty, of sched_none]
  from T have c3: "outbound_New env_plain ''outbound/direct'' ''direct'' default_options =
     Inr (outbound_plain ''outbound/direct'' ''direct'' ''direct'')"
    by (simp add: o)
  from T h2 h3 h4 have c6: "count_list (fst (snd (Close sched_none box_default_only))) (Call (Outbound 0) MClose) = 1"
    by simp
  show ?thesis
    by (intro conjI New_wire_empty a New_empty o c3 h2 h3 h4 c6)
qed

text \<open>
  C7 as stated fails: the factory constructs the outbound under the tag "direct", and
  "default" is only the \<open>Tag\<close> field of the options it passes. With a constructor that
  gives an outbound the tag it is constructed under, as \<open>New\<close> relies on for every
  configured outbound, the Box holds no outbound tagged "default".
\<close>

theorem default_outbound_tagged_direct:
  "fst (rt_Initialize router_plain [] [] [] []) \<and>
   New env_plain options_empty =
     ([NewRouter [] [], Initialize [] [] [] [], DefaultOutbound, NewLogger ''outbound/direct'',
       NewOutbound ''direct'' default_options],
      Returned (Inr box_default_only)) \<and>
   map ob_Tag (outbounds box_default_only) = [''direct''] \<and>
   ''default'' \<notin> set (map ob_Tag (outbounds box_default_only))"
  by (simp add: New_empty box_default_only_def outbound_plain_def)


section \<open>A default outbound that cannot be built\<close>

lemma and_then_returns:
  assumes "\<exists>x. snd m = Returned x" and "\<And>x. \<exists>y. snd (k x) = Returned y"
  shows "\<exists>y. snd (and_then m k) = Returned y"
proof -
  from assms(1) obtain E r where m: "m = (E, Returned r)"
    by (cases m) auto
  show ?thesis
  proof (cases r)
    case (Inl err)
    with m show ?thesis by (simp add: and_then_def ret_def)
  next
    case (Inr x)
    with m assms(2) [of x] show ?thesis by simp
  qed
qed

lemma platform_returns: "\<exists>y. snd (platform_Initialize options) = Returned y"
  by (simp add: platform_Initialize_def emits_def ret_def split: option.splits)

lemma clash_returns: "\<exists>y. snd (new_clashServer env options m) = Returned y"
  by (simp add: new_clashServer_def emits_def attempt_def ret_def split: sum.splits)

lemma v2ray_returns: "\<exists>y. snd (new_v2rayServer env options m) = Returned y"
  by (simp add: new_v2rayServer_def emits_def attempt_def ret_def split: sum.splits)

lemma services_no_panic:
  "snd (and_then (platform_Initialize options) (\<lambda>_.
     and_then (new_clashServer env options Map.empty) (\<lambda>preServices.
     and_then (new_v2rayServer env options preServices) (\<lambda>preServices.
     ret (Inr (mk preServices)))))) \<noteq> Panicked v"
proof -
  have "\<exists>y. snd (and_then (platform_Initialize options) (\<lambda>_.
     and_then (new_clashServer env options Map.empty) (\<lambda>preServices.
     and_then (new_v2rayServer env options preServices) (\<lambda>preServices.
     ret (Inr (mk preServices)))))) = Returned y"
    by (intro and_then_returns platform_returns clash_returns v2ray_returns) (simp add: ret_def)
  then show ?thesis by auto
qed

text \<open>
  C10. The default-outbound factory hands the router an outbound or panics, it has no
  error result: its outcome is the panic of \<open>common.Must\<close> when \<open>outbound.New\<close> fails
  and the outbound list with the new outbound appended otherwise. So when the wiring
  succeeded, the router invokes the factory and \<open>outbound.New\<close> fails with \<open>oErr\<close>,
  \<open>New\<close> does not return: it panics with \<open>oErr\<close> right after the call. And this is the
  only panic of \<open>New\<close> after the wiring: if \<open>New\<close> panics there, the router invoked the
  factory and the construction of the direct outbound failed.
\<close>

theorem default_outbound_failure_panics:
  "default_outbound env outs =
     ([DefaultOutbound, NewLogger ''outbound/direct'', NewOutbound ''direct'' default_options],
      (case outbound_New env ''outbound/direct'' ''direct'' default_options of
         Inl oErr \<Rightarrow> Panicked (PanicError oErr)
       | Inr out \<Rightarrow> Returned (outs @ [out]))) \<and>
   (New_wire env options = (E, Returned (Inr w)) \<and>
    fst (rt_Initialize (w_router w) (w_inbounds w) (w_outbounds w) (w_proxyProviders w) (w_ruleProviders w)) \<and>
    outbound_New env ''outbound/direct'' ''direct'' default_options = Inl oErr \<longrightarrow>
      New env options =
        (E @ [Initialize (w_inbounds w) (w_outbounds w) (w_proxyProviders w) (w_ruleProviders w),
              DefaultOutbound, NewLogger ''outbound/direct'', NewOutbound ''direct'' default_options],
         Panicked (PanicError oErr))) \<and>
   (New_wire env options = (E, Returned (Inr w)) \<and> snd (New env options) = Panicked v \<longrightarrow>
      fst (rt_Initialize (w_router w) (w_inbounds w) (w_outbounds w) (w_proxyProviders w) (w_ruleProviders w)) \<and>
      (\<exists>oErr. outbound_New env ''outbound/direct'' ''direct'' default_options = Inl oErr \<and>
         v = PanicError oErr))"
proof -
  have factory: "default_outbound env outs =
     ([DefaultOutbound, NewLogger ''outbound/direct'', NewOutbound ''direct'' default_options],
      (case outbound_New env ''outbound/direct'' ''direct'' default_options of
         Inl oErr \<Rightarrow> Panicked (PanicError oErr)
       | Inr out \<Rightarrow> Returned (outs @ [out])))"
    by (simp add: default_outbound_def emits_def raise_def ret_def split: sum.splits)
  have fails: "New env options =
        (E @ [Initialize (w_inbounds w) (w_outbounds w) (w_proxyProviders w) (w_ruleProviders w),
              DefaultOutbound, NewLogger ''outbound/direct'', NewOutbound ''direct'' default_options],
         Panicked (PanicError oErr))"
    if h: "New_wire env options = (E, Returned (Inr w))"
      "fst (rt_Initialize (w_router w) (w_inbounds w) (w_outbounds w) (w_proxyProviders w) (w_ruleProviders w))"
      "outbound_New env ''outbound/direct'' ''direct'' default_options = Inl oErr"
  proof -
    from h(2) obtain err where "rt_Initialize (w_router w) (w_inbounds w) (w_outbounds w) (w_proxyProviders w)
        (w_ruleProviders w) = (True, err)"
      by (cases "rt_Initialize (w_router w) (w_inbounds w) (w_outbounds w) (w_proxyProviders w) (w_ruleProviders w)")
         auto
    with h(1,3) show ?thesis
      by (simp add: New_def New_finish_def default_outbound_def emits_def raise_def)
  qed
  have only: "fst (rt_Initialize (w_router w) (w_inbounds w) (w_outbounds w) (w_proxyProviders w)
      (w_ruleProviders w)) \<and>
      (\<exists>oErr. outbound_New env ''outbound/direct'' ''direct'' default_options = Inl oErr \<and>
         v = PanicError oErr)"
    if h1: "New_wire env options = (E, Returned (Inr w))" and h2: "snd (New env options) = Panicked v"
  proof -
    obtain invoked err where init: "rt_Initialize (w_router w) (w_inbounds w) (w_outbounds w)
        (w_proxyProviders w) (w_ruleProviders w) = (invoked, err)"
      by (cases "rt_Initialize (w_router w) (w_inbounds w) (w_outbounds w) (w_proxyProviders w) (w_ruleProviders w)")
    from h2 have p: "snd (New_finish env options w) = Panicked v"
      by (simp add: New_def h1)
    have rest: "snd (case err of Some err \<Rightarrow> ret (Inl err) | None \<Rightarrow>
       and_then (platform_Initialize options) (\<lambda>_.
       and_then (new_clashServer env options Map.empty) (\<lambda>preServices.
       and_then (new_v2rayServer env options preServices) (\<lambda>preServices.
       ret (Inr (mk outs preServices)))))) \<noteq> Panicked v" for outs and mk :: "_ \<Rightarrow> _ \<Rightarrow> Box"
      using services_no_panic [of options env "mk outs" v]
      by (cases err) (simp_all add: ret_def)
    let ?mk = "\<lambda>outs m. \<lparr>router = w_router w, inbounds = w_inbounds w, outbounds = outs,
              proxyProviders = w_proxyProviders w, ruleProviders = w_ruleProviders w,
              logFactory = w_logFactory w, preServices = m, postServices = Map.empty,
              reloadChan = make_chan 1, done_chan = False\<rparr>"
    have inv: invoked
    proof (rule ccontr)
      assume "\<not> invoked"
      with p init rest [of ?mk "w_outbounds w"] show False
        by (simp add: New_finish_def emits_def ret_def)
    qed
    have "\<exists>oErr. outbound_New env ''outbound/direct'' ''direct'' default_options = Inl oErr \<and> v = PanicError oErr"
    proof (cases "outbound_New env ''outbound/direct'' ''direct'' default_options")
      case (Inl oErr)
      with p init inv show ?thesis
        by (simp add: New_finish_def default_outbound_def emits_def raise_def)
    next
      case (Inr out)
      with p init inv rest [of ?mk "w_outbounds w @ [out]"] show ?thesis
        by (simp add: New_finish_def default_outbound_def emits_def ret_def split: prod.splits)
    qed
    with inv init show ?thesis
      by simp
  qed
  show ?thesis
    apply (intro conjI)
      apply (rule factory)
     apply (rule impI)
     apply (elim conjE)
     apply (rule fails; assumption)
    apply (rule impI)
    apply (elim conjE)
    apply (rule only; assumption)
    done
qed

lemma New_wire_no_outbound:
  "New_wire env_no_outbound options_empty =
     ([NewRouter [] []],
      Returned (Inr \<lparr>w_logFactory = \<lparr>lf_Close = Returned None\<rparr>, w_ruleProviders = [],
         w_router = router_plain, w_inbounds = [], w_outbounds = [], w_proxyProviders = []\<rparr>))"
  by (simp add: run_New env_no_outbound_def env_plain_def options_empty_def)

text \<open>
  The empty configuration in an environment whose \<open>outbound.New\<close> fails: \<open>New\<close>
  panics with the construction error.
\<close>

theorem default_outbound_failure_witness:
  "New_wire env_no_outbound options_empty =
     ([NewRouter [] []],
      Returned (Inr \<lparr>w_logFactory = \<lparr>lf_Close = Returned None\<rparr>, w_ruleProviders = [],
         w_router = router_plain, w_inbounds = [], w_outbounds = [], w_proxyProviders = []\<rparr>)) \<and>
   fst (rt_Initialize router_plain [] [] [] []) \<and>
   outbound_New env_no_outbound ''outbound/direct'' ''direct'' default_options = Inl (Msg ''no outbound'') \<and>
   New env_no_outbound options_empty =
     ([NewRouter [] [], Initialize [] [] [] [], DefaultOutbound, NewLogger ''outbound/direct'',
       NewOutbound ''direct'' default_options],
      Panicked (PanicError (Msg ''no outbound'')))"
proof -
  have h2: "fst (rt_Initialize router_plain [] [] [] [])"
    by simp
  have h3: "outbound_New env_no_outbound ''outbound/direct'' ''direct'' default_options =
      Inl (Msg ''no outbound'')"
    by (simp add: env_no_outbound_def)
  let ?w = "\<lparr>w_logFactory = \<lparr>lf_Close = Returned None\<rparr>, w_ruleProviders = [],
         w_router = router_plain, w_inbounds = [], w_outbounds = [], w_proxyProviders = []\<rparr>"
  note T = default_outbound_failure_panics [of env_no_outbound "[]" options_empty "[NewRouter [] []]" ?w
      "Msg ''no outbound''" "PanicError (Msg ''no outbound'')"]
  from T have "New_wire env_no_outbound options_empty = ([NewRouter [] []], Returned (Inr ?w)) \<and>
    fst (rt_Initialize (w_router ?w) (w_inbounds ?w) (w_outbounds ?w) (w_proxyProviders ?w) (w_ruleProviders ?w)) \<and>
    outbound_New env_no_outbound ''outbound/direct'' ''direct'' default_options = Inl (Msg ''no outbound'') \<longrightarrow>
      New env_no_outbound options_empty =
        ([NewRouter [] []] @ [Initialize (w_inbounds ?w) (w_outbounds ?w) (w_proxyProviders ?w) (w_ruleProviders ?w),
              DefaultOutbound, NewLogger ''outbound/direct'', NewOutbound ''direct'' default_options],
         Panicked (PanicError (Msg ''no outbound'')))"
    by (rule conjunct2 [THEN conjunct1])
  with New_wire_no_outbound h2 h3
  have "New env_no_outbound options_empty =
     ([NewRouter [] [], Initialize [] [] [] [], DefaultOutbound, NewLogger ''outbound/direct'',
       NewOutbound ''direct'' default_options],
      Panicked (PanicError (Msg ''no outbound'')))"
    by simp
  with New_wire_no_outbound h2 h3 show ?thesis
    by blast
qed


section \<open>The order of the services\<close>

lemma range_order_unique:
  assumes "range_order m ks" and "range_order m ks'" and "card (dom m) \<le> 1"
  shows "ks = ks'"
proof -
  from assms(1,2) have d: "distinct ks" "distinct ks'" and s: "set ks = set ks'" "set ks = dom m"
    by (simp_all add: range_order_def)
  from d s assms(3) have "length ks \<le> 1" "length ks' \<le> 1"
    by (metis distinct_card)+
  with s(1) show ?thesis
    by (cases ks; cases ks') (auto split: if_splits)
qed

lemma New_services:
  assumes "New env options = (E, Returned (Inr b))"
  shows "postServices b = Map.empty \<and> dom (preServices b) \<subseteq> {''clash api'', ''v2ray api''}"
proof -
  from and_then_Inr [OF assms [unfolded New_def]] obtain E1 w E2 where
    fin: "New_finish env options w = (E2, Returned (Inr b))"
    by blast
  from New_finish_Inr [OF fin] obtain m where
    b: "b = \<lparr>router = w_router w, inbounds = w_inbounds w, outbounds = outbounds b,
            proxyProviders = w_proxyProviders w, ruleProviders = w_ruleProviders w,
            logFactory = w_logFactory w, preServices = m, postServices = Map.empty,
            reloadChan = make_chan 1, done_chan = False\<rparr>"
    and m: "dom m \<subseteq> {''clash api'', ''v2ray api''}"
    by blast
  have "postServices b = Map.empty"
    by (subst b) simp
  moreover have "preServices b = m"
    by (subst b) simp
  ultimately show ?thesis
    using m by simp
qed

lemma Close_calls:
  assumes "\<not> done_chan s"
    and "range_order (postServices s) (sch Range_Close_post)"
    and "range_order (preServices s) (sch Range_Close_pre)"
    and "list_all (close_returns s) (close_targets sch s)"
  shows "calls (fst (snd (Close sch s))) = map (\<lambda>t. Call t MClose) (close_targets sch s)"
proof -
  from assms(2,3) have post: "set (sch Range_Close_post) \<subseteq> dom (postServices s)"
    and pre: "set (sch Range_Close_pre) \<subseteq> dom (preServices s)"
    by (simp_all add: range_order_def)
  from assms(4) have ok: "\<forall>t \<in> set (close_targets sch s). close_returns s t"
    by (simp add: list_all_iff)
  then have held: "\<forall>t \<in> set (close_targets sch s). close_of s t \<noteq> None"
    by (auto simp: close_returns_def split: option.splits)
  show ?thesis
    using assms(1) by (simp add: Close_def teardown_returns [OF post pre ok] calls_close_events [OF held])
qed

text \<open>
  C6 (as amended). The pre-services and post-services are Go maps, and a \<open>range\<close> over
  a map yields its keys in an order that is not specified. Whatever two orders the
  ranges of two executions take: when each collection holds at most one service,
  \<open>preStart\<close>, \<open>start\<close>, \<open>postStart\<close> and \<open>Close\<close> do the same in both; a first
  \<open>Close\<close> in which no close panics calls the same closes in both, each once. A Box
  built by \<open>New\<close> has no post-service and no pre-service other than "clash api" and
  "v2ray api".
\<close>

theorem service_order_is_map_iteration_order:
  assumes "valid_schedule sch s" and "valid_schedule sch' s"
  shows "(card (dom (preServices s)) \<le> 1 \<and> card (dom (postServices s)) \<le> 1 \<longrightarrow>
            preStart sch s = preStart sch' s \<and> start sch s = start sch' s \<and>
            postStart sch s = postStart sch' s \<and> Close sch s = Close sch' s) \<and>
         (\<not> done_chan s \<and> list_all (close_returns s) (close_targets sch s) \<longrightarrow>
            distinct (calls (fst (snd (Close sch s)))) \<and>
            distinct (calls (fst (snd (Close sch' s)))) \<and>
            set (calls (fst (snd (Close sch s)))) = set (calls (fst (snd (Close sch' s))))) \<and>
         (New env options = (E, Returned (Inr s)) \<longrightarrow>
            postServices s = Map.empty \<and> dom (preServices s) \<subseteq> {''clash api'', ''v2ray api''})"
proof -
  from assms have r: "range_order (preServices s) (sch Range_preStart)"
      "range_order (preServices s) (sch Range_start)"
      "range_order (postServices s) (sch Range_postStart)"
      "range_order (postServices s) (sch Range_Close_post)"
      "range_order (preServices s) (sch Range_Close_pre)"
    and r': "range_order (preServices s) (sch' Range_preStart)"
      "range_order (preServices s) (sch' Range_start)"
      "range_order (postServices s) (sch' Range_postStart)"
      "range_order (postServices s) (sch' Range_Close_post)"
      "range_order (preServices s) (sch' Range_Close_pre)"
    by (simp_all add: valid_schedule_def)
  have same: "preStart sch s = preStart sch' s \<and> start sch s = start sch' s \<and>
            postStart sch s = postStart sch' s \<and> Close sch s = Close sch' s"
    if c: "card (dom (preServices s)) \<le> 1" "card (dom (postServices s)) \<le> 1"
  proof -
    have e: "sch Range_preStart = sch' Range_preStart" "sch Range_start = sch' Range_start"
      "sch Range_postStart = sch' Range_postStart" "sch Range_Close_post = sch' Range_Close_post"
      "sch Range_Close_pre = sch' Range_Close_pre"
      using r r' c by (blast intro: range_order_unique)+
    show ?thesis
      by (simp add: preStart_def start_def postStart_def Close_def teardown_def e)
  qed
  have sets: "distinct (calls (fst (snd (Close sch s)))) \<and>
            distinct (calls (fst (snd (Close sch' s)))) \<and>
            set (calls (fst (snd (Close sch s)))) = set (calls (fst (snd (Close sch' s))))"
    if h: "\<not> done_chan s" "list_all (close_returns s) (close_targets sch s)"
  proof -
    have t: "set (close_targets sch s) = subsystems s" "set (close_targets sch' s) = subsystems s"
      using r r' by (simp_all add: range_order_def set_close_targets)
    with h(2) have h': "list_all (close_returns s) (close_targets sch' s)"
      by (simp add: list_all_iff)
    have d: "distinct (close_targets sch s)" "distinct (close_targets sch' s)"
      using r r' by (simp_all add: range_order_def distinct_close_targets)
    have c: "calls (fst (snd (Close sch s))) = map (\<lambda>t. Call t MClose) (close_targets sch s)"
      "calls (fst (snd (Close sch' s))) = map (\<lambda>t. Call t MClose) (close_targets sch' s)"
      using h h' r r' by (simp_all add: Close_calls)
    show ?thesis
      using d t by (simp add: c distinct_map inj_on_def)
  qed
  have built: "postServices s = Map.empty \<and> dom (preServices s) \<subseteq> {''clash api'', ''v2ray api''}"
    if "New env options = (E, Returned (Inr s))"
    using that by (rule New_services)
  show ?thesis
    apply (intro conjI)
      apply (rule impI)
      apply (elim conjE)
      apply (rule same; assumption)
     apply (rule impI)
     apply (elim conjE)
     apply (rule sets; assumption)
    apply (rule impI)
    apply (rule built; assumption)
    done
qed


lemma New_clash_api:
  "New env_plain options_clash_api =
     ([NewRouter [] [], Initialize [] [] [] [], DefaultOutbound, NewLogger ''outbound/direct'',
       NewOutbound ''direct'' default_options, NewClashServer, SetClashServer],
      Returned (Inr box_clash_api))"
  by (simp add: run_New env_plain_def options_clash_api_def options_empty_def box_clash_api_def
      outbound_plain_def platform_Initialize_def new_clashServer_def new_v2rayServer_def
      needClashAPI_def needV2RayAPI_def)

lemma New_both_apis:
  "New env_plain options_both_apis =
     ([NewRouter [] [], Initialize [] [] [] [], DefaultOutbound, NewLogger ''outbound/direct'',
       NewOutbound ''direct'' default_options, NewClashServer, SetClashServer,
       NewLogger ''v2ray-api'', NewV2RayServer, SetV2RayServer],
      Returned (Inr box_both_apis))"
  by (simp add: run_New env_plain_def options_both_apis_def options_empty_def box_both_apis_def
      outbound_plain_def platform_Initialize_def new_clashServer_def new_v2rayServer_def
      needClashAPI_def needV2RayAPI_def)

lemma valid_both_apis:
  "valid_schedule sched_clash_first box_both_apis" "valid_schedule sched_v2ray_first box_both_apis"
  by (auto simp: valid_schedule_def range_order_def box_both_apis_def sched_clash_first_def
      sched_v2ray_first_def)

lemma valid_clash_api:
  "valid_schedule sched_one box_clash_api" "valid_schedule sched_clash_only box_clash_api"
  by (auto simp: valid_schedule_def range_order_def box_clash_api_def sched_one_def
      sched_clash_only_def)

lemma start_both_apis:
  "start sched_clash_first box_both_apis =
     ([Call (Outbound 0) MStart, Call Router MStart,
       Trace ''starting clash api'', Call (PreService ''clash api'') MStart,
       Trace ''starting v2ray api'', Call (PreService ''v2ray api'') MStart], Returned None)"
  "start sched_v2ray_first box_both_apis =
     ([Call (Outbound 0) MStart, Call Router MStart,
       Trace ''starting v2ray api'', Call (PreService ''v2ray api'') MStart,
       Trace ''starting clash api'', Call (PreService ''clash api'') MStart], Returned None)"
  by (simp_all add: start_def preStart_def startOutbounds_def starting_def or_return_def call_def emit_def
      ret_def box_both_apis_def sched_clash_first_def sched_v2ray_first_def service_ok_def
      outbound_plain_def)

lemma Close_both_apis:
  "Close sched_clash_first box_both_apis =
     (box_both_apis\<lparr>done_chan := True\<rparr>,
      [Trace ''closing outbound/direct[0]'', Call (Outbound 0) MClose,
       Trace ''closing router'', Call Router MClose,
       Trace ''closing clash api'', Call (PreService ''clash api'') MClose,
       Trace ''closing v2ray api'', Call (PreService ''v2ray api'') MClose,
       Trace ''closing log factory'', Call LogFactory MClose],
      Returned [])"
  "Close sched_v2ray_first box_both_apis =
     (box_both_apis\<lparr>done_chan := True\<rparr>,
      [Trace ''closing outbound/direct[0]'', Call (Outbound 0) MClose,
       Trace ''closing router'', Call Router MClose,
       Trace ''closing v2ray api'', Call (PreService ''v2ray api'') MClose,
       Trace ''closing clash api'', Call (PreService ''clash api'') MClose,
       Trace ''closing log factory'', Call LogFactory MClose],
      Returned [])"
  by (simp_all add: Close_def teardown_def closing_def call_def emit_def ret_def E_Append_def
      box_both_apis_def sched_clash_first_def sched_v2ray_first_def service_ok_def outbound_plain_def)

text \<open>
  C6 as stated fails: the Box \<open>New\<close> builds with both APIs registers "clash api" before
  "v2ray api", and both iteration orders of its pre-service map are possible; \<open>start\<close>
  and \<open>Close\<close> visit the two services in the order of the iteration, so two executions
  need not agree and need not follow the registration order.
\<close>

theorem services_visited_in_either_order:
  "New env_plain options_both_apis =
     ([NewRouter [] [], Initialize [] [] [] [], DefaultOutbound, NewLogger ''outbound/direct'',
       NewOutbound ''direct'' default_options, NewClashServer, SetClashServer,
       NewLogger ''v2ray-api'', NewV2RayServer, SetV2RayServer],
      Returned (Inr box_both_apis)) \<and>
   valid_schedule sched_clash_first box_both_apis \<and>
   valid_schedule sched_v2ray_first box_both_apis \<and>
   calls (fst (start sched_clash_first box_both_apis)) =
     [Call (Outbound 0) MStart, Call Router MStart,
      Call (PreService ''clash api'') MStart, Call (PreService ''v2ray api'') MStart] \<and>
   calls (fst (start sched_v2ray_first box_both_apis)) =
     [Call (Outbound 0) MStart, Call Router MStart,
      Call (PreService ''v2ray api'') MStart, Call (PreService ''clash api'') MStart] \<and>
   calls (fst (snd (Close sched_clash_first box_both_apis))) =
     [Call (Outbound 0) MClose, Call Router MClose,
      Call (PreService ''clash api'') MClose, Call (PreService ''v2ray api'') MClose,
      Call LogFactory MClose] \<and>
   calls (fst (snd (Close sched_v2ray_first box_both_apis))) =
     [Call (Outbound 0) MClose, Call Router MClose,
      Call (PreService ''v2ray api'') MClose, Call (PreService ''clash api'') MClose,
      Call LogFactory MClose] \<and>
   start sched_clash_first box_both_apis \<noteq> start sched_v2ray_first box_both_apis \<and>
   Close sched_clash_first box_both_apis \<noteq> Close sched_v2ray_first box_both_apis"
  by (simp add: New_both_apis valid_both_apis start_both_apis Close_both_apis)

text \<open>
  The Box with the Clash API alone is started and closed in one way; the Box with both
  APIs closes the same subsystems under both iteration orders.
\<close>

theorem service_order_witness:
  "valid_schedule sched_one box_clash_api \<and>
   valid_schedule sched_clash_only box_clash_api \<and>
   card (dom (preServices box_clash_api)) \<le> 1 \<and>
   card (dom (postServices box_clash_api)) \<le> 1 \<and>
   New env_plain options_clash_api =
     ([NewRouter [] [], Initialize [] [] [] [], DefaultOutbound, NewLogger ''outbound/direct'',
       NewOutbound ''direct'' default_options, NewClashServer, SetClashServer],
      Returned (Inr box_clash_api)) \<and>
   start sched_one box_clash_api = start sched_clash_only box_clash_api \<and>
   Close sched_one box_clash_api = Close sched_clash_only box_clash_api \<and>
   postServices box_clash_api = Map.empty \<and>
   dom (preServices box_clash_api) \<subseteq> {''clash api'', ''v2ray api''} \<and>
   valid_schedule sched_clash_first box_both_apis \<and>
   valid_schedule sched_v2ray_first box_both_apis \<and>
   \<not> done_chan box_both_apis \<and>
   list_all (close_returns box_both_apis) (close_targets sched_clash_first box_both_apis) \<and>
   distinct (calls (fst (snd (Close sched_clash_first box_both_apis)))) \<and>
   set (calls (fst (snd (Close sched_clash_first box_both_apis)))) =
     set (calls (fst (snd (Close sched_v2ray_first box_both_apis))))"
proof -
  have c: "card (dom (preServices box_clash_api)) \<le> 1" "card (dom (postServices box_clash_api)) \<le> 1"
    by (simp_all add: box_clash_api_def)
  have h1: "\<not> done_chan box_both_apis"
    by (simp add: box_both_apis_def)
  have h2: "list_all (close_returns box_both_apis) (close_targets sched_clash_first box_both_apis)"
    by (simp add: close_targets_def close_returns_def close_of_def box_both_apis_def
        sched_clash_first_def outbound_plain_def service_ok_def)
  note T1 = service_order_is_map_iteration_order [OF valid_clash_api, of env_plain options_clash_api
      "[NewRouter [] [], Initialize [] [] [] [], DefaultOutbound, NewLogger ''outbound/direct'',
       NewOutbound ''direct'' default_options, NewClashServer, SetClashServer]"]
  note T2 = service_order_is_map_iteration_order [OF valid_both_apis, of env_plain options_both_apis "[]"]
  from T1 c have a: "start sched_one box_clash_api = start sched_clash_only box_clash_api"
    "Close sched_one box_clash_api = Close sched_clash_only box_clash_api"
    by blast+
  from T1 New_clash_api have b: "postServices box_clash_api = Map.empty"
    "dom (preServices box_clash_api) \<subseteq> {''clash api'', ''v2ray api''}"
    by blast+
  from T2 h1 h2 have d: "distinct (calls (fst (snd (Close sched_clash_first box_both_apis))))"
    "set (calls (fst (snd (Close sched_clash_first box_both_apis)))) =
     set (calls (fst (snd (Close sched_v2ray_first box_both_apis))))"
    by blast+
  show ?thesis
    by (intro conjI valid_clash_api c New_clash_api a b valid_both_apis h1 h2 d)
qed


section \<open>The reload channel\<close>

lemma chan_step_bounded:
  "pending c \<le> capacity c \<Longrightarrow>
   pending (chan_step c op) \<le> capacity (chan_step c op) \<and> capacity (chan_step c op) = capacity c"
  by (cases op) (auto simp: chan_step_def post_def receive_def)

lemma chan_steps_bounded:
  "pending c \<le> capacity c \<Longrightarrow>
   pending (foldl chan_step c ops) \<le> capacity c \<and> capacity (foldl chan_step c ops) = capacity c"
proof (induction ops arbitrary: c)
  case Nil
  then show ?case by simp
next
  case (Cons op ops)
  from chan_step_bounded [OF Cons.prems, of op]
  have b: "pending (chan_step c op) \<le> capacity (chan_step c op)"
    and c: "capacity (chan_step c op) = capacity c"
    by simp_all
  from Cons.IH [OF b] show ?case
    by (simp add: c)
qed

lemma New_reloadChan:
  assumes "New env options = (E, Returned (Inr b))"
  shows "reloadChan b = make_chan 1"
proof -
  from and_then_Inr [OF assms [unfolded New_def]] obtain E1 w E2 where
    fin: "New_finish env options w = (E2, Returned (Inr b))"
    by blast
  from New_finish_Inr [OF fin] obtain m where
    b: "b = \<lparr>router = w_router w, inbounds = w_inbounds w, outbounds = outbounds b,
            proxyProviders = w_proxyProviders w, ruleProviders = w_ruleProviders w,
            logFactory = w_logFactory w, preServices = m, postServices = Map.empty,
            reloadChan = make_chan 1, done_chan = False\<rparr>"
    by blast
  show ?thesis
    by (subst b) simp
qed

text \<open>
  C9. The reload channel of a Box built by \<open>New\<close> is made with capacity 1 and empty.
  Whatever posts and reads follow, at most one notification waits in it; the first post
  into the empty channel is taken, a second post before any read is dropped and leaves
  exactly one notification waiting; a post into a full channel changes nothing and
  returns. \<open>ReloadChan\<close> hands out the receive-only view of that channel: a receive
  through it takes one notification away and never adds one, and blocks exactly when
  none waits.
\<close>

theorem reload_holds_at_most_one_notification:
  "(New env options = (E, Returned (Inr b)) \<longrightarrow>
      reloadChan b = make_chan 1 \<and>
      pending (foldl chan_step (reloadChan b) ops) \<le> 1 \<and>
      fst (post (fst (post (reloadChan b)))) = \<lparr>capacity = 1, pending = 1\<rparr> \<and>
      snd (post (reloadChan b)) \<and>
      \<not> snd (post (fst (post (reloadChan b))))) \<and>
   (pending c = capacity c \<longrightarrow> post c = (c, False)) \<and>
   ReloadChan s = RecvOnly (reloadChan s) \<and>
   (receive (ReloadChan s) = Some r \<longrightarrow>
      pending (chan_of r) < pending (reloadChan s) \<and> capacity (chan_of r) = capacity (reloadChan s)) \<and>
   (receive (ReloadChan s) = None \<longleftrightarrow> pending (reloadChan s) = 0)"
proof -
  have built: "reloadChan b = make_chan 1 \<and>
      pending (foldl chan_step (reloadChan b) ops) \<le> 1 \<and>
      fst (post (fst (post (reloadChan b)))) = \<lparr>capacity = 1, pending = 1\<rparr> \<and>
      snd (post (reloadChan b)) \<and>
      \<not> snd (post (fst (post (reloadChan b))))"
    if h: "New env options = (E, Returned (Inr b))"
  proof -
    from h have c: "reloadChan b = make_chan 1"
      by (rule New_reloadChan)
    have "pending (foldl chan_step (make_chan 1) ops) \<le> capacity (make_chan 1)"
      using chan_steps_bounded [of "make_chan 1" ops] by (simp add: make_chan_def)
    then have p: "pending (foldl chan_step (make_chan 1) ops) \<le> 1"
      by (simp add: make_chan_def)
    show ?thesis
      using p by (simp add: c) (simp add: make_chan_def post_def)
  qed
  have full: "post c = (c, False)" if "pending c = capacity c"
    using that by (simp add: post_def)
  have view: "ReloadChan s = RecvOnly (reloadChan s)"
    by (simp add: ReloadChan_def)
  have takes: "pending (chan_of r) < pending (reloadChan s) \<and> capacity (chan_of r) = capacity (reloadChan s)"
    if "receive (ReloadChan s) = Some r"
    using that by (auto simp: ReloadChan_def receive_def split: if_splits)
  have blocks: "receive (ReloadChan s) = None \<longleftrightarrow> pending (reloadChan s) = 0"
    by (simp add: ReloadChan_def receive_def)
  show ?thesis
    apply (intro conjI)
        apply (rule impI)
        apply (rule built; assumption)
       apply (rule impI)
       apply (rule full; assumption)
      apply (rule view)
     apply (rule impI)
     apply (rule takes; assumption)
    apply (rule blocks)
    done
qed

text \<open>
  The Box of the empty configuration: two posts leave one notification, five operations
  leave at most one, and the caller's read takes the one that waits.
\<close>

theorem reload_witness:
  "New env_plain options_empty =
     ([NewRouter [] [], Initialize [] [] [] [], DefaultOutbound, NewLogger ''outbound/direct'',
       NewOutbound ''direct'' default_options],
      Returned (Inr box_default_only)) \<and>
   reloadChan box_default_only = make_chan 1 \<and>
   pending (foldl chan_step (reloadChan box_default_only) [Post, Post, Read, Post, Post]) \<le> 1 \<and>
   foldl chan_step (reloadChan box_default_only) [Post, Post] = \<lparr>capacity = 1, pending = 1\<rparr> \<and>
   pending \<lparr>capacity = 1, pending = 1\<rparr> = capacity \<lparr>capacity = 1, pending = 1\<rparr> \<and>
   post \<lparr>capacity = 1, pending = 1\<rparr> = (\<lparr>capacity = 1, pending = 1\<rparr>, False) \<and>
   receive (ReloadChan box_reload_pending) = Some (RecvOnly (make_chan 1)) \<and>
   pending (chan_of (RecvOnly (make_chan 1))) < pending (reloadChan box_reload_pending)"
proof -
  note T = reload_holds_at_most_one_notification [of env_plain options_empty
      "[NewRouter [] [], Initialize [] [] [] [], DefaultOutbound, NewLogger ''outbound/direct'',
       NewOutbound ''direct'' default_options]" box_default_only "[Post, Post, Read, Post, Post]"
      "\<lparr>capacity = 1, pending = 1\<rparr>" box_reload_pending "RecvOnly (make_chan 1)"]
  have f: "pending \<lparr>capacity = 1, pending = 1\<rparr> = capacity \<lparr>capacity = 1, pending = 1\<rparr>"
    by simp
  have rc: "receive (ReloadChan box_reload_pending) = Some (RecvOnly (make_chan 1))"
    by (simp add: receive_def ReloadChan_def box_reload_pending_def box_default_only_def post_def
        make_chan_def)
  from T New_empty have a: "reloadChan box_default_only = make_chan 1"
    "pending (foldl chan_step (reloadChan box_default_only) [Post, Post, Read, Post, Post]) \<le> 1"
    "fst (post (fst (post (reloadChan box_default_only)))) = \<lparr>capacity = 1, pending = 1\<rparr>"
    by blast+
  from a(3) have two: "foldl chan_step (reloadChan box_default_only) [Post, Post] = \<lparr>capacity = 1, pending = 1\<rparr>"
    by (simp add: chan_step_def)
  from T f have d: "post \<lparr>capacity = 1, pending = 1\<rparr> = (\<lparr>capacity = 1, pending = 1\<rparr>, False)"
    by blast
  from T rc have e: "pending (chan_of (RecvOnly (make_chan 1))) < pending (reloadChan box_reload_pending)"
    by blast
  show ?thesis
    by (intro conjI New_empty a(1) a(2) two f d rc e)
qed


end
